theory Spec2Isabelle
  imports Main "HOL-Library.AList"
begin

section \<open>Values shared by the scenario compiler and the scenario runner\<close>

text \<open>
  JSON data (\<^verbatim>\<open>VarValue\<close>, and the \<^verbatim>\<open>any\<close> of fixture parameters). Numbers are
  integers here; no definition below does arithmetic on them.
\<close>

datatype jsval =
    JNull
  | JBool bool
  | JNum int
  | JStr string
  | JArr "jsval list"
  | JObj "(string \<times> jsval) list"

text \<open>JavaScript truthiness of a property read: \<^verbatim>\<open>if (obj[key])\<close>, with \<open>None\<close> for
  \<^verbatim>\<open>undefined\<close>.\<close>

fun truthy :: "jsval option \<Rightarrow> bool" where
  "truthy None = False"
| "truthy (Some JNull) = False"
| "truthy (Some (JBool b)) = b"
| "truthy (Some (JNum n)) = (n \<noteq> 0)"
| "truthy (Some (JStr s)) = (s \<noteq> [])"
| "truthy (Some (JArr _)) = True"
| "truthy (Some (JObj _)) = True"

text \<open>A JavaScript \<^verbatim>\<open>Error\<close>: every \<^verbatim>\<open>throw\<close> of the source is a left injection
  carrying one. The frames of the engine's stack trace are left out of \<open>stack\<close>.\<close>

record JsError =
  message :: string
  stack :: string

definition new_Error :: "string \<Rightarrow> JsError" where
  "new_Error msg = \<lparr>message = msg, stack = ''Error: '' @ msg\<rparr>"

subsection \<open>apiScenarioTypes.ts\<close>

datatype JsonPatchOp =
    JsonPatchOpAdd string jsval
  | JsonPatchOpRemove string
  | JsonPatchOpReplace string jsval
  | JsonPatchOpCopy string string
  | JsonPatchOpMove string string
  | JsonPatchOpTest string

text \<open>\<^verbatim>\<open>Variable\<close>: the union is discriminated by the string \<^verbatim>\<open>type\<close>; the source compares
  that tag with string literals, and so does the model. An absent property is \<open>None\<close>.\<close>

record Variable =
  var_type :: string
  var_value :: "jsval option"
  prefix :: "string option"
  patches :: "JsonPatchOp list option"

datatype RawVariable = RawString string | RawTyped Variable

text \<open>A JavaScript object used as a dictionary is an association list in insertion order
  (the order \<^verbatim>\<open>Object.entries\<close> and \<^verbatim>\<open>Object.keys\<close> iterate in); \<^verbatim>\<open>obj[k] = v\<close> is
  \<^term>\<open>AList.update\<close> and \<^verbatim>\<open>obj[k]\<close> is \<^term>\<open>map_of\<close>.\<close>

record VariableScope =
  variables :: "(string \<times> Variable) list"
  requiredVariables :: "string list"
  secretVariables :: "string list"

record OutputVariable =
  out_type :: "string option"
  fromRequest :: string
  fromResponse :: string

text \<open>swaggerTypes.ts is not among the sources; these are the fields of \<^verbatim>\<open>Parameter\<close>,
  \<^verbatim>\<open>Operation\<close> and \<^verbatim>\<open>SwaggerExample\<close> that the compiler and the runner read.\<close>

record Parameter =
  param_name :: string
  param_in :: string
  required :: bool

record Operation =
  op_operationId :: string
  op_method :: string
  op_pathTemplate :: string
  op_parameters :: "Parameter list option"

record ExampleResponse =
  resp_headers :: "(string \<times> string) list option"
  resp_body :: "jsval option"

record SwaggerExample =
  ex_operationId :: "string option"
  ex_parameters :: "(string \<times> jsval) list"
  ex_responses :: "(string \<times> ExampleResponse) list"

record ArmParameter =
  arm_type :: string
  defaultValue :: "jsval option"

record ArmScriptEnv =
  env_name :: string
  env_value :: "string option"
  env_secureValue :: "string option"

record ArmResource =
  res_name :: string
  res_kind :: "string option"
  azPowerShellVersion :: "string option"
  azCliVersion :: "string option"
  scriptContent :: "string option"
  arguments :: "string option"
  environmentVariables :: "ArmScriptEnv list option"

record ArmTemplate =
  arm_parameters :: "(string \<times> ArmParameter) list option"
  arm_outputs :: "(string \<times> string) list option"
  arm_resources :: "ArmResource list option"

text \<open>\<^verbatim>\<open>StepBase\<close> with the properties both step variants declare.\<close>

record StepBase = VariableScope +
  step :: string
  description :: "string option"
  outputVariables :: "(string \<times> OutputVariable) list option"
  isPrepareStep :: "bool option"
  isCleanUpStep :: "bool option"

text \<open>\<^verbatim>\<open>operation\<close> is \<open>None\<close> for the empty object \<^verbatim>\<open>{} as Operation\<close> the compiler leaves
  when \<^verbatim>\<open>includeOperation\<close> is off.\<close>

record StepRestCall = StepBase +
  operationId :: string
  operation :: "Operation option"
  exampleFile :: "string option"
  parameters :: "(string \<times> jsval) list"
  responses :: "(string \<times> ExampleResponse) list"
  responseAssertion :: "jsval option"
  externalReference :: "bool option"
  resolvedParameters :: "(string \<times> jsval) list option"

record StepArmTemplate = StepBase +
  armTemplate :: string
  armTemplatePayload :: ArmTemplate

datatype Step = RestCall StepRestCall | ArmTemplateDeployment StepArmTemplate

fun step_name :: "Step \<Rightarrow> string" where
  "step_name (RestCall s) = step s"
| "step_name (ArmTemplateDeployment s) = step s"

fun step_variables :: "Step \<Rightarrow> (string \<times> Variable) list" where
  "step_variables (RestCall s) = variables s"
| "step_variables (ArmTemplateDeployment s) = variables s"

text \<open>A raw step is one object; which of the four kinds it is depends on which of the four
  discriminating properties it has, so they are all optional here.\<close>

record RawStep =
  raw_variables :: "(string \<times> RawVariable) list option"
  raw_step :: "string option"
  raw_description :: "string option"
  raw_outputVariables :: "(string \<times> OutputVariable) list option"
  raw_operationId :: "string option"
  raw_readmeTag :: "string option"
  raw_parameters :: "(string \<times> jsval) list option"
  raw_responses :: "jsval option"
  raw_exampleFile :: "string option"
  raw_requestUpdate :: "JsonPatchOp list option"
  raw_responseUpdate :: "JsonPatchOp list option"
  raw_armTemplate :: "string option"
  raw_armDeploymentScript :: "string option"
  raw_arguments :: "string option"
  raw_environmentVariables :: "(string \<times> string) list option"

record RawScenario =
  rawsc_variables :: "(string \<times> RawVariable) list option"
  rawsc_scenario :: "string option"
  rawsc_shareScope :: "bool option"
  rawsc_description :: "string option"
  rawsc_steps :: "RawStep list"

text \<open>\<^verbatim>\<open>Scenario._scenarioDef\<close> points back at the definition that holds the scenario; the
  model passes the definition beside the scenario instead.\<close>

record Scenario = VariableScope +
  scenario :: string
  sc_description :: string
  shareScope :: bool
  steps :: "Step list"

record RawScenarioDefinition =
  rawdef_variables :: "(string \<times> RawVariable) list option"
  rawdef_scope :: "string option"
  rawdef_prepareSteps :: "RawStep list option"
  rawdef_scenarios :: "RawScenario list"
  rawdef_cleanUpSteps :: "RawStep list option"

record ScenarioDefinition = VariableScope +
  scope :: string
  prepareSteps :: "Step list"
  scenarios :: "Scenario list"
  cleanUpSteps :: "Step list"
  filePath :: string
  swaggerFilePaths :: "string list"


section \<open>The variable environment\<close>

text \<open>
  Modelled from the spec: the class \<^verbatim>\<open>VariableEnv\<close> (variableEnv.ts) is not among the
  sources. Section 4.1 of the specification: an environment is a layer on its parent;
  \<^verbatim>\<open>get\<close> returns the nearest definition walking from the current layer to the root;
  \<^verbatim>\<open>set\<close> binds or overwrites a name in the current layer only; the variables a caller
  iterates over (\<^verbatim>\<open>getVariables\<close>) are those of the current layer; \<^verbatim>\<open>requireString\<close>
  fails when the name is absent or not a string. Placeholder resolution is taken as a
  parameter (record \<open>Externals\<close> below).
\<close>

datatype VariableEnv = VariableEnv (env_data: "(string \<times> Variable) list") (baseEnv: "VariableEnv option")

definition new_VariableEnv :: "VariableEnv option \<Rightarrow> VariableEnv" where
  "new_VariableEnv base = VariableEnv [] base"

fun env_get :: "VariableEnv \<Rightarrow> string \<Rightarrow> Variable option" where
  "env_get (VariableEnv d b) name =
     (case map_of d name of
        Some v \<Rightarrow> Some v
      | None \<Rightarrow> (case b of None \<Rightarrow> None | Some e \<Rightarrow> env_get e name))"

definition env_set :: "VariableEnv \<Rightarrow> string \<Rightarrow> Variable \<Rightarrow> VariableEnv" where
  "env_set e name v = VariableEnv (AList.update name v (env_data e)) (baseEnv e)"

definition setBatch :: "VariableEnv \<Rightarrow> (string \<times> Variable) list \<Rightarrow> VariableEnv" where
  "setBatch e vs = foldl (\<lambda>e' (k, v). env_set e' k v) e vs"

definition setBatchEnv :: "VariableEnv \<Rightarrow> (string \<times> Variable) list \<Rightarrow> VariableEnv" where
  "setBatchEnv e vs = setBatch e vs"

definition getVariables :: "VariableEnv \<Rightarrow> (string \<times> Variable) list" where
  "getVariables e = env_data e"

section \<open>The scenario runner (class ApiScenarioRunner)\<close>

record ArmDeploymentDetails =
  det_scope :: string
  det_subscriptionId :: string
  det_resourceGroupName :: string

record ArmDeployment =
  deploymentName :: string
  dep_step :: StepArmTemplate
  details :: ArmDeploymentDetails

record Scope =
  provisioned :: "(JsError + bool) option"
  scope_type :: string
  scope_prepareSteps :: "Step list"
  scope_cleanUpSteps :: "Step list"
  scope_env :: VariableEnv

record ApiScenarioClientRequest =
  req_method :: string
  req_path :: string
  pathVariables :: "(string \<times> jsval) list"
  headers :: "(string \<times> jsval) list"
  query :: "(string \<times> jsval) list"
  body :: "jsval option"

text \<open>
  What the runner does to the outside, in order: the five operations of
  \<^verbatim>\<open>ApiScenarioRunnerClient\<close> with their arguments, and \<open>ExecuteStep\<close>, which marks every
  entry into \<^verbatim>\<open>executeStep\<close>.
\<close>

datatype Event =
    ExecuteStep Step
  | PrepareScenario Scenario VariableEnv
  | CreateResourceGroup string string string
  | DeleteResourceGroup string string
  | SendRestCallRequest ApiScenarioClientRequest StepRestCall VariableEnv
  | SendArmTemplateDeployment ArmTemplate ArmDeployment StepArmTemplate VariableEnv

text \<open>
  The collaborators of the runner. \<open>client\<close> answers a call, given everything that
  happened before it, with \<open>None\<close> (the promise resolves) or an error (it rejects).
  \<open>getRandomString\<close> gives the \<open>n\<close>-th random string drawn by the process. The other
  fields are \<^verbatim>\<open>JsonLoader.resolveRefObj\<close>, \<^verbatim>\<open>VariableEnv.resolve\<close>, the resolution of
  one string, and \<^verbatim>\<open>VariableEnv.resolveObjectValues\<close> at the three types it is used at.
\<close>

record Externals =
  client :: "Event list \<Rightarrow> Event \<Rightarrow> JsError option"
  getRandomString :: "nat \<Rightarrow> string"
  resolveRefObj :: "Parameter \<Rightarrow> Parameter"
  env_resolve :: "VariableEnv \<Rightarrow> JsError + VariableEnv"
  resolveString :: "VariableEnv \<Rightarrow> string \<Rightarrow> JsError + string"
  resolveRequest :: "VariableEnv \<Rightarrow> ApiScenarioClientRequest \<Rightarrow> JsError + ApiScenarioClientRequest"
  resolveParameters :: "VariableEnv \<Rightarrow> (string \<times> jsval) list \<Rightarrow> JsError + (string \<times> jsval) list"
  resolveArmTemplate :: "VariableEnv \<Rightarrow> ArmTemplate \<Rightarrow> JsError + ArmTemplate"

text \<open>The fields of the runner object, the events so far and the number of random strings
  drawn so far.\<close>

record ApiScenarioRunner =
  env :: "(string \<times> Variable) list"
  scopeTracking :: "(string \<times> Scope) list"
  resolveVariables :: bool
  skipCleanUp :: bool
  history :: "Event list"
  randomCount :: nat

definition setSkipCleanUp :: "bool \<Rightarrow> ApiScenarioRunner \<Rightarrow> ApiScenarioRunner" where
  "setSkipCleanUp b r = r\<lparr>skipCleanUp := b\<rparr>"

definition clientCall :: "Externals \<Rightarrow> Event \<Rightarrow> ApiScenarioRunner \<Rightarrow> (JsError + unit) \<times> ApiScenarioRunner" where
  "clientCall w ev r =
     ((case client w (history r) ev of None \<Rightarrow> Inr () | Some e \<Rightarrow> Inl e),
      r\<lparr>history := history r @ [ev]\<rparr>)"

text \<open>Modelled from the spec: \<^verbatim>\<open>VariableEnv.getRequiredString\<close> (\<^verbatim>\<open>requireString\<close> of
  section 4.1) resolves the name and fails if it is absent or not a string.\<close>

definition getRequiredString :: "Externals \<Rightarrow> VariableEnv \<Rightarrow> string \<Rightarrow> JsError + string" where
  "getRequiredString w e name =
     (case env_get e name of
        None \<Rightarrow> Inl (new_Error (''Missing required variable: '' @ name))
      | Some v \<Rightarrow>
          (case var_value v of
             Some (JStr s) \<Rightarrow> resolveString w e s
           | _ \<Rightarrow> Inl (new_Error (''Missing required variable: '' @ name))))"

subsection \<open>generateValueFromPrefix\<close>

fun generateValues :: "Externals \<Rightarrow> (string \<times> Variable) list \<Rightarrow> nat \<Rightarrow> (string \<times> Variable) list \<times> nat" where
  "generateValues w [] n = ([], n)"
| "generateValues w ((k, v) # kvs) n =
     (if var_type v = ''string'' \<or> var_type v = ''secureString'' then
        (case prefix v of
           Some p \<Rightarrow>
             (if var_value v = None then
                (case generateValues w kvs (Suc n) of
                   (kvs', n') \<Rightarrow> ((k, v\<lparr>var_value := Some (JStr (p @ getRandomString w n))\<rparr>) # kvs', n'))
              else (case generateValues w kvs n of (kvs', n') \<Rightarrow> ((k, v) # kvs', n')))
         | None \<Rightarrow> (case generateValues w kvs n of (kvs', n') \<Rightarrow> ((k, v) # kvs', n')))
      else (case generateValues w kvs n of (kvs', n') \<Rightarrow> ((k, v) # kvs', n')))"

definition generateValueFromPrefix ::
  "Externals \<Rightarrow> VariableEnv \<Rightarrow> ApiScenarioRunner \<Rightarrow> VariableEnv \<times> ApiScenarioRunner" where
  "generateValueFromPrefix w e r =
     (case generateValues w (getVariables e) (randomCount r) of
        (kvs, n) \<Rightarrow> (VariableEnv kvs (baseEnv e), r\<lparr>randomCount := n\<rparr>))"

subsection \<open>prepareScope\<close>

text \<open>The scope object is handed out together with the name it is tracked under: the
  name is the identity of the object.\<close>

definition prepareScope ::
  "Externals \<Rightarrow> ScenarioDefinition \<Rightarrow> Scenario \<Rightarrow> ApiScenarioRunner
     \<Rightarrow> (JsError + string \<times> Scope) \<times> ApiScenarioRunner" where
  "prepareScope w scenarioDef sc r =
     (case (if shareScope sc then (''_defaultScope'', r)
            else (''_randomScope_'' @ getRandomString w (randomCount r),
                  r\<lparr>randomCount := Suc (randomCount r)\<rparr>)) of
        (scopeName, r1) \<Rightarrow>
          (case map_of (scopeTracking r1) scopeName of
             Some sco \<Rightarrow> (Inr (scopeName, sco), r1)
           | None \<Rightarrow>
               (let scopeEnv =
                      setBatchEnv
                        (new_VariableEnv (Some (setBatch (new_VariableEnv None) (variables scenarioDef))))
                        (env r1);
                    sco = \<lparr>provisioned = None, scope_type = scope scenarioDef,
                           scope_prepareSteps = prepareSteps scenarioDef,
                           scope_cleanUpSteps = cleanUpSteps scenarioDef,
                           scope_env = scopeEnv\<rparr>
                in if scope_type sco = ''None'' then
                     (Inl (new_Error (''Scope is not supported yet: '' @ scope_type sco)), r1)
                   else
                     (let env1 =
                            (if env_get (scope_env sco) ''resourceGroupName'' = None then
                               env_set (scope_env sco) ''resourceGroupName''
                                 \<lparr>var_type = ''string'', var_value = None,
                                  prefix = Some ''apiTest-'', patches = None\<rparr>
                             else scope_env sco)
                      in case generateValueFromPrefix w env1 r1 of
                           (env2, r2) \<Rightarrow>
                             (let sco' = sco\<lparr>scope_env := env2\<rparr>
                              in (Inr (scopeName, sco'),
                                  r2\<lparr>scopeTracking := AList.update scopeName sco' (scopeTracking r2)\<rparr>))))))"


subsection \<open>executeRestCallStep and executeArmTemplateStep\<close>

definition toUpperCase :: "string \<Rightarrow> string" where
  "toUpperCase s =
     map (\<lambda>c. let n = (of_char c :: nat) in if 97 \<le> n \<and> n \<le> 122 then char_of (n - 32) else c) s"

text \<open>The character class \<^verbatim>\<open>[a-z0-9_$]\<close> under the flag \<^verbatim>\<open>i\<close>.\<close>

definition isPathVariableChar :: "char \<Rightarrow> bool" where
  "isPathVariableChar c =
     (let n = (of_char c :: nat)
      in (97 \<le> n \<and> n \<le> 122) \<or> (65 \<le> n \<and> n \<le> 90) \<or> (48 \<le> n \<and> n \<le> 57)
         \<or> c = CHR ''_'' \<or> c = CHR ''$'')"

text \<open>\<^verbatim>\<open>path.replace(/{([a-z0-9_$]+)}/gi, (_, p1) => `$(${p1})`)\<close>: every \<^verbatim>\<open>{name}\<close>
  becomes \<^verbatim>\<open>$(name)\<close>, scanning from the left.\<close>

function pathPlaceholders :: "string \<Rightarrow> string" where
  "pathPlaceholders [] = []"
| "pathPlaceholders (c # cs) =
     (if c = CHR ''{'' \<and> takeWhile isPathVariableChar cs \<noteq> []
         \<and> dropWhile isPathVariableChar cs \<noteq> []
         \<and> hd (dropWhile isPathVariableChar cs) = CHR ''}''
      then ''$('' @ takeWhile isPathVariableChar cs @ '')''
             @ pathPlaceholders (tl (dropWhile isPathVariableChar cs))
      else c # pathPlaceholders cs)"
  by pat_completeness auto
termination
proof (relation "measure length")
  show "wf (measure length)" by simp
next
  fix c :: char and cs :: string
  have "length (dropWhile isPathVariableChar cs) \<le> length cs"
    by (rule length_dropWhile_le)
  then show "(tl (dropWhile isPathVariableChar cs), c # cs) \<in> measure length"
    by simp
next
  fix c :: char and cs :: string
  show "(cs, c # cs) \<in> measure length" by simp
qed

fun buildRequest ::
  "Externals \<Rightarrow> StepRestCall \<Rightarrow> Parameter list \<Rightarrow> ApiScenarioClientRequest
     \<Rightarrow> JsError + ApiScenarioClientRequest" where
  "buildRequest w st [] req = Inr req"
| "buildRequest w st (p # ps) req =
     (let param = resolveRefObj w p
      in case map_of (parameters st) (param_name param) of
           None \<Rightarrow>
             (if required param then
                Inl (new_Error (''Parameter value for '' @ [CHR 0x22] @ param_name param @ [CHR 0x22]
                                @ '' is not found in step: '' @ step st))
              else buildRequest w st ps req)
         | Some paramVal \<Rightarrow>
             (if param_in param = ''path'' then
                buildRequest w st ps
                  (req\<lparr>pathVariables := AList.update (param_name param) paramVal (pathVariables req)\<rparr>)
              else if param_in param = ''query'' then
                buildRequest w st ps
                  (req\<lparr>query := AList.update (param_name param) paramVal (query req)\<rparr>)
              else if param_in param = ''header'' then
                buildRequest w st ps
                  (req\<lparr>headers := AList.update (param_name param) paramVal (headers req)\<rparr>)
              else if param_in param = ''body'' then
                buildRequest w st ps (req\<lparr>body := Some paramVal\<rparr>)
              else
                Inl (new_Error (''Parameter '' @ [CHR 0x22] @ ''in'' @ [CHR 0x22]
                                @ '' not supported: '' @ param_in param))))"

text \<open>Reading \<^verbatim>\<open>_method\<close> of the empty operation object is a \<^verbatim>\<open>TypeError\<close>. The snapshot
  \<^verbatim>\<open>_resolvedParameters\<close> is written on the step, so the step is returned.\<close>

definition executeRestCallStep ::
  "Externals \<Rightarrow> StepRestCall \<Rightarrow> VariableEnv \<Rightarrow> ApiScenarioRunner
     \<Rightarrow> (JsError + unit) \<times> StepRestCall \<times> ApiScenarioRunner" where
  "executeRestCallStep w st e r =
     (case operation st of
        None \<Rightarrow> (Inl (new_Error ''Cannot read properties of undefined''), st, r)
      | Some opn \<Rightarrow>
          (case buildRequest w st (case op_parameters opn of None \<Rightarrow> [] | Some ps \<Rightarrow> ps)
                  \<lparr>req_method = toUpperCase (op_method opn),
                   req_path = pathPlaceholders (op_pathTemplate opn),
                   pathVariables = [], headers = [], query = [], body = None\<rparr> of
             Inl err \<Rightarrow> (Inl err, st, r)
           | Inr req0 \<Rightarrow>
               (case (if resolveVariables r then resolveRequest w e req0 else Inr req0) of
                  Inl err \<Rightarrow> (Inl err, st, r)
                | Inr req \<Rightarrow>
                    (case clientCall w (SendRestCallRequest req st e) r of
                       (Inl err, r') \<Rightarrow> (Inl err, st, r')
                     | (Inr _, r') \<Rightarrow>
                         (if resolveVariables r' \<and> resolvedParameters st = None then
                            (case resolveParameters w e (parameters st) of
                               Inl err \<Rightarrow> (Inl err, st, r')
                             | Inr ps \<Rightarrow> (Inr (), st\<lparr>resolvedParameters := Some ps\<rparr>, r'))
                          else (Inr (), st, r'))))))"

definition executeArmTemplateStep ::
  "Externals \<Rightarrow> StepArmTemplate \<Rightarrow> VariableEnv \<Rightarrow> Scope \<Rightarrow> ApiScenarioRunner
     \<Rightarrow> (JsError + unit) \<times> StepArmTemplate \<times> ApiScenarioRunner" where
  "executeArmTemplateStep w st e sco r =
     (case getRequiredString w e ''subscriptionId'' of
        Inl err \<Rightarrow> (Inl err, st, r)
      | Inr subscriptionId \<Rightarrow>
          (case getRequiredString w e ''resourceGroupName'' of
             Inl err \<Rightarrow> (Inl err, st, r)
           | Inr resourceGroupName \<Rightarrow>
               (let name = resourceGroupName @ ''-deploy-'' @ getRandomString w (randomCount r);
                    r1 = r\<lparr>randomCount := Suc (randomCount r)\<rparr>
                in case (if resolveVariables r1 then resolveArmTemplate w e (armTemplatePayload st)
                         else Inr (armTemplatePayload st)) of
                     Inl err \<Rightarrow> (Inl err, st, r1)
                   | Inr payload \<Rightarrow>
                       (let st' = st\<lparr>armTemplatePayload := payload\<rparr>;
                            armDeployment =
                              \<lparr>deploymentName = name, dep_step = st',
                               details = \<lparr>det_scope = scope_type sco,
                                          det_subscriptionId = subscriptionId,
                                          det_resourceGroupName = resourceGroupName\<rparr>\<rparr>
                        in case clientCall w
                                  (SendArmTemplateDeployment (armTemplatePayload st') armDeployment st' e) r1 of
                             (res, r2) \<Rightarrow> (res, st', r2)))))"

subsection \<open>executeStep and the three loops over steps\<close>

definition executeStep ::
  "Externals \<Rightarrow> Step \<Rightarrow> VariableEnv \<Rightarrow> Scope \<Rightarrow> ApiScenarioRunner
     \<Rightarrow> (JsError + unit) \<times> Step \<times> ApiScenarioRunner" where
  "executeStep w s e sco r =
     (case generateValueFromPrefix w (setBatch (new_VariableEnv (Some e)) (step_variables s))
             (r\<lparr>history := history r @ [ExecuteStep s]\<rparr>) of
        (stepEnv0, r1) \<Rightarrow>
          (case (if resolveVariables r1 then env_resolve w stepEnv0 else Inr stepEnv0) of
             Inl err \<Rightarrow> (Inl err, s, r1)
           | Inr stepEnv \<Rightarrow>
               (case (case s of
                        RestCall st \<Rightarrow>
                          (case executeRestCallStep w st stepEnv r1 of
                             (res, st', r2) \<Rightarrow> (res, RestCall st', r2))
                      | ArmTemplateDeployment st \<Rightarrow>
                          (case executeArmTemplateStep w st stepEnv sco r1 of
                             (res, st', r2) \<Rightarrow> (res, ArmTemplateDeployment st', r2))) of
                  (Inl error, s', r2) \<Rightarrow>
                    (Inl (new_Error (''Failed to execute step '' @ step_name s @ '': '' @ message error
                                     @ '' '' @ [CHR 0x0A] @ stack error)), s', r2)
                | (Inr u, s', r2) \<Rightarrow> (Inr u, s', r2))))"

text \<open>\<^verbatim>\<open>for (const step of xs) { await this.executeStep(step, env, scope); }\<close>, the loop of
  the provisioning routine, of \<^verbatim>\<open>cleanUpScope\<close> and of \<^verbatim>\<open>executeScenario\<close>. It gives back
  the steps as the executions left them.\<close>

fun executeSteps ::
  "Externals \<Rightarrow> Step list \<Rightarrow> VariableEnv \<Rightarrow> Scope \<Rightarrow> ApiScenarioRunner
     \<Rightarrow> (JsError + unit) \<times> Step list \<times> ApiScenarioRunner" where
  "executeSteps w [] e sco r = (Inr (), [], r)"
| "executeSteps w (s # ss) e sco r =
     (case executeStep w s e sco r of
        (Inl err, s', r') \<Rightarrow> (Inl err, s' # ss, r')
      | (Inr _, s', r') \<Rightarrow>
          (case executeSteps w ss e sco r' of (res, ss', r'') \<Rightarrow> (res, s' # ss', r'')))"

subsection \<open>doProvisionScope\<close>

text \<open>
  Modelled from the spec: \<^verbatim>\<open>getLazyBuilder\<close> (util/lazyBuilder.ts) is not among the
  sources. Section 4.3: the provisioning routine is guaranteed to execute at most once per
  Scope object regardless of how many times it is invoked (idempotent by memoization);
  section 9: run once, remember result. So: when the named property of the object is
  undefined, the builder runs and its result is stored in that property; the stored
  result is returned. The builder here is asynchronous, so what is stored and returned is
  its promise, settled with a value or with an error (\<open>'e + 'v\<close>).
\<close>

definition getLazyBuilder ::
  "('s \<Rightarrow> 'v option) \<Rightarrow> ('v \<Rightarrow> 's \<Rightarrow> 's) \<Rightarrow> ('s \<Rightarrow> 'r \<Rightarrow> 'v \<times> 's \<times> 'r)
     \<Rightarrow> 's \<Rightarrow> 'r \<Rightarrow> 'v \<times> 's \<times> 'r" where
  "getLazyBuilder getProperty setProperty builder arg r =
     (case getProperty arg of
        None \<Rightarrow> (case builder arg r of (v, arg', r') \<Rightarrow> (v, setProperty v arg', r'))
      | Some v \<Rightarrow> (v, arg, r))"

text \<open>The arrow function given to \<^verbatim>\<open>getLazyBuilder\<close>.\<close>

definition provisionBuilder ::
  "Externals \<Rightarrow> Scope \<Rightarrow> ApiScenarioRunner \<Rightarrow> (JsError + bool) \<times> Scope \<times> ApiScenarioRunner" where
  "provisionBuilder w sco r =
     (case (if scope_type sco = ''ResourceGroup'' then
              (case getRequiredString w (scope_env sco) ''subscriptionId'' of
                 Inl err \<Rightarrow> (Inl err, r)
               | Inr subscriptionId \<Rightarrow>
                   (case getRequiredString w (scope_env sco) ''resourceGroupName'' of
                      Inl err \<Rightarrow> (Inl err, r)
                    | Inr resourceGroupName \<Rightarrow>
                        (case getRequiredString w (scope_env sco) ''location'' of
                           Inl err \<Rightarrow> (Inl err, r)
                         | Inr location \<Rightarrow>
                             clientCall w
                               (CreateResourceGroup subscriptionId resourceGroupName location) r)))
            else (Inr (), r)) of
        (Inl err, r1) \<Rightarrow> (Inl err, sco, r1)
      | (Inr _, r1) \<Rightarrow>
          (case executeSteps w (scope_prepareSteps sco) (scope_env sco) sco r1 of
             (Inl err, ss, r2) \<Rightarrow> (Inl err, sco\<lparr>scope_prepareSteps := ss\<rparr>, r2)
           | (Inr _, ss, r2) \<Rightarrow> (Inr True, sco\<lparr>scope_prepareSteps := ss\<rparr>, r2)))"

definition doProvisionScope ::
  "Externals \<Rightarrow> Scope \<Rightarrow> ApiScenarioRunner \<Rightarrow> (JsError + bool) \<times> Scope \<times> ApiScenarioRunner" where
  "doProvisionScope w =
     getLazyBuilder provisioned (\<lambda>v sco. sco\<lparr>provisioned := Some v\<rparr>) (provisionBuilder w)"

subsection \<open>cleanUpScope and executeScenario\<close>

definition cleanUpScope ::
  "Externals \<Rightarrow> Scope \<Rightarrow> ApiScenarioRunner \<Rightarrow> (JsError + unit) \<times> Scope \<times> ApiScenarioRunner" where
  "cleanUpScope w sco r =
     (case executeSteps w (scope_cleanUpSteps sco) (scope_env sco) sco r of
        (Inl err, ss, r1) \<Rightarrow> (Inl err, sco\<lparr>scope_cleanUpSteps := ss\<rparr>, r1)
      | (Inr _, ss, r1) \<Rightarrow>
          (if scope_type sco = ''ResourceGroup'' then
             (case getRequiredString w (scope_env sco) ''subscriptionId'' of
                Inl err \<Rightarrow> (Inl err, sco\<lparr>scope_cleanUpSteps := ss\<rparr>, r1)
              | Inr subscriptionId \<Rightarrow>
                  (case getRequiredString w (scope_env sco) ''resourceGroupName'' of
                     Inl err \<Rightarrow> (Inl err, sco\<lparr>scope_cleanUpSteps := ss\<rparr>, r1)
                   | Inr resourceGroupName \<Rightarrow>
                       (case clientCall w (DeleteResourceGroup subscriptionId resourceGroupName) r1 of
                          (res, r2) \<Rightarrow> (res, sco\<lparr>scope_cleanUpSteps := ss\<rparr>, r2))))
           else (Inr (), sco\<lparr>scope_cleanUpSteps := ss\<rparr>, r1)))"

text \<open>The scope object is changed in place by the source; the model writes it back under
  its name.\<close>

definition storeScope :: "string \<Rightarrow> Scope \<Rightarrow> ApiScenarioRunner \<Rightarrow> ApiScenarioRunner" where
  "storeScope scopeName sco r = r\<lparr>scopeTracking := AList.update scopeName sco (scopeTracking r)\<rparr>"

text \<open>The \<^verbatim>\<open>try\<close> statement of \<^verbatim>\<open>executeScenario\<close>: \<open>res\<close> is how the loop over the scenario's
  steps ended. The \<^verbatim>\<open>catch\<close> clause rethrows with the scenario's name; the \<^verbatim>\<open>finally\<close>
  clause runs \<^verbatim>\<open>cleanUpScope\<close> unless \<^verbatim>\<open>skipCleanUp\<close> is set, and an error thrown there
  replaces the pending one.\<close>

definition finishScenario ::
  "Externals \<Rightarrow> Scenario \<Rightarrow> string \<Rightarrow> Scope \<Rightarrow> (JsError + unit) \<Rightarrow> ApiScenarioRunner
     \<Rightarrow> (JsError + unit) \<times> ApiScenarioRunner" where
  "finishScenario w sc scopeName sco res r =
     (let thrown =
            (case res of
               Inl e \<Rightarrow> Inl (new_Error (''Failed to execute scenario: '' @ scenario sc @ '': '' @ message e))
             | Inr u \<Rightarrow> Inr u)
      in if \<not> skipCleanUp r then
           (case cleanUpScope w sco r of
              (Inl err, sco', r') \<Rightarrow> (Inl err, storeScope scopeName sco' r')
            | (Inr _, sco', r') \<Rightarrow> (thrown, storeScope scopeName sco' r'))
         else (thrown, r))"

definition executeScenario ::
  "Externals \<Rightarrow> ScenarioDefinition \<Rightarrow> Scenario \<Rightarrow> ApiScenarioRunner
     \<Rightarrow> (JsError + unit) \<times> Scenario \<times> ApiScenarioRunner" where
  "executeScenario w scenarioDef sc r =
     (case prepareScope w scenarioDef sc r of
        (Inl err, r1) \<Rightarrow> (Inl err, sc, r1)
      | (Inr (scopeName, sco), r1) \<Rightarrow>
          (case generateValueFromPrefix w
                  (setBatch (new_VariableEnv (Some (scope_env sco))) (variables sc)) r1 of
             (scenarioEnv, r2) \<Rightarrow>
               (case clientCall w (PrepareScenario sc scenarioEnv) r2 of
                  (Inl err, r3) \<Rightarrow> (Inl err, sc, r3)
                | (Inr _, r3) \<Rightarrow>
                    (case doProvisionScope w sco r3 of
                       (Inl err, sco1, r4) \<Rightarrow> (Inl err, sc, storeScope scopeName sco1 r4)
                     | (Inr _, sco1, r4) \<Rightarrow>
                         (case executeSteps w (steps sc) scenarioEnv sco1
                                 (storeScope scopeName sco1 r4) of
                            (res, ss, r5) \<Rightarrow>
                              (case finishScenario w sc scopeName sco1 res r5 of
                                 (out, r6) \<Rightarrow> (out, sc\<lparr>steps := ss\<rparr>, r6)))))))"

section \<open>The scenario compiler (class ApiScenarioLoader)\<close>

subsection \<open>Strings\<close>

text \<open>Template literals print numbers in decimal.\<close>

function showNat :: "nat \<Rightarrow> string" where
  "showNat n = (if n < 10 then [char_of (48 + n)] else showNat (n div 10) @ [char_of (48 + n mod 10)])"
  by pat_completeness auto
termination
  by (relation "measure id") auto

declare showNat.simps [simp del]

text \<open>The identifiers \<open>x\<close> of the matches of \<^verbatim>\<open>/\$\(([A-Za-z_$][A-Za-z0-9_]*)\)/g\<close> in a string,
  from left to right.\<close>

definition isIdentifierStart :: "char \<Rightarrow> bool" where
  "isIdentifierStart c =
     (let n = (of_char c :: nat)
      in (97 \<le> n \<and> n \<le> 122) \<or> (65 \<le> n \<and> n \<le> 90) \<or> c = CHR ''_'' \<or> c = CHR ''$'')"

definition isIdentifierChar :: "char \<Rightarrow> bool" where
  "isIdentifierChar c =
     (let n = (of_char c :: nat)
      in (97 \<le> n \<and> n \<le> 122) \<or> (65 \<le> n \<and> n \<le> 90) \<or> (48 \<le> n \<and> n \<le> 57) \<or> c = CHR ''_'')"

function variableReferences :: "string \<Rightarrow> string list" where
  "variableReferences [] = []"
| "variableReferences [c] = []"
| "variableReferences [c, d] = []"
| "variableReferences (c # d # e # cs) =
     (if c = CHR ''$'' \<and> d = CHR ''('' \<and> isIdentifierStart e
         \<and> dropWhile isIdentifierChar cs \<noteq> [] \<and> hd (dropWhile isIdentifierChar cs) = CHR '')''
      then (e # takeWhile isIdentifierChar cs) # variableReferences (tl (dropWhile isIdentifierChar cs))
      else variableReferences (d # e # cs))"
  by pat_completeness auto
termination
proof (relation "measure length")
  show "wf (measure length)" by simp
next
  fix c d e :: char and cs :: string
  have "length (dropWhile isIdentifierChar cs) \<le> length cs"
    by (rule length_dropWhile_le)
  then show "(tl (dropWhile isIdentifierChar cs), c # d # e # cs) \<in> measure length"
    by simp
next
  fix c d e :: char and cs :: string
  show "(d # e # cs, c # d # e # cs) \<in> measure length" by simp
qed

declare variableReferences.simps [simp del]

definition endsWith :: "string \<Rightarrow> string \<Rightarrow> bool" where
  "endsWith s suffix = (length suffix \<le> length s \<and> drop (length s - length suffix) s = suffix)"

text \<open>The elements of a \<^verbatim>\<open>Set\<close> built from a list, in the order they were first added.\<close>

fun setAdd :: "string list \<Rightarrow> string list \<Rightarrow> string list" where
  "setAdd acc [] = acc"
| "setAdd acc (x # xs) = setAdd (if x \<in> set acc then acc else acc @ [x]) xs"

subsection \<open>convertVariables and declareOutputVariables\<close>

fun convertVariablesLoop :: "(string \<times> RawVariable) list \<Rightarrow> VariableScope \<Rightarrow> JsError + VariableScope" where
  "convertVariablesLoop [] result = Inr result"
| "convertVariablesLoop ((key, RawString val) # rest) result =
     convertVariablesLoop rest
       (result\<lparr>variables :=
          AList.update key \<lparr>var_type = ''string'', var_value = Some (JStr val), prefix = None,
                            patches = None\<rparr> (variables result)\<rparr>)"
| "convertVariablesLoop ((key, RawTyped val) # rest) result =
     (case (if var_value val = None then
              (if var_type val = ''string'' \<or> var_type val = ''secureString'' then
                 (if var_value val = None \<and> prefix val = None then
                    Inr (result\<lparr>variables := AList.update key val (variables result),
                                requiredVariables := requiredVariables result @ [key]\<rparr>)
                  else Inr (result\<lparr>variables := AList.update key val (variables result)\<rparr>))
               else if (var_type val = ''object'' \<or> var_type val = ''secureObject''
                        \<or> var_type val = ''array'') \<and> patches val \<noteq> None then
                 Inr (result\<lparr>variables := AList.update key val (variables result)\<rparr>)
               else
                 Inl (new_Error (''Only string and secureString type is supported in environment ''
                        @ ''variables, please specify value for: '' @ key)))
            else Inr (result\<lparr>variables := AList.update key val (variables result)\<rparr>)) of
        Inl err \<Rightarrow> Inl err
      | Inr result' \<Rightarrow>
          convertVariablesLoop rest
            (if var_type val = ''secureString'' \<or> var_type val = ''secureObject'' then
               result'\<lparr>secretVariables := secretVariables result' @ [key]\<rparr>
             else result'))"

definition convertVariables :: "(string \<times> RawVariable) list option \<Rightarrow> JsError + VariableScope" where
  "convertVariables rawVariables =
     convertVariablesLoop (case rawVariables of None \<Rightarrow> [] | Some vs \<Rightarrow> vs)
       \<lparr>variables = [], requiredVariables = [], secretVariables = []\<rparr>"

text \<open>The outputs are given with the \<^verbatim>\<open>type\<close> property alone, which is all the function
  reads. \<open>declareOutputVariable\<close> is the body of the loop: the declaration of the variable
  if the scope has none of that name, and the entry in \<^verbatim>\<open>secretVariables\<close> for a secure type.\<close>

definition declareOutputVariable ::
  "string \<Rightarrow> string option \<Rightarrow> 'a VariableScope_scheme \<Rightarrow> 'a VariableScope_scheme" where
  "declareOutputVariable key ty sc =
     (let sc1 =
            (if map_of (variables sc) key = None then
               sc\<lparr>variables :=
                    AList.update key
                      \<lparr>var_type = (case ty of None \<Rightarrow> ''string'' | Some t \<Rightarrow> t), var_value = None,
                       prefix = None, patches = None\<rparr> (variables sc)\<rparr>
             else sc)
      in if ty = Some ''secureString'' \<or> ty = Some ''securestring'' \<or> ty = Some ''secureObject'' then
           sc1\<lparr>secretVariables := secretVariables sc1 @ [key]\<rparr>
         else sc1)"

fun declareOutputVariables ::
  "(string \<times> string option) list \<Rightarrow> 'a VariableScope_scheme \<Rightarrow> 'a VariableScope_scheme" where
  "declareOutputVariables [] sc = sc"
| "declareOutputVariables ((key, ty) # rest) sc =
     declareOutputVariables rest (declareOutputVariable key ty sc)"

subsection \<open>The loader object, its collaborators and the compilation context\<close>

record OperationIndex =
  idx_operationsMap :: "(string \<times> Operation) list"
  idx_apiVersionsMap :: "(string \<times> string) list"

record ApiScenarioLoader =
  operationsMap :: "(string \<times> Operation) list"
  apiVersionsMap :: "(string \<times> string) list"
  exampleToOperation :: "(string \<times> (string \<times> string) list) list"
  additionalMap :: "(string \<times> OperationIndex) list"
  initialized :: bool
  opt_swaggerFilePaths :: "string list"
  opt_includeOperation :: bool

text \<open>One operation as \<^verbatim>\<open>traverseSwagger\<close> hands it to \<^verbatim>\<open>loadSwaggers\<close>: the operation, its
  \<^verbatim>\<open>operationId\<close> if it has one, the version of the specification it stands in, and its
  \<^verbatim>\<open>x-ms-examples\<close> (name and \<^verbatim>\<open>$ref\<close>, \<open>None\<close> when that is not a string).\<close>

record SpecOperation =
  so_operation :: Operation
  so_operationId :: "string option"
  so_version :: string
  so_examples :: "(string \<times> string option) list"

record ReadmeTag =
  tag_name :: string
  tag_filePath :: string
  tag_tag :: "string option"

text \<open>
  The collaborators of the compiler, none of them among the sources: the YAML loader,
  the swagger loader with the transformers and the traversal (\<open>traverseSwaggers\<close> gives the
  operations of a list of files in the order they are visited), \<^verbatim>\<open>getInputFiles\<close>, the
  file loader followed by \<^verbatim>\<open>JSON.parse\<close> where the source parses, the path functions,
  \<^verbatim>\<open>JsonLoader\<close>, the two conventions of \<^verbatim>\<open>TemplateGenerator\<close>, \<^verbatim>\<open>jsonPatchApply\<close> at the three
  places it is applied, the merge-patch projection of a response body done by
  \<^verbatim>\<open>applyPatches\<close>, the constant \<^verbatim>\<open>armDeploymentScriptTemplate\<close> and \<^verbatim>\<open>JSON.stringify\<close>.
\<close>

record LoaderExternals =
  yamlLoad :: "string \<Rightarrow> JsError + RawScenarioDefinition \<times> ReadmeTag list option"
  traverseSwaggers :: "string list \<Rightarrow> JsError + SpecOperation list"
  getInputFiles :: "string \<Rightarrow> string option \<Rightarrow> JsError + string list option"
  relativePath :: "string \<Rightarrow> string"
  getRealPath :: "string \<Rightarrow> string"
  pathJoinDirName :: "string \<Rightarrow> string \<Rightarrow> string"
  loadFile :: "string \<Rightarrow> JsError + string"
  loadExampleFile :: "string \<Rightarrow> JsError + SwaggerExample"
  loadArmTemplateFile :: "string \<Rightarrow> JsError + ArmTemplate"
  loader_resolveRefObj :: "Parameter \<Rightarrow> Parameter"
  armTemplateParameterConvention :: "StepArmTemplate \<Rightarrow> (string \<Rightarrow> Variable option) \<Rightarrow> StepArmTemplate"
  exampleParameterConvention ::
    "StepRestCall \<Rightarrow> (string \<Rightarrow> VariableScope option list \<Rightarrow> Variable option) \<Rightarrow> Operation \<Rightarrow> StepRestCall"
  patchVariableValue :: "jsval option \<Rightarrow> JsonPatchOp list \<Rightarrow> JsError + jsval option"
  patchParameters :: "(string \<times> jsval) list \<Rightarrow> JsonPatchOp list \<Rightarrow> JsError + (string \<times> jsval) list"
  patchResponses ::
    "(string \<times> ExampleResponse) list \<Rightarrow> JsonPatchOp list \<Rightarrow> JsError + (string \<times> ExampleResponse) list"
  projectResponseBody :: "jsval option \<Rightarrow> jsval option \<Rightarrow> Operation \<Rightarrow> string \<Rightarrow> jsval \<Rightarrow> jsval"
  armDeploymentScriptTemplate :: ArmTemplate
  stringifyRawStep :: "RawStep \<Rightarrow> string"

text \<open>\<^verbatim>\<open>ApiScenarioContext\<close>. The scenario and the definition it holds are the objects under
  construction: what the source writes through \<^verbatim>\<open>ctx.scenario\<close> or \<^verbatim>\<open>ctx.scenarioDef\<close> is
  written here.\<close>

record ApiScenarioContext =
  stepTracking :: "(string \<times> Step) list"
  scenarioDef :: ScenarioDefinition
  ctx_scenario :: "Scenario option"
  scenarioIndex :: "nat option"
  stepIndex :: nat
  stage :: "string option"

text \<open>\<^verbatim>\<open>${ctx.scenarioIndex ?? ctx.stage}_${ctx.stepIndex}\<close>\<close>

definition defaultStepName :: "ApiScenarioContext \<Rightarrow> string" where
  "defaultStepName ctx =
     (case scenarioIndex ctx of
        Some i \<Rightarrow> showNat i
      | None \<Rightarrow> (case stage ctx of Some s \<Rightarrow> s | None \<Rightarrow> ''undefined''))
     @ ''_'' @ showNat (stepIndex ctx)"

text \<open>\<^verbatim>\<open>const variableScope: VariableScope = scenario ?? scenarioDef\<close> is an alias of the
  scenario under construction, or of the definition when there is none; these are its
  reads and writes.\<close>

definition ownerScope :: "ApiScenarioContext \<Rightarrow> VariableScope" where
  "ownerScope ctx =
     (case ctx_scenario ctx of
        Some sc \<Rightarrow> VariableScope.truncate sc
      | None \<Rightarrow> VariableScope.truncate (scenarioDef ctx))"

definition ownerPushRequired :: "string \<Rightarrow> ApiScenarioContext \<Rightarrow> ApiScenarioContext" where
  "ownerPushRequired name ctx =
     (case ctx_scenario ctx of
        Some sc \<Rightarrow> ctx\<lparr>ctx_scenario := Some (sc\<lparr>requiredVariables := requiredVariables sc @ [name]\<rparr>)\<rparr>
      | None \<Rightarrow>
          ctx\<lparr>scenarioDef :=
                 (scenarioDef ctx)\<lparr>requiredVariables := requiredVariables (scenarioDef ctx) @ [name]\<rparr>\<rparr>)"

definition ownerDeclareOutputVariables ::
  "(string \<times> string option) list \<Rightarrow> ApiScenarioContext \<Rightarrow> ApiScenarioContext" where
  "ownerDeclareOutputVariables outputs ctx =
     (case ctx_scenario ctx of
        Some sc \<Rightarrow> ctx\<lparr>ctx_scenario := Some (declareOutputVariables outputs sc)\<rparr>
      | None \<Rightarrow> ctx\<lparr>scenarioDef := declareOutputVariables outputs (scenarioDef ctx)\<rparr>)"

definition getVariableFunction :: "(string \<times> Variable) list \<Rightarrow> ApiScenarioContext \<Rightarrow> string \<Rightarrow> Variable option" where
  "getVariableFunction stepVariables ctx name =
     (case map_of stepVariables name of
        Some v \<Rightarrow> Some v
      | None \<Rightarrow>
          (case (case ctx_scenario ctx of None \<Rightarrow> None | Some sc \<Rightarrow> map_of (variables sc) name) of
             Some v \<Rightarrow> Some v
           | None \<Rightarrow> map_of (variables (scenarioDef ctx)) name))"

subsection \<open>Template and script steps\<close>

text \<open>The loop over \<^verbatim>\<open>Object.keys(params)\<close> in \<^verbatim>\<open>loadStepArmTemplate\<close>.\<close>

fun loadArmTemplateParameters ::
  "(string \<times> ArmParameter) list \<Rightarrow> StepArmTemplate \<Rightarrow> ApiScenarioContext
     \<Rightarrow> JsError + ApiScenarioContext" where
  "loadArmTemplateParameters [] st ctx = Inr ctx"
| "loadArmTemplateParameters ((paramName, p) # ps) st ctx =
     (if defaultValue p \<noteq> None
         \<or> map_of (variables st) paramName \<noteq> None
         \<or> map_of (variables (ownerScope ctx)) paramName \<noteq> None
         \<or> map_of (variables (scenarioDef ctx)) paramName \<noteq> None
      then loadArmTemplateParameters ps st ctx
      else if arm_type p \<noteq> ''string'' \<and> arm_type p \<noteq> ''securestring''
              \<and> paramName \<notin> set (requiredVariables (ownerScope ctx))
      then Inl (new_Error (''Only string and securestring type is supported in arm template params, ''
                  @ ''please specify defaultValue for: '' @ paramName))
      else loadArmTemplateParameters ps st (ownerPushRequired paramName ctx))"

definition loadStepArmTemplate ::
  "LoaderExternals \<Rightarrow> RawStep \<Rightarrow> ApiScenarioContext \<Rightarrow> JsError + StepArmTemplate \<times> ApiScenarioContext" where
  "loadStepArmTemplate x rawStep ctx =
     (case convertVariables (raw_variables rawStep) of
        Inl err \<Rightarrow> Inl err
      | Inr vs \<Rightarrow>
          (case raw_armTemplate rawStep of
             None \<Rightarrow> Inl (new_Error ''The path argument must be of type string'')
           | Some template \<Rightarrow>
               (let st = \<lparr>variables = variables vs, requiredVariables = requiredVariables vs,
                          secretVariables = secretVariables vs,
                          step = (case raw_step rawStep of
                                    Some n \<Rightarrow> n
                                  | None \<Rightarrow> defaultStepName ctx @ ''_ArmTemplate''),
                          description = None,
                          outputVariables =
                            Some (case raw_outputVariables rawStep of None \<Rightarrow> [] | Some ov \<Rightarrow> ov),
                          isPrepareStep = None, isCleanUpStep = None,
                          armTemplate = template,
                          armTemplatePayload =
                            \<lparr>arm_parameters = None, arm_outputs = None, arm_resources = None\<rparr>\<rparr>
                in case loadArmTemplateFile x
                          (pathJoinDirName x (filePath (scenarioDef ctx)) (armTemplate st)) of
                     Inl err \<Rightarrow> Inl err
                   | Inr payload \<Rightarrow>
                       (let st1 = st\<lparr>armTemplatePayload := payload\<rparr>
                        in case (case arm_parameters payload of
                                   None \<Rightarrow> Inr ctx
                                 | Some params \<Rightarrow> loadArmTemplateParameters params st1 ctx) of
                             Inl err \<Rightarrow> Inl err
                           | Inr ctx1 \<Rightarrow>
                               (let ctx2 =
                                      (case arm_outputs payload of
                                         None \<Rightarrow> ctx1
                                       | Some outputs \<Rightarrow>
                                           ownerDeclareOutputVariables
                                             (map (\<lambda>(k, ty). (k, Some ty)) outputs) ctx1)
                                in Inr (armTemplateParameterConvention x st1
                                          (getVariableFunction (variables st1) ctx2),
                                        ctx2))))))"

definition isSecretVariable :: "string \<Rightarrow> string list \<Rightarrow> ApiScenarioContext \<Rightarrow> bool" where
  "isSecretVariable variable stepSecretVariables ctx =
     list_ex
       (\<lambda>refKey.
          refKey \<in> set stepSecretVariables
          \<or> (case ctx_scenario ctx of None \<Rightarrow> False | Some sc \<Rightarrow> refKey \<in> set (secretVariables sc))
          \<or> refKey \<in> set (secretVariables (scenarioDef ctx)))
       (variableReferences variable)"

definition loadStepArmDeploymentScript ::
  "LoaderExternals \<Rightarrow> RawStep \<Rightarrow> ApiScenarioContext \<Rightarrow> JsError + StepArmTemplate \<times> ApiScenarioContext" where
  "loadStepArmDeploymentScript x rawStep ctx =
     (case convertVariables (raw_variables rawStep) of
        Inl err \<Rightarrow> Inl err
      | Inr vs \<Rightarrow>
          (let st = \<lparr>variables = variables vs, requiredVariables = requiredVariables vs,
                     secretVariables = secretVariables vs,
                     step = (case raw_step rawStep of
                               Some n \<Rightarrow> n
                             | None \<Rightarrow> defaultStepName ctx @ ''_ArmDeploymentScript''),
                     description = None,
                     outputVariables =
                       Some (case raw_outputVariables rawStep of None \<Rightarrow> [] | Some ov \<Rightarrow> ov),
                     isPrepareStep = None, isCleanUpStep = None,
                     armTemplate = [],
                     armTemplatePayload =
                       \<lparr>arm_parameters = None, arm_outputs = None, arm_resources = None\<rparr>\<rparr>;
               payload = armDeploymentScriptTemplate x
           in case (arm_resources payload, raw_armDeploymentScript rawStep) of
                (Some (resource # others), Some script) \<Rightarrow>
                  (let resource1 =
                         (if endsWith script ''.ps1'' then
                            resource\<lparr>res_name := step st, res_kind := Some ''AzurePowerShell'',
                                     azPowerShellVersion := Some ''6.2''\<rparr>
                          else
                            resource\<lparr>res_name := step st, res_kind := Some ''AzureCLI'',
                                     azCliVersion := Some ''2.0.80''\<rparr>)
                   in case loadFile x (pathJoinDirName x (filePath (scenarioDef ctx)) script) of
                        Inl err \<Rightarrow> Inl err
                      | Inr content \<Rightarrow>
                          (let resource2 = resource1\<lparr>scriptContent := Some content,
                                                    arguments := raw_arguments rawStep\<rparr>;
                               entries =
                                 map (\<lambda>(n, v).
                                        if isSecretVariable v (secretVariables st) ctx then
                                          \<lparr>env_name = n, env_value = None, env_secureValue = Some v\<rparr>
                                        else
                                          \<lparr>env_name = n, env_value = Some v, env_secureValue = None\<rparr>)
                                   (case raw_environmentVariables rawStep of None \<Rightarrow> [] | Some vs \<Rightarrow> vs)
                           in case (if entries = [] then Inr resource2
                                    else (case environmentVariables resource2 of
                                            None \<Rightarrow> Inl (new_Error ''Cannot read properties of undefined'')
                                          | Some old \<Rightarrow>
                                              Inr (resource2\<lparr>environmentVariables := Some (old @ entries)\<rparr>))) of
                                Inl err \<Rightarrow> Inl err
                              | Inr resource3 \<Rightarrow>
                                  (let st1 = st\<lparr>armTemplatePayload :=
                                                   payload\<lparr>arm_resources := Some (resource3 # others)\<rparr>\<rparr>
                                   in Inr (armTemplateParameterConvention x st1
                                             (getVariableFunction (variables st1) ctx),
                                           ctx))))
              | _ \<Rightarrow> Inl (new_Error ''Cannot read properties of undefined'')))"

subsection \<open>REST call steps\<close>

text \<open>The closure \<^verbatim>\<open>getVariable\<close> of \<^verbatim>\<open>loadStepRestCall\<close>, for the step as it is when the
  closure is called. A missing scope is \<open>None\<close>.\<close>

definition placeholderVariable :: "string \<Rightarrow> Variable" where
  "placeholderVariable name =
     \<lparr>var_type = ''string'', var_value = Some (JStr (''$('' @ name @ '')'')), prefix = None,
      patches = None\<rparr>"

fun firstVariable :: "string \<Rightarrow> VariableScope option list \<Rightarrow> Variable option" where
  "firstVariable name [] = None"
| "firstVariable name (None # scopes) = firstVariable name scopes"
| "firstVariable name (Some sc # scopes) =
     (case map_of (variables sc) name of
        Some v \<Rightarrow> Some v
      | None \<Rightarrow> firstVariable name scopes)"

definition getVariable ::
  "StepRestCall \<Rightarrow> ApiScenarioContext \<Rightarrow> string \<Rightarrow> VariableScope option list \<Rightarrow> Variable option" where
  "getVariable st ctx name scopes0 =
     (let scopes =
            (if scopes0 = [] then
               [Some (VariableScope.truncate st), map_option VariableScope.truncate (ctx_scenario ctx),
                Some (VariableScope.truncate (scenarioDef ctx))]
             else scopes0)
      in case firstVariable name scopes of
           Some v \<Rightarrow> Some v
         | None \<Rightarrow>
             (if list_ex (\<lambda>sc. case sc of None \<Rightarrow> False
                                 | Some s \<Rightarrow> name \<in> set (requiredVariables s)) scopes
              then Some (placeholderVariable name)
              else if (scope (scenarioDef ctx) = ''ResourceGroup''
                       \<and> name \<in> set [''subscriptionId'', ''resourceGroupName'', ''location''])
                      \<or> (scope (scenarioDef ctx) = ''Subscription'' \<and> name \<in> set [''subscriptionId''])
              then Some (placeholderVariable name)
              else None))"

definition requireVariable :: "string \<Rightarrow> ApiScenarioContext \<Rightarrow> ApiScenarioContext" where
  "requireVariable name ctx =
     (if scope (scenarioDef ctx) = ''ResourceGroup'' \<and> name \<in> set [''resourceGroupName''] then ctx
      else if name \<notin> set (requiredVariables (ownerScope ctx)) then ownerPushRequired name ctx
      else ctx)"

text \<open>A property that is assigned \<^verbatim>\<open>undefined\<close> reads like an absent one; the model removes
  it.\<close>

definition assignProperty :: "string \<Rightarrow> jsval option \<Rightarrow> (string \<times> jsval) list \<Rightarrow> (string \<times> jsval) list" where
  "assignProperty key v obj =
     (case v of Some j \<Rightarrow> AList.update key j obj | None \<Rightarrow> AList.delete key obj)"

definition pickParams :: "LoaderExternals \<Rightarrow> Operation \<Rightarrow> string \<Rightarrow> Parameter list option" where
  "pickParams x opn location =
     map_option (\<lambda>ps. filter (\<lambda>resolvedObj. param_in resolvedObj = location)
                         (map (loader_resolveRefObj x) ps))
       (op_parameters opn)"

definition getBodyParam :: "LoaderExternals \<Rightarrow> Operation \<Rightarrow> Parameter option" where
  "getBodyParam x opn =
     (case pickParams x opn ''body'' of
        Some (bp # others) \<Rightarrow> Some bp
      | _ \<Rightarrow> None)"

text \<open>\<^verbatim>\<open>a >= b\<close> on strings: by code units, a proper prefix being smaller.\<close>

fun stringGreaterEq :: "string \<Rightarrow> string \<Rightarrow> bool" where
  "stringGreaterEq a [] = True"
| "stringGreaterEq [] (d # ds) = False"
| "stringGreaterEq (c # cs) (d # ds) =
     (if (of_char d :: nat) < of_char c then True
      else if (of_char c :: nat) < of_char d then False
      else stringGreaterEq cs ds)"

text \<open>The callbacks of the \<^verbatim>\<open>forEach\<close> in \<^verbatim>\<open>applyPatches\<close> are asynchronous and not awaited;
  the model takes their effect on the response bodies as done when \<^verbatim>\<open>applyPatches\<close>
  returns.\<close>

definition applyPatches :: "LoaderExternals \<Rightarrow> StepRestCall \<Rightarrow> RawStep \<Rightarrow> Operation \<Rightarrow> JsError + StepRestCall" where
  "applyPatches x st rawStep opn =
     (case (case raw_requestUpdate rawStep of
              None \<Rightarrow> Inr st
            | Some requestUpdate \<Rightarrow>
                (let bodyParam = getBodyParam x opn;
                     source = (case bodyParam of
                                 None \<Rightarrow> None
                               | Some bp \<Rightarrow> map_of (parameters st) (param_name bp))
                 in case patchParameters x (parameters st) requestUpdate of
                      Inl err \<Rightarrow> Inl err
                    | Inr ps \<Rightarrow>
                        (case bodyParam of
                           Some bp \<Rightarrow>
                             (if op_method opn \<in> set [''put'', ''patch''] then
                                Inr (st\<lparr>parameters := ps,
                                        responses :=
                                          map (\<lambda>(statusCode, response).
                                                 if stringGreaterEq statusCode ''400'' then
                                                   (statusCode, response)
                                                 else if truthy (resp_body response) then
                                                   (statusCode,
                                                    response\<lparr>resp_body :=
                                                      map_option
                                                        (projectResponseBody x source
                                                           (map_of ps (param_name bp)) opn statusCode)
                                                        (resp_body response)\<rparr>)
                                                 else (statusCode, response))
                                            (responses st)\<rparr>)
                              else Inr (st\<lparr>parameters := ps\<rparr>))
                         | None \<Rightarrow> Inr (st\<lparr>parameters := ps\<rparr>)))) of
        Inl err \<Rightarrow> Inl err
      | Inr st1 \<Rightarrow>
          (case raw_responseUpdate rawStep of
             None \<Rightarrow> Inr st1
           | Some responseUpdate \<Rightarrow>
               (case patchResponses x (responses st1) responseUpdate of
                  Inl err \<Rightarrow> Inl err
                | Inr rs \<Rightarrow> Inr (st1\<lparr>responses := rs\<rparr>))))"

text \<open>The loop over \<^verbatim>\<open>Object.entries(rawStep.variables)\<close> in the operation branch of
  \<^verbatim>\<open>loadStepRestCall\<close>. \<^verbatim>\<open>jsonPatchApply\<close> works on the value of a clone of the inherited
  variable.\<close>

fun loadOperationVariables ::
  "LoaderExternals \<Rightarrow> (string \<times> RawVariable) list \<Rightarrow> StepRestCall \<Rightarrow> ApiScenarioContext
     \<Rightarrow> JsError + StepRestCall" where
  "loadOperationVariables x [] st ctx = Inr st"
| "loadOperationVariables x ((name, RawString val) # rest) st ctx =
     loadOperationVariables x rest
       (st\<lparr>variables :=
             AList.update name \<lparr>var_type = ''string'', var_value = Some (JStr val), prefix = None,
                                patches = None\<rparr> (variables st)\<rparr>) ctx"
| "loadOperationVariables x ((name, RawTyped val) # rest) st ctx =
     (case (if var_type val = ''object'' \<or> var_type val = ''secureObject'' \<or> var_type val = ''array''
            then patches val else None) of
        Some ops \<Rightarrow>
          (case (case ctx_scenario ctx of
                   Some sc \<Rightarrow>
                     getVariable st ctx name
                       [Some (VariableScope.truncate sc), Some (VariableScope.truncate (scenarioDef ctx))]
                 | None \<Rightarrow>
                     getVariable st ctx name [Some (VariableScope.truncate (scenarioDef ctx))]) of
             None \<Rightarrow> Inl (new_Error (''Variable '' @ name @ '' not found in step '' @ step st))
           | Some variable \<Rightarrow>
               (case patchVariableValue x (var_value variable) ops of
                  Inl err \<Rightarrow> Inl err
                | Inr v \<Rightarrow>
                    loadOperationVariables x rest
                      (st\<lparr>variables := AList.update name (variable\<lparr>var_value := v\<rparr>) (variables st)\<rparr>)
                      ctx))
      | None \<Rightarrow>
          loadOperationVariables x rest
            (st\<lparr>variables := AList.update name val (variables st)\<rparr>) ctx)"

text \<open>The \<^verbatim>\<open>forEach\<close> over the operation's parameters in the operation branch. \<open>version\<close> is
  the pinned version looked up for the step.\<close>

fun loadOperationParameters ::
  "LoaderExternals \<Rightarrow> string option \<Rightarrow> RawStep \<Rightarrow> Parameter list \<Rightarrow> StepRestCall
     \<Rightarrow> ApiScenarioContext \<Rightarrow> StepRestCall \<times> ApiScenarioContext" where
  "loadOperationParameters x version rawStep [] st ctx = (st, ctx)"
| "loadOperationParameters x version rawStep (p # ps) st ctx =
     (let param = loader_resolveRefObj x p;
          name = param_name param
      in if name = ''api-version'' then
           loadOperationParameters x version rawStep ps
             (st\<lparr>parameters := assignProperty ''api-version'' (map_option JStr version) (parameters st)\<rparr>)
             ctx
         else if truthy (case raw_parameters rawStep of None \<Rightarrow> None | Some rp \<Rightarrow> map_of rp name) then
           loadOperationParameters x version rawStep ps
             (st\<lparr>parameters :=
                   assignProperty name
                     (case raw_parameters rawStep of None \<Rightarrow> None | Some rp \<Rightarrow> map_of rp name)
                     (parameters st)\<rparr>)
             ctx
         else
           (case getVariable st ctx name [] of
              Some v \<Rightarrow>
                (if param_in param = ''body'' then
                   loadOperationParameters x version rawStep ps
                     (st\<lparr>parameters := assignProperty name (var_value v) (parameters st)\<rparr>) ctx
                 else
                   loadOperationParameters x version rawStep ps
                     (st\<lparr>parameters :=
                           assignProperty name (Some (JStr (''$('' @ name @ '')''))) (parameters st)\<rparr>)
                     ctx)
            | None \<Rightarrow>
                (if param_in param = ''path'' \<or> required param then
                   loadOperationParameters x version rawStep ps
                     (st\<lparr>parameters :=
                           assignProperty name (Some (JStr (''$('' @ name @ '')''))) (parameters st)\<rparr>)
                     (requireVariable name ctx)
                 else loadOperationParameters x version rawStep ps st ctx)))"

text \<open>\<^verbatim>\<open>// force update api-version\<close>: the assignment after the fixture's parameters are
  taken over, in the example branch.\<close>

definition forceApiVersion :: "(string \<times> string) list \<Rightarrow> string \<Rightarrow> (string \<times> jsval) list \<Rightarrow> (string \<times> jsval) list" where
  "forceApiVersion versions opId ps =
     (if truthy (map_of ps ''api-version'') then
        assignProperty ''api-version'' (map_option JStr (map_of versions opId)) ps
      else ps)"

definition operationNotFound :: "StepRestCall \<Rightarrow> JsError" where
  "operationNotFound st =
     new_Error (''Operation not found for '' @ operationId st @ '' in step '' @ step st)"

text \<open>The branch \<^verbatim>\<open>if ("operationId" in rawStep)\<close> of \<^verbatim>\<open>loadStepRestCall\<close>: \<open>// load operation
  step\<close>.\<close>

definition loadOperationBranch ::
  "LoaderExternals \<Rightarrow> ApiScenarioLoader \<Rightarrow> RawStep \<Rightarrow> string \<Rightarrow> StepRestCall \<Rightarrow> ApiScenarioContext
     \<Rightarrow> JsError + StepRestCall \<times> ApiScenarioContext" where
  "loadOperationBranch x ld rawStep opId st0 ctx =
     (let st1 = st0\<lparr>operationId := opId,
                     step := (if raw_step rawStep = None \<or> raw_step rawStep = Some []
                              then step st0 @ ''_'' @ opId else step st0)\<rparr>;
          tagged = (raw_readmeTag rawStep \<noteq> None \<and> raw_readmeTag rawStep \<noteq> Some []);
          additional = (case raw_readmeTag rawStep of
                          None \<Rightarrow> None
                        | Some tag \<Rightarrow> map_of (additionalMap ld) tag)
      in case (if tagged then
                 (case additional of
                    None \<Rightarrow> None
                  | Some idx \<Rightarrow> map_of (idx_operationsMap idx) (operationId st1))
               else map_of (operationsMap ld) (operationId st1)) of
           None \<Rightarrow> Inl (operationNotFound st1)
         | Some opn \<Rightarrow>
             (let st2 = st1\<lparr>externalReference := (if tagged then Some True else externalReference st1),
                             operation := (if opt_includeOperation ld then Some opn else operation st1)\<rparr>
              in case loadOperationVariables x
                        (case raw_variables rawStep of None \<Rightarrow> [] | Some rv \<Rightarrow> rv) st2 ctx of
                   Inl err \<Rightarrow> Inl err
                 | Inr st3 \<Rightarrow>
                     (case loadOperationParameters x
                             (if tagged then
                                (case additional of
                                   None \<Rightarrow> None
                                 | Some idx \<Rightarrow> map_of (idx_apiVersionsMap idx) (operationId st3))
                              else map_of (apiVersionsMap ld) (operationId st3))
                             rawStep
                             (case op_parameters opn of None \<Rightarrow> [] | Some ps \<Rightarrow> ps)
                             st3 ctx of
                        (st4, ctx1) \<Rightarrow> Inr (st4\<lparr>responseAssertion := raw_responses rawStep\<rparr>, ctx1))))"

text \<open>\<open>// Load Operation\<close> in the example branch: the operation of the fixture, by the
  \<^verbatim>\<open>operationId\<close> in the fixture or by the one operation that refers to the file.\<close>

definition joinIds :: "string list \<Rightarrow> string" where
  "joinIds ids = foldr (\<lambda>a b. if b = [] then a else a @ '','' @ b) ids []"

definition loadExampleOperation ::
  "ApiScenarioLoader \<Rightarrow> SwaggerExample \<Rightarrow> string \<Rightarrow> string \<Rightarrow> StepRestCall
     \<Rightarrow> JsError + StepRestCall \<times> Operation" where
  "loadExampleOperation ld exampleFileContent exampleFilePath file st1 =
     (if ex_operationId exampleFileContent \<noteq> None \<and> ex_operationId exampleFileContent \<noteq> Some [] then
        (let st2 = st1\<lparr>operationId :=
                          (case ex_operationId exampleFileContent of Some i \<Rightarrow> i | None \<Rightarrow> [])\<rparr>
         in case map_of (operationsMap ld) (operationId st2) of
              None \<Rightarrow> Inl (operationNotFound st2)
            | Some opn \<Rightarrow>
                Inr (st2\<lparr>operation := (if opt_includeOperation ld then Some opn else operation st2)\<rparr>,
                     opn))
      else
        (case map_of (exampleToOperation ld) exampleFilePath of
           None \<Rightarrow> Inl (new_Error (''Example file is not referenced by any operation: '' @ file))
         | Some opMap \<Rightarrow>
             (case map fst opMap of
                [] \<Rightarrow> Inl (operationNotFound st1)
              | [opId] \<Rightarrow>
                  (let st2 = st1\<lparr>operationId := opId\<rparr>
                   in case map_of (operationsMap ld) opId of
                        None \<Rightarrow> Inl (operationNotFound st2)
                      | Some opn \<Rightarrow>
                          Inr (st2\<lparr>operation :=
                                     (if opt_includeOperation ld then Some opn else operation st2),
                                   description :=
                                     (case description st2 of
                                        Some d \<Rightarrow> Some d
                                      | None \<Rightarrow> map_of opMap opId)\<rparr>,
                               opn))
              | opId # others \<Rightarrow>
                  Inl (new_Error (''Example file is referenced by multiple operation: ''
                         @ joinIds (map fst opMap) @ '' '' @ file)))))"

text \<open>The \<^verbatim>\<open>else\<close> branch of \<^verbatim>\<open>loadStepRestCall\<close>: \<open>// load example step\<close>.\<close>

definition loadExampleBranch ::
  "LoaderExternals \<Rightarrow> ApiScenarioLoader \<Rightarrow> RawStep \<Rightarrow> StepRestCall \<Rightarrow> ApiScenarioContext
     \<Rightarrow> JsError + StepRestCall \<times> ApiScenarioContext" where
  "loadExampleBranch x ld rawStep st0 ctx =
     (case raw_exampleFile rawStep of
        None \<Rightarrow> Inl (new_Error ''The path argument must be of type string'')
      | Some file \<Rightarrow>
          (let st1 = st0\<lparr>exampleFile := Some file\<rparr>;
               exampleFilePath = pathJoinDirName x (filePath (scenarioDef ctx)) file
           in case loadExampleFile x exampleFilePath of
                Inl err \<Rightarrow> Inl err
              | Inr exampleFileContent \<Rightarrow>
                  (case loadExampleOperation ld exampleFileContent exampleFilePath file st1 of
                     Inl err \<Rightarrow> Inl err
                   | Inr (st3, opn) \<Rightarrow>
                       (let st4 = st3\<lparr>parameters :=
                                         forceApiVersion (apiVersionsMap ld) (operationId st3)
                                           (ex_parameters exampleFileContent),
                                       responses := ex_responses exampleFileContent\<rparr>
                        in case applyPatches x st4 rawStep opn of
                             Inl err \<Rightarrow> Inl err
                           | Inr st5 \<Rightarrow>
                               Inr (exampleParameterConvention x st5 (getVariable st5 ctx) opn, ctx)))))"

definition loadStepRestCall ::
  "LoaderExternals \<Rightarrow> ApiScenarioLoader \<Rightarrow> RawStep \<Rightarrow> ApiScenarioContext
     \<Rightarrow> JsError + StepRestCall \<times> ApiScenarioContext" where
  "loadStepRestCall x ld rawStep ctx0 =
     (if (case raw_step rawStep of None \<Rightarrow> False | Some n \<Rightarrow> map_of (stepTracking ctx0) n \<noteq> None) then
        Inl (new_Error (''Duplicated step name: '' @ (case raw_step rawStep of None \<Rightarrow> [] | Some n \<Rightarrow> n)))
      else
        (case convertVariables (raw_variables rawStep) of
           Inl err \<Rightarrow> Inl err
         | Inr vs \<Rightarrow>
             (let st0 = \<lparr>variables = variables vs, requiredVariables = requiredVariables vs,
                         secretVariables = secretVariables vs,
                         step = (case raw_step rawStep of Some n \<Rightarrow> n | None \<Rightarrow> defaultStepName ctx0),
                         description = raw_description rawStep,
                         outputVariables =
                           Some (case raw_outputVariables rawStep of None \<Rightarrow> [] | Some ov \<Rightarrow> ov),
                         isPrepareStep = None, isCleanUpStep = None,
                         operationId = [], operation = None, exampleFile = None,
                         parameters = [], responses = [], responseAssertion = None,
                         externalReference = None, resolvedParameters = None\<rparr>;
                  ctx = ctx0\<lparr>stepTracking := AList.update (step st0) (RestCall st0) (stepTracking ctx0)\<rparr>
              in case raw_operationId rawStep of
                   Some opId \<Rightarrow> loadOperationBranch x ld rawStep opId st0 ctx
                 | None \<Rightarrow> loadExampleBranch x ld rawStep st0 ctx)))"

subsection \<open>loadStep, the step lists and load\<close>

text \<open>A step kind is chosen by the property the raw step has (\<^verbatim>\<open>"operationId" in rawStep\<close>).
  \<^verbatim>\<open>step.outputVariables\<close> is an object for every step the three loaders build.\<close>

definition loadStep ::
  "LoaderExternals \<Rightarrow> ApiScenarioLoader \<Rightarrow> RawStep \<Rightarrow> ApiScenarioContext
     \<Rightarrow> JsError + Step \<times> ApiScenarioContext" where
  "loadStep x ld rawStep ctx =
     (case (if raw_operationId rawStep \<noteq> None \<or> raw_exampleFile rawStep \<noteq> None then
              (case loadStepRestCall x ld rawStep ctx of
                 Inl err \<Rightarrow> Inl err
               | Inr (st, ctx1) \<Rightarrow> Inr (RestCall st, outputVariables st, ctx1))
            else if raw_armTemplate rawStep \<noteq> None then
              (case loadStepArmTemplate x rawStep ctx of
                 Inl err \<Rightarrow> Inl err
               | Inr (st, ctx1) \<Rightarrow> Inr (ArmTemplateDeployment st, outputVariables st, ctx1))
            else if raw_armDeploymentScript rawStep \<noteq> None then
              (case loadStepArmDeploymentScript x rawStep ctx of
                 Inl err \<Rightarrow> Inl err
               | Inr (st, ctx1) \<Rightarrow> Inr (ArmTemplateDeployment st, outputVariables st, ctx1))
            else Inl (new_Error ''Invalid step'')) of
        Inl error \<Rightarrow>
          Inl (new_Error (''Failed to load step '' @ stringifyRawStep x rawStep @ '': '' @ message error))
      | Inr (st, outputs, ctx1) \<Rightarrow>
          (let ctx2 =
                 (case outputs of
                    None \<Rightarrow> ctx1
                  | Some ov \<Rightarrow> ownerDeclareOutputVariables (map (\<lambda>(k, out). (k, out_type out)) ov) ctx1)
           in Inr (st, ctx2\<lparr>stepIndex := Suc (stepIndex ctx2)\<rparr>)))"

fun setPrepareStep :: "Step \<Rightarrow> Step" where
  "setPrepareStep (RestCall st) = RestCall (st\<lparr>isPrepareStep := Some True\<rparr>)"
| "setPrepareStep (ArmTemplateDeployment st) = ArmTemplateDeployment (st\<lparr>isPrepareStep := Some True\<rparr>)"

fun setCleanUpStep :: "Step \<Rightarrow> Step" where
  "setCleanUpStep (RestCall st) = RestCall (st\<lparr>isCleanUpStep := Some True\<rparr>)"
| "setCleanUpStep (ArmTemplateDeployment st) = ArmTemplateDeployment (st\<lparr>isCleanUpStep := Some True\<rparr>)"

text \<open>The loops of \<^verbatim>\<open>loadPrepareSteps\<close>, \<^verbatim>\<open>loadCleanUpSteps\<close> and \<^verbatim>\<open>loadScenario\<close>: each loads a
  step and pushes it on the list under construction.\<close>

fun loadPrepareStepsLoop ::
  "LoaderExternals \<Rightarrow> ApiScenarioLoader \<Rightarrow> RawStep list \<Rightarrow> ApiScenarioContext
     \<Rightarrow> JsError + ApiScenarioContext" where
  "loadPrepareStepsLoop x ld [] ctx = Inr ctx"
| "loadPrepareStepsLoop x ld (rawStep # rest) ctx =
     (case loadStep x ld rawStep ctx of
        Inl err \<Rightarrow> Inl err
      | Inr (st, ctx1) \<Rightarrow>
          loadPrepareStepsLoop x ld rest
            (ctx1\<lparr>scenarioDef :=
                    (scenarioDef ctx1)\<lparr>prepareSteps := prepareSteps (scenarioDef ctx1) @ [setPrepareStep st]\<rparr>\<rparr>))"

definition loadPrepareSteps ::
  "LoaderExternals \<Rightarrow> ApiScenarioLoader \<Rightarrow> RawScenarioDefinition \<Rightarrow> ApiScenarioContext
     \<Rightarrow> JsError + ApiScenarioContext" where
  "loadPrepareSteps x ld rawDef ctx =
     loadPrepareStepsLoop x ld (case rawdef_prepareSteps rawDef of None \<Rightarrow> [] | Some ss \<Rightarrow> ss)
       (ctx\<lparr>stage := Some ''prepare'', stepIndex := 0\<rparr>)"

fun loadCleanUpStepsLoop ::
  "LoaderExternals \<Rightarrow> ApiScenarioLoader \<Rightarrow> RawStep list \<Rightarrow> ApiScenarioContext
     \<Rightarrow> JsError + ApiScenarioContext" where
  "loadCleanUpStepsLoop x ld [] ctx = Inr ctx"
| "loadCleanUpStepsLoop x ld (rawStep # rest) ctx =
     (case loadStep x ld rawStep ctx of
        Inl err \<Rightarrow> Inl err
      | Inr (st, ctx1) \<Rightarrow>
          loadCleanUpStepsLoop x ld rest
            (ctx1\<lparr>scenarioDef :=
                    (scenarioDef ctx1)\<lparr>cleanUpSteps := cleanUpSteps (scenarioDef ctx1) @ [setCleanUpStep st]\<rparr>\<rparr>))"

definition loadCleanUpSteps ::
  "LoaderExternals \<Rightarrow> ApiScenarioLoader \<Rightarrow> RawScenarioDefinition \<Rightarrow> ApiScenarioContext
     \<Rightarrow> JsError + ApiScenarioContext" where
  "loadCleanUpSteps x ld rawDef ctx =
     loadCleanUpStepsLoop x ld (case rawdef_cleanUpSteps rawDef of None \<Rightarrow> [] | Some ss \<Rightarrow> ss)
       (ctx\<lparr>stage := Some ''cleanUp'', stepIndex := 0\<rparr>)"

text \<open>In \<^verbatim>\<open>loadScenario\<close> the array \<^verbatim>\<open>steps\<close> is the scenario's own: a push is seen through
  \<^verbatim>\<open>ctx.scenario\<close>.\<close>

fun loadScenarioLoop ::
  "LoaderExternals \<Rightarrow> ApiScenarioLoader \<Rightarrow> RawStep list \<Rightarrow> ApiScenarioContext
     \<Rightarrow> JsError + ApiScenarioContext" where
  "loadScenarioLoop x ld [] ctx = Inr ctx"
| "loadScenarioLoop x ld (rawStep # rest) ctx =
     (case loadStep x ld rawStep ctx of
        Inl err \<Rightarrow> Inl err
      | Inr (st, ctx1) \<Rightarrow>
          loadScenarioLoop x ld rest
            (ctx1\<lparr>ctx_scenario := map_option (\<lambda>sc. sc\<lparr>steps := steps sc @ [st]\<rparr>) (ctx_scenario ctx1)\<rparr>))"

definition loadScenario ::
  "LoaderExternals \<Rightarrow> ApiScenarioLoader \<Rightarrow> RawScenario \<Rightarrow> ApiScenarioContext
     \<Rightarrow> JsError + Scenario \<times> ApiScenarioContext" where
  "loadScenario x ld rawScenario ctx =
     (case convertVariables (rawsc_variables rawScenario) of
        Inl err \<Rightarrow> Inl err
      | Inr variableScope \<Rightarrow>
          (let sc = \<lparr>variables = variables variableScope,
                     requiredVariables =
                       setAdd [] (requiredVariables (scenarioDef ctx) @ requiredVariables variableScope),
                     secretVariables = secretVariables variableScope,
                     scenario = (case rawsc_scenario rawScenario of
                                   Some n \<Rightarrow> n
                                 | None \<Rightarrow>
                                     ''scenario_'' @ (case scenarioIndex ctx of
                                                      Some i \<Rightarrow> showNat i
                                                    | None \<Rightarrow> ''undefined'')),
                     sc_description = (case rawsc_description rawScenario of Some d \<Rightarrow> d | None \<Rightarrow> []),
                     shareScope = (case rawsc_shareScope rawScenario of Some b \<Rightarrow> b | None \<Rightarrow> True),
                     steps = []\<rparr>
           in case loadScenarioLoop x ld (rawsc_steps rawScenario)
                     (ctx\<lparr>stage := Some ''scenario'', ctx_scenario := Some sc, stepIndex := 0\<rparr>) of
                Inl err \<Rightarrow> Inl err
              | Inr ctx1 \<Rightarrow>
                  (case ctx_scenario ctx1 of
                     Some sc1 \<Rightarrow> Inr (sc1, ctx1)
                   | None \<Rightarrow> Inr (sc, ctx1))))"

text \<open>The loop over \<^verbatim>\<open>rawDef.scenarios\<close> in \<^verbatim>\<open>load\<close>.\<close>

fun loadScenarios ::
  "LoaderExternals \<Rightarrow> ApiScenarioLoader \<Rightarrow> RawScenario list \<Rightarrow> ApiScenarioContext
     \<Rightarrow> JsError + ApiScenarioContext" where
  "loadScenarios x ld [] ctx = Inr ctx"
| "loadScenarios x ld (rawScenario # rest) ctx =
     (case loadScenario x ld rawScenario (ctx\<lparr>stepTracking := []\<rparr>) of
        Inl err \<Rightarrow> Inl err
      | Inr (sc, ctx1) \<Rightarrow>
          loadScenarios x ld rest
            (ctx1\<lparr>scenarioDef := (scenarioDef ctx1)\<lparr>scenarios := scenarios (scenarioDef ctx1) @ [sc]\<rparr>,
                  scenarioIndex := map_option Suc (scenarioIndex ctx1)\<rparr>))"

subsection \<open>initialize and loadSwaggers\<close>

text \<open>The callback \<^verbatim>\<open>onOperation\<close> of \<^verbatim>\<open>loadSwaggers\<close>, applied to the operations in the order
  of the traversal. The maps are returned as the callbacks left them, also when one of
  them throws.\<close>

fun registerExamples ::
  "LoaderExternals \<Rightarrow> string \<Rightarrow> (string \<times> string option) list \<Rightarrow> (string \<times> (string \<times> string) list) list
     \<Rightarrow> (JsError + unit) \<times> (string \<times> (string \<times> string) list) list" where
  "registerExamples x opId [] egOpMap = (Inr (), egOpMap)"
| "registerExamples x opId ((exampleName, ref) # rest) egOpMap =
     (case ref of
        None \<Rightarrow> (Inl (new_Error (''Example doesn't use $ref: '' @ exampleName)), egOpMap)
      | Some r \<Rightarrow>
          (let exampleFilePath = relativePath x (getRealPath x r);
               opMap = (case map_of egOpMap exampleFilePath of None \<Rightarrow> [] | Some m \<Rightarrow> m)
           in registerExamples x opId rest
                (AList.update exampleFilePath (AList.update opId exampleName opMap) egOpMap)))"

fun onOperations ::
  "LoaderExternals \<Rightarrow> SpecOperation list \<Rightarrow> (string \<times> Operation) list \<Rightarrow> (string \<times> string) list
     \<Rightarrow> (string \<times> (string \<times> string) list) list option
     \<Rightarrow> (JsError + unit) \<times> (string \<times> Operation) list \<times> (string \<times> string) list
         \<times> (string \<times> (string \<times> string) list) list option" where
  "onOperations x [] opsMap verMap egOpMap = (Inr (), opsMap, verMap, egOpMap)"
| "onOperations x (so # rest) opsMap verMap egOpMap =
     (case so_operationId so of
        None \<Rightarrow>
          (Inl (new_Error (''OperationId is undefined for operation '' @ op_method (so_operation so)
                  @ '' '' @ op_pathTemplate (so_operation so))), opsMap, verMap, egOpMap)
      | Some opId \<Rightarrow>
          (case map_of opsMap opId of
             Some other \<Rightarrow>
               (Inl (new_Error (''Duplicated operationId '' @ opId @ '': ''
                       @ op_pathTemplate (so_operation so) @ [CHR 0x0A] @ ''Conflict with path: ''
                       @ op_pathTemplate other)), opsMap, verMap, egOpMap)
           | None \<Rightarrow>
               (let opsMap1 = AList.update opId (so_operation so) opsMap;
                    verMap1 = AList.update opId (so_version so) verMap
                in case egOpMap of
                     None \<Rightarrow> onOperations x rest opsMap1 verMap1 None
                   | Some m \<Rightarrow>
                       (case registerExamples x opId (so_examples so) m of
                          (Inl err, m1) \<Rightarrow> (Inl err, opsMap1, verMap1, Some m1)
                        | (Inr u, m1) \<Rightarrow> onOperations x rest opsMap1 verMap1 (Some m1)))))"

definition loadSwaggers ::
  "LoaderExternals \<Rightarrow> string list \<Rightarrow> (string \<times> Operation) list \<Rightarrow> (string \<times> string) list
     \<Rightarrow> (string \<times> (string \<times> string) list) list option
     \<Rightarrow> (JsError + unit) \<times> (string \<times> Operation) list \<times> (string \<times> string) list
         \<times> (string \<times> (string \<times> string) list) list option" where
  "loadSwaggers x paths opsMap verMap egOpMap =
     (case traverseSwaggers x paths of
        Inl err \<Rightarrow> (Inl err, opsMap, verMap, egOpMap)
      | Inr operations \<Rightarrow> onOperations x operations opsMap verMap egOpMap)"

text \<open>The loop over \<^verbatim>\<open>readmeTags\<close> in \<^verbatim>\<open>initialize\<close>.\<close>

fun initializeReadmeTags ::
  "LoaderExternals \<Rightarrow> ReadmeTag list \<Rightarrow> ApiScenarioLoader \<Rightarrow> (JsError + unit) \<times> ApiScenarioLoader" where
  "initializeReadmeTags x [] ld = (Inr (), ld)"
| "initializeReadmeTags x (e # rest) ld =
     (case getInputFiles x (tag_filePath e) (tag_tag e) of
        Inl err \<Rightarrow> (Inl err, ld)
      | Inr None \<Rightarrow> initializeReadmeTags x rest ld
      | Inr (Some inputFiles) \<Rightarrow>
          (case loadSwaggers x (map (pathJoinDirName x (tag_filePath e)) inputFiles) [] [] None of
             (res, opsMap, verMap, egOpMap) \<Rightarrow>
               (let ld1 = ld\<lparr>additionalMap :=
                               AList.update (tag_name e)
                                 \<lparr>idx_operationsMap = opsMap, idx_apiVersionsMap = verMap\<rparr>
                                 (additionalMap ld)\<rparr>
                in case res of
                     Inl err \<Rightarrow> (Inl err, ld1)
                   | Inr u \<Rightarrow> initializeReadmeTags x rest ld1)))"

definition initialize ::
  "LoaderExternals \<Rightarrow> string list \<Rightarrow> ReadmeTag list option \<Rightarrow> ApiScenarioLoader
     \<Rightarrow> (JsError + unit) \<times> ApiScenarioLoader" where
  "initialize x paths readmeTags ld =
     (if initialized ld then (Inl (new_Error ''Already initialized''), ld)
      else
        (case loadSwaggers x paths (operationsMap ld) (apiVersionsMap ld)
                (Some (exampleToOperation ld)) of
           (res, opsMap, verMap, egOpMap) \<Rightarrow>
             (let ld1 = ld\<lparr>operationsMap := opsMap, apiVersionsMap := verMap,
                             exampleToOperation :=
                               (case egOpMap of None \<Rightarrow> exampleToOperation ld | Some m \<Rightarrow> m)\<rparr>
              in case res of
                   Inl err \<Rightarrow> (Inl err, ld1)
                 | Inr u \<Rightarrow>
                     (case initializeReadmeTags x (case readmeTags of None \<Rightarrow> [] | Some ts \<Rightarrow> ts) ld1 of
                        (Inl err, ld2) \<Rightarrow> (Inl err, ld2)
                      | (Inr u', ld2) \<Rightarrow> (Inr (), ld2\<lparr>initialized := True\<rparr>)))))"

subsection \<open>load\<close>

text \<open>The steps of \<^verbatim>\<open>load\<close> after \<^verbatim>\<open>initialize\<close>: the definition object, the prepare and
  clean-up steps, the scenarios.\<close>

definition compileDefinition ::
  "LoaderExternals \<Rightarrow> ApiScenarioLoader \<Rightarrow> string \<Rightarrow> RawScenarioDefinition \<Rightarrow> JsError + ScenarioDefinition" where
  "compileDefinition x ld path rawDef =
     (case convertVariables (rawdef_variables rawDef) of
        Inl err \<Rightarrow> Inl err
      | Inr vs \<Rightarrow>
          (let def0 = \<lparr>variables = variables vs, requiredVariables = requiredVariables vs,
                       secretVariables = secretVariables vs,
                       scope = (case rawdef_scope rawDef of Some s \<Rightarrow> s | None \<Rightarrow> ''ResourceGroup''),
                       prepareSteps = [], scenarios = [], cleanUpSteps = [],
                       filePath = relativePath x path,
                       swaggerFilePaths = opt_swaggerFilePaths ld\<rparr>;
               def1 = (if scope def0 \<in> set [''ResourceGroup'', ''Subscription''] then
                         def0\<lparr>requiredVariables :=
                                setAdd (setAdd (setAdd [] (requiredVariables def0)) [''subscriptionId''])
                                  (if scope def0 = ''ResourceGroup'' then [''location''] else [])\<rparr>
                       else def0);
               ctx = \<lparr>stepTracking = [], scenarioDef = def1, ctx_scenario = None,
                      scenarioIndex = None, stepIndex = 0, stage = None\<rparr>
           in case loadPrepareSteps x ld rawDef ctx of
                Inl err \<Rightarrow> Inl err
              | Inr ctx1 \<Rightarrow>
                  (case loadCleanUpSteps x ld rawDef ctx1 of
                     Inl err \<Rightarrow> Inl err
                   | Inr ctx2 \<Rightarrow>
                       (case loadScenarios x ld (rawdef_scenarios rawDef)
                               (ctx2\<lparr>scenarioIndex := Some 0\<rparr>) of
                          Inl err \<Rightarrow> Inl err
                        | Inr ctx3 \<Rightarrow> Inr (scenarioDef ctx3)))))"

definition load ::
  "LoaderExternals \<Rightarrow> string \<Rightarrow> ApiScenarioLoader \<Rightarrow> (JsError + ScenarioDefinition) \<times> ApiScenarioLoader" where
  "load x path ld =
     (case yamlLoad x path of
        Inl err \<Rightarrow> (Inl err, ld)
      | Inr (rawDef, readmeTags) \<Rightarrow>
          (case initialize x (opt_swaggerFilePaths ld) readmeTags ld of
             (Inl err, ld1) \<Rightarrow> (Inl err, ld1)
           | (Inr u, ld1) \<Rightarrow> (compileDefinition x ld1 path rawDef, ld1)))"

section \<open>Observations on the runner's history\<close>

text \<open>The steps \<^verbatim>\<open>executeStep\<close> was entered with, the deletions of resource groups requested
  from the client, and the fields of the runner object that no step execution writes.\<close>

fun executedSteps :: "Event list \<Rightarrow> Step list" where
  "executedSteps [] = []"
| "executedSteps (ExecuteStep s # evs) = s # executedSteps evs"
| "executedSteps (_ # evs) = executedSteps evs"

fun deleteRequests :: "Event list \<Rightarrow> (string \<times> string) list" where
  "deleteRequests [] = []"
| "deleteRequests (DeleteResourceGroup a b # evs) = (a, b) # deleteRequests evs"
| "deleteRequests (_ # evs) = deleteRequests evs"

definition sameObject :: "ApiScenarioRunner \<Rightarrow> ApiScenarioRunner \<Rightarrow> bool" where
  "sameObject r r' \<longleftrightarrow>
     env r' = env r \<and> scopeTracking r' = scopeTracking r \<and> resolveVariables r' = resolveVariables r
     \<and> skipCleanUp r' = skipCleanUp r"


text \<open>The provisioning routine invoked \<open>n\<close> times in a row on one scope object, with the
  results of the invocations.\<close>

fun doProvisionScopeTimes ::
  "nat \<Rightarrow> Externals \<Rightarrow> Scope \<Rightarrow> ApiScenarioRunner
     \<Rightarrow> (JsError + bool) list \<times> Scope \<times> ApiScenarioRunner" where
  "doProvisionScopeTimes 0 w sco r = ([], sco, r)"
| "doProvisionScopeTimes (Suc n) w sco r =
     (case doProvisionScope w sco r of
        (res, sco', r') \<Rightarrow>
          (case doProvisionScopeTimes n w sco' r' of
             (rs, sco'', r'') \<Rightarrow> (res # rs, sco'', r'')))"


text \<open>How the stages of \<^verbatim>\<open>executeScenario\<close> end when they are run one after the other on a
  resolved scope: the preparation hook, the provisioning, the loop over the scenario's
  steps and the clean-up. \<open>None\<close> when the scope cannot be resolved.\<close>

definition stageOutcomes ::
  "Externals \<Rightarrow> ScenarioDefinition \<Rightarrow> Scenario \<Rightarrow> ApiScenarioRunner
     \<Rightarrow> ((JsError + unit) \<times> (JsError + bool) \<times> (JsError + unit) \<times> (JsError + unit)) option" where
  "stageOutcomes w d sc r =
     (case prepareScope w d sc r of
        (Inl err, r1) \<Rightarrow> None
      | (Inr (name, sco), r1) \<Rightarrow>
          (case generateValueFromPrefix w
                  (setBatch (new_VariableEnv (Some (scope_env sco))) (variables sc)) r1 of
             (senv, r2) \<Rightarrow>
               (case clientCall w (PrepareScenario sc senv) r2 of
                  (hres, r3) \<Rightarrow>
                    (case doProvisionScope w sco r3 of
                       (pres, sco1, r4) \<Rightarrow>
                         (case executeSteps w (steps sc) senv sco1 (storeScope name sco1 r4) of
                            (lres, ss, r5) \<Rightarrow>
                              (case cleanUpScope w sco1 r5 of
                                 (cres, sco2, r6) \<Rightarrow> Some (hres, pres, lres, cres)))))))"




text \<open>The condition under which \<^verbatim>\<open>generateValueFromPrefix\<close> assigns a value to a variable:
  \<^verbatim>\<open>v.type === "string" || v.type === "secureString"\<close> and
  \<^verbatim>\<open>v.prefix !== undefined && v.value === undefined\<close>.\<close>

definition prefixWithoutValue :: "Variable \<Rightarrow> bool" where
  "prefixWithoutValue v \<longleftrightarrow>
     (var_type v = ''string'' \<or> var_type v = ''secureString'') \<and> prefix v \<noteq> None \<and> var_value v = None"

section \<open>Concrete scenarios\<close>

text \<open>A REST call step without parameters, a client that rejects the calls named in a list
  and accepts every other call, a runner and a scope with two prepare steps and two
  clean-up steps.\<close>

definition exampleRestCallStep :: "string \<Rightarrow> StepRestCall" where
  "exampleRestCallStep n =
     \<lparr>variables = [], requiredVariables = [], secretVariables = [], step = n,
      description = None, outputVariables = None, isPrepareStep = None, isCleanUpStep = None,
      operationId = ''Things_Get'',
      operation = Some \<lparr>op_operationId = ''Things_Get'', op_method = ''get'',
                        op_pathTemplate = ''/t/{id}'', op_parameters = None\<rparr>,
      exampleFile = None, parameters = [], responses = [], responseAssertion = None,
      externalReference = None, resolvedParameters = None\<rparr>"

definition exampleRestCall :: "string \<Rightarrow> Step" where
  "exampleRestCall n = RestCall (exampleRestCallStep n)"

definition exampleRequest :: ApiScenarioClientRequest where
  "exampleRequest =
     \<lparr>req_method = ''GET'', req_path = ''/t/$(id)'', pathVariables = [], headers = [],
      query = [], body = None\<rparr>"

fun rejected :: "string list \<Rightarrow> Event \<Rightarrow> bool" where
  "rejected names (SendRestCallRequest req st e) = (step st \<in> set names)"
| "rejected names (CreateResourceGroup a b c) = (''createResourceGroup'' \<in> set names)"
| "rejected names (PrepareScenario sc e) = (''prepareScenario'' \<in> set names)"
| "rejected names _ = False"

definition exampleExternals :: "string list \<Rightarrow> Externals" where
  "exampleExternals names =
     \<lparr>client = (\<lambda>h ev. if rejected names ev then Some \<lparr>message = ''rejected'', stack = ''client''\<rparr> else None),
      getRandomString = (\<lambda>n. replicate (Suc n) CHR ''x''),
      resolveRefObj = (\<lambda>p. p), env_resolve = Inr, resolveString = (\<lambda>e s. Inr s),
      resolveRequest = (\<lambda>e q. Inr q), resolveParameters = (\<lambda>e q. Inr q),
      resolveArmTemplate = (\<lambda>e q. Inr q)\<rparr>"

definition exampleRunner :: ApiScenarioRunner where
  "exampleRunner =
     \<lparr>env = [(''subscriptionId'', \<lparr>var_type = ''string'', var_value = Some (JStr ''sub1''), prefix = None, patches = None\<rparr>),
             (''location'', \<lparr>var_type = ''string'', var_value = Some (JStr ''westus''), prefix = None, patches = None\<rparr>)],
      scopeTracking = [], resolveVariables = True, skipCleanUp = False,
      history = [], randomCount = 0\<rparr>"

definition exampleScope :: "string \<Rightarrow> Scope" where
  "exampleScope ty =
     \<lparr>provisioned = None, scope_type = ty,
      scope_prepareSteps = [exampleRestCall ''prepare1'', exampleRestCall ''prepare2''],
      scope_cleanUpSteps = [exampleRestCall ''cleanup1'', exampleRestCall ''cleanup2''],
      scope_env = VariableEnv [] None\<rparr>"


definition exampleDefinition :: "string \<Rightarrow> ScenarioDefinition" where
  "exampleDefinition ty =
     \<lparr>variables = [], requiredVariables = [], secretVariables = [], scope = ty,
      prepareSteps = [exampleRestCall ''prepare1'', exampleRestCall ''prepare2''],
      scenarios = [],
      cleanUpSteps = [exampleRestCall ''cleanup1'', exampleRestCall ''cleanup2''],
      filePath = ''scenario.yaml'', swaggerFilePaths = []\<rparr>"

definition exampleScenario :: "string \<Rightarrow> bool \<Rightarrow> Scenario" where
  "exampleScenario n share =
     \<lparr>variables = [], requiredVariables = [], secretVariables = [], scenario = n,
      sc_description = [], shareScope = share,
      steps = [exampleRestCall ''step1'', exampleRestCall ''step2'']\<rparr>"

text \<open>For the compiler: one operation \<open>Things_Get\<close> pinned at version \<open>2020-01-01\<close>, two
  templates that both declare the string parameter \<open>adminName\<close> without a default, a
  fixture with and one without an \<^verbatim>\<open>api-version\<close>, collaborators that load these and leave
  steps alone, and a raw definition with one scenario made of the given raw steps.\<close>

definition exampleOperation :: Operation where
  "exampleOperation =
     \<lparr>op_operationId = ''Things_Get'', op_method = ''get'', op_pathTemplate = ''/t/{id}'',
      op_parameters = Some [\<lparr>param_name = ''api-version'', param_in = ''query'', required = True\<rparr>]\<rparr>"

definition exampleTemplate :: "string \<Rightarrow> ArmTemplate" where
  "exampleTemplate path =
     (if path = ''storage.json'' \<or> path = ''network.json'' then
        \<lparr>arm_parameters = Some [(''adminName'', \<lparr>arm_type = ''string'', defaultValue = None\<rparr>)],
         arm_outputs = None, arm_resources = Some []\<rparr>
      else \<lparr>arm_parameters = None, arm_outputs = None, arm_resources = Some []\<rparr>)"

definition exampleFixture :: "string \<Rightarrow> SwaggerExample" where
  "exampleFixture path =
     \<lparr>ex_operationId = Some ''Things_Get'',
      ex_parameters =
        (if path = ''with-version.json'' then [(''api-version'', JStr ''2019-06-01''), (''id'', JStr ''thing1'')]
         else [(''id'', JStr ''thing1'')]),
      ex_responses = [(''200'', \<lparr>resp_headers = None, resp_body = None\<rparr>)]\<rparr>"

definition exampleLoaderExternals :: "RawScenarioDefinition \<Rightarrow> LoaderExternals" where
  "exampleLoaderExternals rawDef =
     \<lparr>yamlLoad = (\<lambda>path. Inr (rawDef, None)),
      traverseSwaggers =
        (\<lambda>paths. Inr [\<lparr>so_operation = exampleOperation, so_operationId = Some ''Things_Get'',
                         so_version = ''2020-01-01'', so_examples = []\<rparr>]),
      getInputFiles = (\<lambda>path tag. Inr None),
      relativePath = (\<lambda>path. path),
      getRealPath = (\<lambda>path. path),
      pathJoinDirName = (\<lambda>dir file. file),
      loadFile = (\<lambda>path. Inr ''echo''),
      loadExampleFile = (\<lambda>path. Inr (exampleFixture path)),
      loadArmTemplateFile = (\<lambda>path. Inr (exampleTemplate path)),
      loader_resolveRefObj = (\<lambda>p. p),
      armTemplateParameterConvention = (\<lambda>st g. st),
      exampleParameterConvention = (\<lambda>st g opn. st),
      patchVariableValue = (\<lambda>v ops. Inr v),
      patchParameters = (\<lambda>ps ops. Inr ps),
      patchResponses = (\<lambda>rs ops. Inr rs),
      projectResponseBody = (\<lambda>source target opn statusCode b. b),
      armDeploymentScriptTemplate = \<lparr>arm_parameters = None, arm_outputs = None, arm_resources = Some []\<rparr>,
      stringifyRawStep = (\<lambda>rawStep. case raw_step rawStep of Some n \<Rightarrow> n | None \<Rightarrow> [])\<rparr>"

definition exampleLoader :: ApiScenarioLoader where
  "exampleLoader =
     \<lparr>operationsMap = [], apiVersionsMap = [], exampleToOperation = [], additionalMap = [],
      initialized = False, opt_swaggerFilePaths = [''things.json''], opt_includeOperation = True\<rparr>"

definition emptyRawStep :: "string \<Rightarrow> RawStep" where
  "emptyRawStep n =
     \<lparr>raw_variables = None, raw_step = Some n, raw_description = None, raw_outputVariables = None,
      raw_operationId = None, raw_readmeTag = None, raw_parameters = None, raw_responses = None,
      raw_exampleFile = None, raw_requestUpdate = None, raw_responseUpdate = None,
      raw_armTemplate = None, raw_armDeploymentScript = None, raw_arguments = None,
      raw_environmentVariables = None\<rparr>"

definition rawTemplateStep :: "string \<Rightarrow> string \<Rightarrow> RawStep" where
  "rawTemplateStep n file = (emptyRawStep n)\<lparr>raw_armTemplate := Some file\<rparr>"

definition rawOperationStep :: "string \<Rightarrow> string \<Rightarrow> RawStep" where
  "rawOperationStep n opId = (emptyRawStep n)\<lparr>raw_operationId := Some opId\<rparr>"

definition rawExampleStep :: "string \<Rightarrow> string \<Rightarrow> RawStep" where
  "rawExampleStep n file = (emptyRawStep n)\<lparr>raw_exampleFile := Some file\<rparr>"

definition exampleRawDefinition :: "RawStep list \<Rightarrow> RawScenarioDefinition" where
  "exampleRawDefinition rawSteps =
     \<lparr>rawdef_variables = None, rawdef_scope = None, rawdef_prepareSteps = None,
      rawdef_scenarios =
        [\<lparr>rawsc_variables = None, rawsc_scenario = Some ''example'', rawsc_shareScope = None,
          rawsc_description = None, rawsc_steps = rawSteps\<rparr>],
      rawdef_cleanUpSteps = None\<rparr>"

definition compileExample :: "RawStep list \<Rightarrow> JsError + ScenarioDefinition" where
  "compileExample rawSteps =
     fst (load (exampleLoaderExternals (exampleRawDefinition rawSteps)) ''scenario.yaml'' exampleLoader)"


text \<open>The loader after \<^verbatim>\<open>initialize\<close>, and a context in which the first step of the first
  scenario is compiled.\<close>

definition exampleLoaded :: ApiScenarioLoader where
  "exampleLoaded =
     exampleLoader\<lparr>operationsMap := [(''Things_Get'', exampleOperation)],
                   apiVersionsMap := [(''Things_Get'', ''2020-01-01'')],
                   initialized := True\<rparr>"

definition exampleContext :: ApiScenarioContext where
  "exampleContext =
     \<lparr>stepTracking = [], scenarioDef = exampleDefinition ''ResourceGroup'', ctx_scenario = None,
      scenarioIndex = Some 0, stepIndex = 0, stage = Some ''scenario''\<rparr>"


section \<open>What the runner's operations do to the history\<close>

lemmas example_defs = exampleRestCall_def exampleRestCallStep_def exampleRequest_def exampleExternals_def exampleRunner_def exampleScope_def
  exampleDefinition_def exampleScenario_def

lemmas runner_defs = doProvisionScope_def getLazyBuilder_def provisionBuilder_def executeStep_def
  executeRestCallStep_def executeArmTemplateStep_def clientCall_def generateValueFromPrefix_def
  getVariables_def setBatch_def new_VariableEnv_def env_set_def getRequiredString_def new_Error_def
  cleanUpScope_def storeScope_def finishScenario_def executeScenario_def prepareScope_def
  setBatchEnv_def

text \<open>One execution of an example step, for any runner that resolves variables.\<close>

lemma example_strings:
  "toUpperCase ''get'' = ''GET''"
  "pathPlaceholders ''/t/{id}'' = ''/t/$(id)''"
  by code_simp+

lemma executeStep_example:
  "resolveVariables r \<Longrightarrow>
   executeStep (exampleExternals names) (exampleRestCall n) e sco r =
     (if n \<in> set names then
        (Inl (new_Error (''Failed to execute step '' @ n @ '': rejected '' @ [CHR 0x0A] @ ''client'')),
         exampleRestCall n,
         r\<lparr>history := history r @ [ExecuteStep (exampleRestCall n),
                SendRestCallRequest exampleRequest (exampleRestCallStep n) (VariableEnv [] (Some e))]\<rparr>)
      else
        (Inr (), RestCall ((exampleRestCallStep n)\<lparr>resolvedParameters := Some []\<rparr>),
         r\<lparr>history := history r @ [ExecuteStep (exampleRestCall n),
                SendRestCallRequest exampleRequest (exampleRestCallStep n) (VariableEnv [] (Some e))]\<rparr>))"
proof -
  assume rv: "resolveVariables r"
  have st: "step (exampleRestCallStep n) = n" "variables (exampleRestCallStep n) = []"
    "parameters (exampleRestCallStep n) = []" "resolvedParameters (exampleRestCallStep n) = None"
    "operation (exampleRestCallStep n) = Some \<lparr>op_operationId = ''Things_Get'', op_method = ''get'',
                        op_pathTemplate = ''/t/{id}'', op_parameters = None\<rparr>"
    by (simp_all add: exampleRestCallStep_def)
  show ?thesis
    using rv
    by (simp add: executeStep_def exampleRestCall_def executeRestCallStep_def st example_strings
          generateValueFromPrefix_def getVariables_def setBatch_def new_VariableEnv_def
          clientCall_def exampleExternals_def new_Error_def exampleRequest_def
          del: pathPlaceholders.simps)
qed

lemma exampleExternals_sel:
  "client (exampleExternals names) h ev
     = (if rejected names ev then Some \<lparr>message = ''rejected'', stack = ''client''\<rparr> else None)"
  "getRandomString (exampleExternals names) k = replicate (Suc k) CHR ''x''"
  "resolveString (exampleExternals names) e s = Inr s"
  by (simp_all add: exampleExternals_def)

lemmas fast_defs = doProvisionScope_def getLazyBuilder_def provisionBuilder_def
  clientCall_def generateValueFromPrefix_def
  getVariables_def setBatch_def new_VariableEnv_def env_set_def getRequiredString_def new_Error_def
  cleanUpScope_def storeScope_def finishScenario_def executeScenario_def prepareScope_def
  setBatchEnv_def executeStep_example exampleExternals_sel exampleRunner_def exampleScope_def
  exampleDefinition_def exampleScenario_def


lemma executedSteps_append: "executedSteps (xs @ ys) = executedSteps xs @ executedSteps ys"
  by (induction xs rule: executedSteps.induct) simp_all

lemma deleteRequests_append: "deleteRequests (xs @ ys) = deleteRequests xs @ deleteRequests ys"
  by (induction xs rule: deleteRequests.induct) simp_all

lemma generateValueFromPrefix_frame:
  "generateValueFromPrefix w e r = (e', r') \<Longrightarrow> history r' = history r \<and> sameObject r r'"
  by (auto simp: generateValueFromPrefix_def sameObject_def split: prod.splits)

lemma executeRestCallStep_effect:
  "executeRestCallStep w st e r = (res, st', r') \<Longrightarrow>
     executedSteps (history r') = executedSteps (history r)
     \<and> deleteRequests (history r') = deleteRequests (history r) \<and> sameObject r r'"
  by (auto simp: executeRestCallStep_def clientCall_def sameObject_def executedSteps_append
        deleteRequests_append split: option.splits sum.splits if_splits prod.splits)

lemma executeArmTemplateStep_effect:
  "executeArmTemplateStep w st e sco r = (res, st', r') \<Longrightarrow>
     executedSteps (history r') = executedSteps (history r)
     \<and> deleteRequests (history r') = deleteRequests (history r) \<and> sameObject r r'"
  by (auto simp: executeArmTemplateStep_def clientCall_def sameObject_def executedSteps_append
        deleteRequests_append Let_def split: option.splits sum.splits if_splits prod.splits)

lemma sameObject_trans: "sameObject a b \<Longrightarrow> sameObject b c \<Longrightarrow> sameObject a c"
  by (simp add: sameObject_def)

lemma executeStep_effect:
  assumes "executeStep w s e sco r = (res, s', r')"
  shows "executedSteps (history r') = executedSteps (history r) @ [s]
     \<and> deleteRequests (history r') = deleteRequests (history r) \<and> sameObject r r'"
proof -
  obtain e0 r1 where g: "generateValueFromPrefix w (setBatch (new_VariableEnv (Some e)) (step_variables s))
             (r\<lparr>history := history r @ [ExecuteStep s]\<rparr>) = (e0, r1)"
    by (cases "generateValueFromPrefix w (setBatch (new_VariableEnv (Some e)) (step_variables s))
             (r\<lparr>history := history r @ [ExecuteStep s]\<rparr>)")
  from generateValueFromPrefix_frame[OF g]
  have r1: "executedSteps (history r1) = executedSteps (history r) @ [s]"
       "deleteRequests (history r1) = deleteRequests (history r)" "sameObject r r1"
    by (simp_all add: executedSteps_append deleteRequests_append sameObject_def)
  show ?thesis
  proof (cases "if resolveVariables r1 then env_resolve w e0 else Inr e0")
    case (Inl err)
    with assms g r1 show ?thesis by (simp add: executeStep_def)
  next
    case (Inr stepEnv)
    show ?thesis
    proof (cases s)
      case (RestCall st)
      obtain res2 st2 r2 where x: "executeRestCallStep w st stepEnv r1 = (res2, st2, r2)"
        by (cases "executeRestCallStep w st stepEnv r1")
      from executeRestCallStep_effect[OF x] r1 have "executedSteps (history r2) = executedSteps (history r) @ [s]
        \<and> deleteRequests (history r2) = deleteRequests (history r) \<and> sameObject r r2"
        by (auto intro: sameObject_trans)
      moreover from assms g Inr RestCall x have "r' = r2"
        by (auto simp: executeStep_def split: sum.splits)
      ultimately show ?thesis by simp
    next
      case (ArmTemplateDeployment st)
      obtain res2 st2 r2 where x: "executeArmTemplateStep w st stepEnv sco r1 = (res2, st2, r2)"
        by (cases "executeArmTemplateStep w st stepEnv sco r1")
      from executeArmTemplateStep_effect[OF x] r1 have "executedSteps (history r2) = executedSteps (history r) @ [s]
        \<and> deleteRequests (history r2) = deleteRequests (history r) \<and> sameObject r r2"
        by (auto intro: sameObject_trans)
      moreover from assms g Inr ArmTemplateDeployment x have "r' = r2"
        by (auto simp: executeStep_def split: sum.splits)
      ultimately show ?thesis by simp
    qed
  qed
qed

lemma executeSteps_effect:
  "executeSteps w ss e sco r = (res, ss', r') \<Longrightarrow>
     (\<exists>k \<le> length ss. executedSteps (history r') = executedSteps (history r) @ take k ss
          \<and> (case res of Inl _ \<Rightarrow> 0 < k | Inr _ \<Rightarrow> k = length ss))
     \<and> deleteRequests (history r') = deleteRequests (history r) \<and> sameObject r r'
     \<and> length ss' = length ss"
proof (induction ss arbitrary: r res ss' r')
  case Nil
  then show ?case by (auto simp: sameObject_def)
next
  case (Cons s ss)
  obtain res1 s1 r1 where x: "executeStep w s e sco r = (res1, s1, r1)"
    by (cases "executeStep w s e sco r")
  note eff = executeStep_effect[OF x]
  show ?case
  proof (cases res1)
    case (Inl err)
    with Cons.prems x have "res = Inl err" "r' = r1" "ss' = s1 # ss" by simp_all
    with eff show ?thesis by (auto intro!: exI[of _ 1])
  next
    case (Inr u)
    obtain res2 ss2 r2 where y: "executeSteps w ss e sco r1 = (res2, ss2, r2)"
      by (cases "executeSteps w ss e sco r1")
    with Cons.prems x Inr have eq: "res = res2" "r' = r2" "ss' = s1 # ss2" by simp_all
    from Cons.IH[OF y] obtain k where k: "k \<le> length ss"
      "executedSteps (history r2) = executedSteps (history r1) @ take k ss"
      "(case res2 of Inl _ \<Rightarrow> 0 < k | Inr _ \<Rightarrow> k = length ss)"
      and rest: "deleteRequests (history r2) = deleteRequests (history r1)" "sameObject r1 r2"
        "length ss2 = length ss"
      by blast
    have "Suc k \<le> length (s # ss)" using k by simp
    moreover have "executedSteps (history r') = executedSteps (history r) @ take (Suc k) (s # ss)"
      using k eff eq by simp
    moreover have "(case res of Inl _ \<Rightarrow> 0 < Suc k | Inr _ \<Rightarrow> Suc k = length (s # ss))"
      using k eq by (auto split: sum.splits)
    ultimately have "\<exists>k \<le> length (s # ss). executedSteps (history r') = executedSteps (history r) @ take k (s # ss)
          \<and> (case res of Inl _ \<Rightarrow> 0 < k | Inr _ \<Rightarrow> k = length (s # ss))"
      by blast
    with rest eff eq show ?thesis by (auto intro: sameObject_trans)
  qed
qed

lemma provisionBuilder_effect:
  assumes "provisionBuilder w sco r = (res, sco', r')"
  shows "(\<exists>k \<le> length (scope_prepareSteps sco).
            executedSteps (history r') = executedSteps (history r) @ take k (scope_prepareSteps sco)
            \<and> (case res of Inl _ \<Rightarrow> True | Inr _ \<Rightarrow> k = length (scope_prepareSteps sco)))
         \<and> deleteRequests (history r') = deleteRequests (history r) \<and> sameObject r r'
         \<and> provisioned sco' = provisioned sco \<and> scope_type sco' = scope_type sco
         \<and> scope_env sco' = scope_env sco \<and> scope_cleanUpSteps sco' = scope_cleanUpSteps sco"
proof -
  define pre where "pre = (if scope_type sco = ''ResourceGroup'' then
              (case getRequiredString w (scope_env sco) ''subscriptionId'' of
                 Inl err \<Rightarrow> (Inl err, r)
               | Inr subscriptionId \<Rightarrow>
                   (case getRequiredString w (scope_env sco) ''resourceGroupName'' of
                      Inl err \<Rightarrow> (Inl err, r)
                    | Inr resourceGroupName \<Rightarrow>
                        (case getRequiredString w (scope_env sco) ''location'' of
                           Inl err \<Rightarrow> (Inl err, r)
                         | Inr location \<Rightarrow>
                             clientCall w
                               (CreateResourceGroup subscriptionId resourceGroupName location) r)))
            else (Inr (), r))"
  obtain res0 r1 where pre: "pre = (res0, r1)" by (cases pre)
  have r1: "executedSteps (history r1) = executedSteps (history r)
     \<and> deleteRequests (history r1) = deleteRequests (history r) \<and> sameObject r r1"
    using pre unfolding pre_def
    by (auto simp: clientCall_def sameObject_def executedSteps_append deleteRequests_append
          split: if_splits sum.splits)
  show ?thesis
  proof (cases res0)
    case (Inl err)
    with assms pre r1 show ?thesis
      by (auto simp: provisionBuilder_def pre_def[symmetric] intro!: exI[of _ 0])
  next
    case (Inr u)
    obtain res2 ss r2 where x: "executeSteps w (scope_prepareSteps sco) (scope_env sco) sco r1 = (res2, ss, r2)"
      by (cases "executeSteps w (scope_prepareSteps sco) (scope_env sco) sco r1")
    from assms pre Inr x have eq: "r' = r2" "sco' = sco\<lparr>scope_prepareSteps := ss\<rparr>"
       "res = (case res2 of Inl e \<Rightarrow> Inl e | Inr _ \<Rightarrow> Inr True)"
      by (auto simp: provisionBuilder_def pre_def[symmetric] split: sum.splits)
    from executeSteps_effect[OF x] r1 eq show ?thesis
      by (auto split: sum.splits intro: sameObject_trans)
  qed
qed

lemma doProvisionScope_provisioned:
  "provisioned sco = Some v \<Longrightarrow> doProvisionScope w sco r = (v, sco, r)"
  by (simp add: doProvisionScope_def getLazyBuilder_def)

lemma doProvisionScope_first:
  assumes "provisioned sco = None" and "doProvisionScope w sco r = (res, sco1, r1)"
  shows "\<exists>sco0. provisionBuilder w sco r = (res, sco0, r1) \<and> sco1 = sco0\<lparr>provisioned := Some res\<rparr>"
  using assms by (auto simp: doProvisionScope_def getLazyBuilder_def split: prod.splits)

lemma doProvisionScopeTimes_provisioned:
  "provisioned sco = Some v \<Longrightarrow> doProvisionScopeTimes n w sco r = (replicate n v, sco, r)"
  by (induction n) (simp_all add: doProvisionScope_provisioned)

lemma cleanUpScope_effect:
  assumes "cleanUpScope w sco r = (res, sco', r')"
  shows "(\<exists>k \<le> length (scope_cleanUpSteps sco).
            executedSteps (history r') = executedSteps (history r) @ take k (scope_cleanUpSteps sco)
            \<and> (scope_cleanUpSteps sco \<noteq> [] \<longrightarrow> 0 < k)
            \<and> (case res of Inl _ \<Rightarrow> True | Inr _ \<Rightarrow> k = length (scope_cleanUpSteps sco)))
         \<and> sameObject r r'
         \<and> provisioned sco' = provisioned sco \<and> scope_type sco' = scope_type sco
         \<and> scope_env sco' = scope_env sco \<and> scope_prepareSteps sco' = scope_prepareSteps sco"
proof -
  obtain res2 ss r2 where x: "executeSteps w (scope_cleanUpSteps sco) (scope_env sco) sco r = (res2, ss, r2)"
    by (cases "executeSteps w (scope_cleanUpSteps sco) (scope_env sco) sco r")
  note eff = executeSteps_effect[OF x]
  show ?thesis
  proof (cases res2)
    case (Inl err)
    with assms x have "res = Inl err" "sco' = sco\<lparr>scope_cleanUpSteps := ss\<rparr>" "r' = r2"
      by (auto simp: cleanUpScope_def)
    with eff Inl show ?thesis by auto
  next
    case (Inr u)
    with eff have all: "executedSteps (history r2) = executedSteps (history r) @ scope_cleanUpSteps sco"
      and so: "sameObject r r2" by auto
    from assms x Inr have sco': "sco' = sco\<lparr>scope_cleanUpSteps := ss\<rparr>"
      and r': "executedSteps (history r') = executedSteps (history r2) \<and> sameObject r2 r'"
      by (auto simp: cleanUpScope_def clientCall_def sameObject_def executedSteps_append
            split: if_splits sum.splits)
    from all so sco' r' show ?thesis
      by (auto intro!: exI[of _ "length (scope_cleanUpSteps sco)"] intro: sameObject_trans split: sum.splits)
  qed
qed


lemma doProvisionScope_effect:
  assumes "doProvisionScope w sco r = (res, sco', r')"
  shows "(\<exists>k \<le> length (scope_prepareSteps sco).
            executedSteps (history r') = executedSteps (history r) @ take k (scope_prepareSteps sco)
            \<and> (provisioned sco = None \<longrightarrow> (case res of Inl _ \<Rightarrow> True | Inr _ \<Rightarrow> k = length (scope_prepareSteps sco))))
         \<and> deleteRequests (history r') = deleteRequests (history r) \<and> sameObject r r'
         \<and> provisioned sco' = Some res \<and> scope_type sco' = scope_type sco
         \<and> scope_env sco' = scope_env sco \<and> scope_cleanUpSteps sco' = scope_cleanUpSteps sco"
proof (cases "provisioned sco")
  case None
  from doProvisionScope_first[OF None assms] obtain sco0 where
    b: "provisionBuilder w sco r = (res, sco0, r')" and sco1: "sco' = sco0\<lparr>provisioned := Some res\<rparr>"
    by blast
  from provisionBuilder_effect[OF b] sco1 show ?thesis by auto
next
  case (Some v)
  with assms doProvisionScope_provisioned[OF Some, of w r]
  have "res = v" "sco' = sco" "r' = r" by simp_all
  with Some show ?thesis by (auto simp: sameObject_def intro!: exI[of _ 0])
qed

lemma prepareScope_effect:
  assumes "prepareScope w d sc r = (res, r')"
  shows "history r' = history r \<and> skipCleanUp r' = skipCleanUp r \<and> resolveVariables r' = resolveVariables r
       \<and> env r' = env r"
  using assms
  by (auto simp: prepareScope_def generateValueFromPrefix_def Let_def
        split: if_splits option.splits prod.splits)



lemma clientCall_effect:
  "clientCall w ev r = (res, r') \<Longrightarrow> history r' = history r @ [ev] \<and> sameObject r r'"
  by (auto simp: clientCall_def sameObject_def)

lemma finishScenario_effect:
  assumes "finishScenario w sc name sco res r = (out, r')"
  shows "skipCleanUp r \<longrightarrow> r' = r"
    and "\<not> skipCleanUp r \<longrightarrow> (\<exists>cres sco2 rc. cleanUpScope w sco r = (cres, sco2, rc)
            \<and> r' = storeScope name sco2 rc)"
  using assms by (auto simp: finishScenario_def Let_def split: prod.splits sum.splits)

lemma executeSteps_fail_at:
  assumes "executeSteps w xs e sco r = (Inr u, xs', ra)"
      and "executeStep w s e sco ra = (Inl err, s', rb)"
  shows "executeSteps w (xs @ s # ys) e sco r = (Inl err, xs' @ s' # ys, rb)"
  using assms
proof (induction xs arbitrary: r xs')
  case Nil
  then show ?case by simp
next
  case (Cons x xs)
  obtain res1 x1 r1 where x: "executeStep w x e sco r = (res1, x1, r1)"
    by (cases "executeStep w x e sco r")
  show ?case
  proof (cases res1)
    case (Inl e1)
    with Cons.prems x show ?thesis by simp
  next
    case (Inr u1)
    obtain res2 xs2 r2 where y: "executeSteps w xs e sco r1 = (res2, xs2, r2)"
      by (cases "executeSteps w xs e sco r1")
    with Cons.prems(1) x Inr have eq: "res2 = Inr u" "xs' = x1 # xs2" "ra = r2" by simp_all
    from Cons.IH[of r1 xs2] y eq Cons.prems(2)
    have "executeSteps w (xs @ s # ys) e sco r1 = (Inl err, xs2 @ s' # ys, rb)" by simp
    with x Inr eq show ?thesis by simp
  qed
qed

lemma storeScope_frame:
  "history (storeScope n sco r) = history r \<and> skipCleanUp (storeScope n sco r) = skipCleanUp r
   \<and> resolveVariables (storeScope n sco r) = resolveVariables r \<and> env (storeScope n sco r) = env r"
  by (simp add: storeScope_def)

lemma executeScenario_stages:
  assumes "prepareScope w d sc r = (Inr (name, sco), r1)"
      and "generateValueFromPrefix w (setBatch (new_VariableEnv (Some (scope_env sco))) (variables sc)) r1
             = (senv, r2)"
      and "clientCall w (PrepareScenario sc senv) r2 = (Inr u, r3)"
      and "doProvisionScope w sco r3 = (Inr b, sco1, r4)"
      and "executeSteps w (steps sc) senv sco1 (storeScope name sco1 r4) = (res, ss, r5)"
      and "finishScenario w sc name sco1 res r5 = (out, r6)"
  shows "executeScenario w d sc r = (out, sc\<lparr>steps := ss\<rparr>, r6)"
  using assms by (simp add: executeScenario_def)


lemma executeStep_error:
  assumes "executeStep w s e sco r = (Inl err, s', r')"
  shows "(\<exists>m. message err = ''Failed to execute step '' @ step_name s @ '': '' @ m)
       \<or> (resolveVariables r \<and> (\<exists>e0. env_resolve w e0 = Inl err))"
proof -
  obtain e0 r1 where g: "generateValueFromPrefix w (setBatch (new_VariableEnv (Some e)) (step_variables s))
             (r\<lparr>history := history r @ [ExecuteStep s]\<rparr>) = (e0, r1)"
    by (cases "generateValueFromPrefix w (setBatch (new_VariableEnv (Some e)) (step_variables s))
             (r\<lparr>history := history r @ [ExecuteStep s]\<rparr>)")
  have rv: "resolveVariables r1 = resolveVariables r"
    using generateValueFromPrefix_frame[OF g] by (simp add: sameObject_def)
  show ?thesis
  proof (cases "if resolveVariables r1 then env_resolve w e0 else Inr e0")
    case (Inl x)
    with assms g have "err = x" by (simp add: executeStep_def)
    with Inl rv show ?thesis by (auto split: if_splits)
  next
    case (Inr stepEnv)
    with assms g show ?thesis
      by (auto simp: executeStep_def new_Error_def split: Step.splits prod.splits sum.splits)
  qed
qed


lemma stageOutcomes_stages:
  assumes "stageOutcomes w d sc r = Some (hres, pres, lres, cres)"
  shows "\<exists>name sco r1 senv r2 r3 sco1 r4 ss r5 sco2 r6.
      prepareScope w d sc r = (Inr (name, sco), r1)
      \<and> generateValueFromPrefix w (setBatch (new_VariableEnv (Some (scope_env sco))) (variables sc)) r1
           = (senv, r2)
      \<and> clientCall w (PrepareScenario sc senv) r2 = (hres, r3)
      \<and> doProvisionScope w sco r3 = (pres, sco1, r4)
      \<and> executeSteps w (steps sc) senv sco1 (storeScope name sco1 r4) = (lres, ss, r5)
      \<and> cleanUpScope w sco1 r5 = (cres, sco2, r6)"
  using assms by (auto simp: stageOutcomes_def split: prod.splits sum.splits)












lemma executeSteps_first_failure:
  "executeSteps w ss e sco r = (Inl err, ss', r') \<Longrightarrow>
     \<exists>k < length ss. \<exists>ys' rm s'.
        executeSteps w (take k ss) e sco r = (Inr (), ys', rm)
        \<and> executeStep w (ss ! k) e sco rm = (Inl err, s', r')
        \<and> executedSteps (history r') = executedSteps (history r) @ take (Suc k) ss"
proof (induction ss arbitrary: r ss')
  case Nil
  then show ?case by simp
next
  case (Cons s ss)
  obtain res1 s1 r1 where x: "executeStep w s e sco r = (res1, s1, r1)"
    by (cases "executeStep w s e sco r")
  note eff = executeStep_effect[OF x]
  show ?case
  proof (cases res1)
    case (Inl e1)
    with Cons.prems x have "e1 = err" "r' = r1" by simp_all
    with x Inl eff have "executeSteps w (take 0 (s # ss)) e sco r = (Inr (), [], r)
        \<and> executeStep w ((s # ss) ! 0) e sco r = (Inl err, s1, r')
        \<and> executedSteps (history r') = executedSteps (history r) @ take (Suc 0) (s # ss)"
      by simp
    then show ?thesis by blast
  next
    case (Inr u)
    obtain res2 ss2 r2 where y: "executeSteps w ss e sco r1 = (res2, ss2, r2)"
      by (cases "executeSteps w ss e sco r1")
    with Cons.prems x Inr have eq: "res2 = Inl err" "r' = r2" by simp_all
    from Cons.IH[of r1 ss2] y eq obtain k ys' rm s' where k: "k < length ss"
      and a: "executeSteps w (take k ss) e sco r1 = (Inr (), ys', rm)"
      and b: "executeStep w (ss ! k) e sco rm = (Inl err, s', r')"
      and c: "executedSteps (history r') = executedSteps (history r1) @ take (Suc k) ss"
      by blast
    have "Suc k < length (s # ss)" using k by simp
    moreover have "executeSteps w (take (Suc k) (s # ss)) e sco r = (Inr (), s1 # ys', rm)"
      using x Inr a by simp
    moreover have "executeStep w ((s # ss) ! Suc k) e sco rm = (Inl err, s', r')"
      using b by simp
    moreover have "executedSteps (history r') = executedSteps (history r) @ take (Suc (Suc k)) (s # ss)"
      using c eff by simp
    ultimately show ?thesis by blast
  qed
qed

lemma cleanUpScope_steps:
  assumes "cleanUpScope w sco r = (res, sco', r')"
  shows "(\<exists>cs' rm. executeSteps w (scope_cleanUpSteps sco) (scope_env sco) sco r = (Inr (), cs', rm)
            \<and> executedSteps (history r') = executedSteps (history r) @ scope_cleanUpSteps sco)
       \<or> (\<exists>k < length (scope_cleanUpSteps sco). \<exists>ys' rm err c'.
            executeSteps w (take k (scope_cleanUpSteps sco)) (scope_env sco) sco r = (Inr (), ys', rm)
            \<and> executeStep w (scope_cleanUpSteps sco ! k) (scope_env sco) sco rm = (Inl err, c', r')
            \<and> res = Inl err
            \<and> executedSteps (history r') = executedSteps (history r) @ take (Suc k) (scope_cleanUpSteps sco))"
proof -
  obtain res2 ss r2 where x: "executeSteps w (scope_cleanUpSteps sco) (scope_env sco) sco r = (res2, ss, r2)"
    by (cases "executeSteps w (scope_cleanUpSteps sco) (scope_env sco) sco r")
  show ?thesis
  proof (cases res2)
    case (Inl err)
    with assms x have eq: "res = Inl err" "r' = r2"
      by (auto simp: cleanUpScope_def)
    from executeSteps_first_failure[OF x[unfolded Inl]] eq show ?thesis by blast
  next
    case (Inr u)
    with executeSteps_effect[OF x]
    have all: "executedSteps (history r2) = executedSteps (history r) @ scope_cleanUpSteps sco"
      by auto
    from assms x Inr have "executedSteps (history r') = executedSteps (history r2)"
      by (auto simp: cleanUpScope_def clientCall_def executedSteps_append
            split: if_splits sum.splits)
    with all x Inr show ?thesis by auto
  qed
qed


section \<open>Facts about the compiler\<close>

lemmas loader_defs = compileExample_def load_def initialize_def loadSwaggers_def compileDefinition_def
  loadPrepareSteps_def loadCleanUpSteps_def loadScenario_def loadStep_def loadStepRestCall_def
  loadOperationBranch_def loadExampleBranch_def loadExampleOperation_def loadStepArmTemplate_def
  loadStepArmDeploymentScript_def convertVariables_def ownerScope_def ownerPushRequired_def
  ownerDeclareOutputVariables_def getVariableFunction_def getVariable_def requireVariable_def
  assignProperty_def applyPatches_def forceApiVersion_def operationNotFound_def new_Error_def
  VariableScope.truncate_def placeholderVariable_def
  exampleLoaderExternals_def exampleLoader_def exampleRawDefinition_def emptyRawStep_def
  rawTemplateStep_def rawOperationStep_def rawExampleStep_def exampleOperation_def
  exampleTemplate_def exampleFixture_def exampleLoaded_def exampleContext_def exampleDefinition_def


lemma applyPatches_without_requestUpdate:
  assumes "applyPatches x st rawStep opn = Inr st'" and "raw_requestUpdate rawStep = None"
  shows "parameters st' = parameters st \<and> operationId st' = operationId st"
  using assms by (auto simp: applyPatches_def split: option.splits sum.splits)

lemma forceApiVersion_entry:
  "map_of (forceApiVersion versions opId ps) ''api-version''
     = (if truthy (map_of ps ''api-version'') then map_option JStr (map_of versions opId)
        else map_of ps ''api-version'')"
  by (auto simp: forceApiVersion_def assignProperty_def update_conv' delete_conv'
        split: option.splits)

lemma forceApiVersion_others:
  "k \<noteq> ''api-version'' \<Longrightarrow> map_of (forceApiVersion versions opId ps) k = map_of ps k"
  by (auto simp: forceApiVersion_def assignProperty_def update_conv' delete_conv'
        split: option.splits)





























section \<open>Claims about the runner\<close>

subsection \<open>C1: provisioning is memoized\<close>

text \<open>
  Claim C1, as amended. Let a scope be unprovisioned and let the provisioning routine
  \<^verbatim>\<open>doProvisionScope\<close> be invoked on it. Then \<open>n + 2\<close> invocations in a row leave the scope
  and the runner as the first invocation left them and all give the first invocation's
  result; the first invocation executes an initial segment of the scope's prepare steps,
  in order, each once, and all of them when it succeeds; afterwards the scope is
  provisioned for good: every later invocation, with any client and in any runner state,
  returns the remembered result without executing anything, and cleaning the scope up
  does not reset it.
\<close>

theorem provisioning_runs_at_most_once:
  assumes unprovisioned: "provisioned sco = None"
      and first: "doProvisionScope w sco r = (res, sco1, r1)"
  shows "doProvisionScopeTimes (Suc (Suc n)) w sco r = (replicate (Suc (Suc n)) res, sco1, r1)
       \<and> (\<exists>k \<le> length (scope_prepareSteps sco).
             executedSteps (history r1) = executedSteps (history r) @ take k (scope_prepareSteps sco)
             \<and> (case res of Inl _ \<Rightarrow> True | Inr _ \<Rightarrow> k = length (scope_prepareSteps sco)))
       \<and> provisioned sco1 = Some res
       \<and> (\<forall>w' r'. doProvisionScope w' sco1 r' = (res, sco1, r'))
       \<and> (\<forall>w' r' out sco2 r2. cleanUpScope w' sco1 r' = (out, sco2, r2) \<longrightarrow> provisioned sco2 = Some res)"
proof -
  from doProvisionScope_first[OF assms] obtain sco0 where
    b: "provisionBuilder w sco r = (res, sco0, r1)" and sco1: "sco1 = sco0\<lparr>provisioned := Some res\<rparr>"
    by blast
  have p: "provisioned sco1 = Some res" using sco1 by simp
  have "doProvisionScopeTimes (Suc (Suc n)) w sco r = (replicate (Suc (Suc n)) res, sco1, r1)"
    using first doProvisionScopeTimes_provisioned[OF p, of "Suc n" w r1] by simp
  moreover have "\<exists>k \<le> length (scope_prepareSteps sco).
             executedSteps (history r1) = executedSteps (history r) @ take k (scope_prepareSteps sco)
             \<and> (case res of Inl _ \<Rightarrow> True | Inr _ \<Rightarrow> k = length (scope_prepareSteps sco))"
    using provisionBuilder_effect[OF b] by blast
  moreover have "\<forall>w' r'. doProvisionScope w' sco1 r' = (res, sco1, r')"
    using doProvisionScope_provisioned[OF p] by simp
  moreover have "\<forall>w' r' out sco2 r2. cleanUpScope w' sco1 r' = (out, sco2, r2) \<longrightarrow> provisioned sco2 = Some res"
    using cleanUpScope_effect p by metis
  ultimately show ?thesis using p by blast
qed

text \<open>The theorem at a scope with two prepare steps and a client that accepts every call:
  two invocations, both prepare steps executed once.\<close>

theorem provisioning_runs_at_most_once_witness:
  "provisioned (exampleScope ''Subscription'') = None
   \<and> doProvisionScopeTimes 2 (exampleExternals []) (exampleScope ''Subscription'') exampleRunner
       = ([Inr True, Inr True],
          snd (doProvisionScope (exampleExternals []) (exampleScope ''Subscription'') exampleRunner))
   \<and> executedSteps (history (snd (snd (doProvisionScope (exampleExternals [])
          (exampleScope ''Subscription'') exampleRunner))))
       = [exampleRestCall ''prepare1'', exampleRestCall ''prepare2'']"
proof -
  let ?x = "doProvisionScope (exampleExternals []) (exampleScope ''Subscription'') exampleRunner"
  have u: "provisioned (exampleScope ''Subscription'') = None"
    by (simp add: exampleScope_def)
  have res: "fst ?x = Inr True"
    by (simp add: fast_defs)
  have f: "?x = (Inr True, fst (snd ?x), snd (snd ?x))"
    using res by (metis prod.collapse)
  have h: "executedSteps (history exampleRunner) = []"
    by (simp add: exampleRunner_def)
  have l: "length (scope_prepareSteps (exampleScope ''Subscription'')) = 2"
    by (simp add: exampleScope_def)
  from provisioning_runs_at_most_once[OF u f, of 0] u h l show ?thesis
    by (auto simp: numeral_2_eq_2 exampleScope_def)
qed


text \<open>The claim as first stated fails when provisioning fails: with a client that rejects
  the first prepare step, two invocations never execute the second prepare step.\<close>

theorem provisioning_exactly_once_counterexample:
  "provisioned (exampleScope ''Subscription'') = None
   \<and> scope_prepareSteps (exampleScope ''Subscription'')
       = [exampleRestCall ''prepare1'', exampleRestCall ''prepare2'']
   \<and> executedSteps (history (snd (snd (doProvisionScopeTimes 2 (exampleExternals [''prepare1''])
          (exampleScope ''Subscription'') exampleRunner))))
       = [exampleRestCall ''prepare1'']"
  by (simp add: fast_defs numeral_2_eq_2)
subsection \<open>C8: materializing prefixes twice\<close>

lemma generateValues_settled:
  "generateValues w kvs n = (kvs', n') \<Longrightarrow> generateValues w' kvs' m = (kvs', m)"
proof (induction kvs arbitrary: n kvs' n' m)
  case Nil
  then show ?case by simp
next
  case (Cons kv kvs)
  obtain k v where kv: "kv = (k, v)" by (cases kv)
  show ?case
    using Cons.prems Cons.IH unfolding kv
    by (auto split: if_splits option.splits prod.splits)
qed

lemma generateValues_valued:
  "generateValues w kvs n = (kvs', n') \<Longrightarrow> (k, v) \<in> set kvs' \<Longrightarrow>
     var_type v = ''string'' \<or> var_type v = ''secureString'' \<Longrightarrow> prefix v \<noteq> None \<Longrightarrow>
     var_value v \<noteq> None"
proof (induction kvs arbitrary: n kvs' n')
  case Nil
  then show ?case by simp
next
  case (Cons kv kvs)
  obtain k0 v0 where kv: "kv = (k0, v0)" by (cases kv)
  show ?case
    using Cons.prems Cons.IH unfolding kv
    by (auto split: if_splits option.splits prod.splits)
qed

lemma generateValues_nth:
  "generateValues w kvs n = (kvs', n') \<Longrightarrow>
     length kvs' = length kvs
     \<and> n' = n + length (filter (prefixWithoutValue \<circ> snd) kvs)
     \<and> (\<forall>i < length kvs.
          kvs' ! i =
            (if prefixWithoutValue (snd (kvs ! i))
             then (fst (kvs ! i),
                   (snd (kvs ! i))\<lparr>var_value :=
                      Some (JStr (the (prefix (snd (kvs ! i)))
                                  @ getRandomString w (n + length (filter (prefixWithoutValue \<circ> snd) (take i kvs)))))\<rparr>)
             else kvs ! i))"
proof (induction kvs arbitrary: n kvs' n')
  case Nil
  then show ?case by simp
next
  case (Cons kv kvs)
  obtain k v where kv: "kv = (k, v)" by (cases kv)
  show ?case
  proof (cases "prefixWithoutValue v")
    case True
    then obtain p where p: "prefix v = Some p" by (auto simp: prefixWithoutValue_def)
    obtain t m where rest: "generateValues w kvs (Suc n) = (t, m)"
      by (cases "generateValues w kvs (Suc n)")
    from Cons.prems True p rest
    have out: "kvs' = (k, v\<lparr>var_value := Some (JStr (p @ getRandomString w n))\<rparr>) # t" "n' = m"
      unfolding kv by (auto simp: prefixWithoutValue_def)
    note ih = Cons.IH[OF rest]
    show ?thesis
      unfolding kv out using ih True p
      by (auto simp: nth_Cons split: nat.splits)
  next
    case False
    obtain t m where rest: "generateValues w kvs n = (t, m)"
      by (cases "generateValues w kvs n")
    from Cons.prems False rest
    have out: "kvs' = (k, v) # t" "n' = m"
      unfolding kv by (auto simp: prefixWithoutValue_def split: option.splits if_splits)
    note ih = Cons.IH[OF rest]
    show ?thesis
      unfolding kv out using ih False
      by (auto simp: nth_Cons split: nat.splits)
  qed
qed

text \<open>
  Claim C8. Let \<^verbatim>\<open>generateValueFromPrefix\<close> run on an environment layer. The layer keeps its
  parent and its variables, in their order and under their names. Every variable of type
  string or secureString that has a prefix and no value is given the prefix followed by a
  random string: the \<open>n\<close>-th of them, counted from 0, gets the \<open>n\<close>-th random string drawn
  from then on. Every other variable is left as it is, and nothing else of the runner
  changes. Afterwards every string or secureString variable of the layer that has a prefix
  has a value, and a second run, directly afterwards or later, whatever random strings it
  would draw and in whatever runner state, returns the layer as it is and draws nothing:
  every variable has the value the first run gave it.
\<close>

theorem generateValueFromPrefix_twice:
  assumes "generateValueFromPrefix w e r = (e1, r1)"
  shows "generateValueFromPrefix w e1 r1 = (e1, r1)
       \<and> generateValueFromPrefix w' e1 r' = (e1, r')
       \<and> (\<forall>(k, v) \<in> set (getVariables e1).
            (var_type v = ''string'' \<or> var_type v = ''secureString'') \<and> prefix v \<noteq> None
              \<longrightarrow> var_value v \<noteq> None)
       \<and> baseEnv e1 = baseEnv e
       \<and> length (getVariables e1) = length (getVariables e)
       \<and> r1 = r\<lparr>randomCount :=
                  randomCount r + length (filter (prefixWithoutValue \<circ> snd) (getVariables e))\<rparr>
       \<and> (\<forall>i < length (getVariables e).
            (case getVariables e ! i of
               (k, v) \<Rightarrow>
                 getVariables e1 ! i =
                   (if prefixWithoutValue v
                    then (k, v\<lparr>var_value :=
                              Some (JStr (the (prefix v)
                                          @ getRandomString w
                                              (randomCount r
                                               + length (filter (prefixWithoutValue \<circ> snd)
                                                           (take i (getVariables e))))))\<rparr>)
                    else (k, v))))"
proof -
  obtain kvs n where g: "generateValues w (getVariables e) (randomCount r) = (kvs, n)"
    by (cases "generateValues w (getVariables e) (randomCount r)")
  with assms have e1: "e1 = VariableEnv kvs (baseEnv e)" and r1: "r1 = r\<lparr>randomCount := n\<rparr>"
    by (simp_all add: generateValueFromPrefix_def)
  have again: "generateValueFromPrefix v e1 s = (e1, s)" for v s
    using generateValues_settled[OF g, of v "randomCount s"] e1
    by (simp add: generateValueFromPrefix_def getVariables_def)
  have valued: "\<forall>(k, v) \<in> set (getVariables e1).
            (var_type v = ''string'' \<or> var_type v = ''secureString'') \<and> prefix v \<noteq> None
              \<longrightarrow> var_value v \<noteq> None"
    using generateValues_valued[OF g] e1 by (auto simp: getVariables_def)
  note nth = generateValues_nth[OF g]
  have base: "baseEnv e1 = baseEnv e" using e1 by simp
  have len: "length (getVariables e1) = length (getVariables e)"
    using nth e1 by (simp add: getVariables_def)
  have cnt: "r1 = r\<lparr>randomCount :=
                  randomCount r + length (filter (prefixWithoutValue \<circ> snd) (getVariables e))\<rparr>"
    using nth r1 by simp
  have each: "\<forall>i < length (getVariables e).
            (case getVariables e ! i of
               (k, v) \<Rightarrow>
                 getVariables e1 ! i =
                   (if prefixWithoutValue v
                    then (k, v\<lparr>var_value :=
                              Some (JStr (the (prefix v)
                                          @ getRandomString w
                                              (randomCount r
                                               + length (filter (prefixWithoutValue \<circ> snd)
                                                           (take i (getVariables e))))))\<rparr>)
                    else (k, v)))"
  proof (intro allI impI)
    fix i assume i: "i < length (getVariables e)"
    obtain k v where kv: "getVariables e ! i = (k, v)" by (cases "getVariables e ! i")
    from nth i have "kvs ! i =
            (if prefixWithoutValue (snd (getVariables e ! i))
             then (fst (getVariables e ! i),
                   (snd (getVariables e ! i))\<lparr>var_value :=
                      Some (JStr (the (prefix (snd (getVariables e ! i)))
                                  @ getRandomString w (randomCount r
                                      + length (filter (prefixWithoutValue \<circ> snd) (take i (getVariables e))))))\<rparr>)
             else getVariables e ! i)"
      by blast
    then show "case getVariables e ! i of
               (k, v) \<Rightarrow>
                 getVariables e1 ! i =
                   (if prefixWithoutValue v
                    then (k, v\<lparr>var_value :=
                              Some (JStr (the (prefix v)
                                          @ getRandomString w
                                              (randomCount r
                                               + length (filter (prefixWithoutValue \<circ> snd)
                                                           (take i (getVariables e))))))\<rparr>)
                    else (k, v))"
      unfolding kv using e1 by (simp add: getVariables_def)
  qed
  from again[of w r1] again[of w' r'] valued base len cnt each show ?thesis by blast
qed

text \<open>The theorem at a layer of three variables, with random strings \<open>x\<close>, \<open>xx\<close>, ...: the
  string and the secureString variable with a prefix and no value get their prefix
  followed by the first and the second random string, the variable that has a value keeps
  it, and a second run returns the same layer.\<close>

theorem generateValueFromPrefix_twice_witness:
  "generateValueFromPrefix (exampleExternals [])
       (VariableEnv [(''name'', \<lparr>var_type = ''string'', var_value = None,
                                prefix = Some ''rg-'', patches = None\<rparr>),
                     (''location'', \<lparr>var_type = ''string'', var_value = Some (JStr ''westus''),
                                prefix = Some ''loc-'', patches = None\<rparr>),
                     (''password'', \<lparr>var_type = ''secureString'', var_value = None,
                                prefix = Some ''pw-'', patches = None\<rparr>)] None) exampleRunner
     = (VariableEnv [(''name'', \<lparr>var_type = ''string'', var_value = Some (JStr ''rg-x''),
                                  prefix = Some ''rg-'', patches = None\<rparr>),
                     (''location'', \<lparr>var_type = ''string'', var_value = Some (JStr ''westus''),
                                  prefix = Some ''loc-'', patches = None\<rparr>),
                     (''password'', \<lparr>var_type = ''secureString'', var_value = Some (JStr ''pw-xx''),
                                  prefix = Some ''pw-'', patches = None\<rparr>)] None,
        exampleRunner\<lparr>randomCount := 2\<rparr>)
   \<and> generateValueFromPrefix (exampleExternals [])
         (VariableEnv [(''name'', \<lparr>var_type = ''string'', var_value = Some (JStr ''rg-x''),
                                  prefix = Some ''rg-'', patches = None\<rparr>),
                     (''location'', \<lparr>var_type = ''string'', var_value = Some (JStr ''westus''),
                                  prefix = Some ''loc-'', patches = None\<rparr>),
                     (''password'', \<lparr>var_type = ''secureString'', var_value = Some (JStr ''pw-xx''),
                                  prefix = Some ''pw-'', patches = None\<rparr>)] None)
         (exampleRunner\<lparr>randomCount := 2\<rparr>)
       = (VariableEnv [(''name'', \<lparr>var_type = ''string'', var_value = Some (JStr ''rg-x''),
                                    prefix = Some ''rg-'', patches = None\<rparr>),
                     (''location'', \<lparr>var_type = ''string'', var_value = Some (JStr ''westus''),
                                  prefix = Some ''loc-'', patches = None\<rparr>),
                     (''password'', \<lparr>var_type = ''secureString'', var_value = Some (JStr ''pw-xx''),
                                  prefix = Some ''pw-'', patches = None\<rparr>)] None,
          exampleRunner\<lparr>randomCount := 2\<rparr>)"
proof -
  have first: "generateValueFromPrefix (exampleExternals [])
       (VariableEnv [(''name'', \<lparr>var_type = ''string'', var_value = None,
                                prefix = Some ''rg-'', patches = None\<rparr>),
                     (''location'', \<lparr>var_type = ''string'', var_value = Some (JStr ''westus''),
                                prefix = Some ''loc-'', patches = None\<rparr>),
                     (''password'', \<lparr>var_type = ''secureString'', var_value = None,
                                prefix = Some ''pw-'', patches = None\<rparr>)] None) exampleRunner
     = (VariableEnv [(''name'', \<lparr>var_type = ''string'', var_value = Some (JStr ''rg-x''),
                                  prefix = Some ''rg-'', patches = None\<rparr>),
                     (''location'', \<lparr>var_type = ''string'', var_value = Some (JStr ''westus''),
                                  prefix = Some ''loc-'', patches = None\<rparr>),
                     (''password'', \<lparr>var_type = ''secureString'', var_value = Some (JStr ''pw-xx''),
                                  prefix = Some ''pw-'', patches = None\<rparr>)] None,
        exampleRunner\<lparr>randomCount := 2\<rparr>)"
    by (simp add: generateValueFromPrefix_def getVariables_def exampleExternals_sel exampleRunner_def)
  from generateValueFromPrefix_twice[OF first] first show ?thesis by blast
qed

subsection \<open>C2: a failing scenario step\<close>

text \<open>
  Claim C2, as amended. Let \<^verbatim>\<open>executeScenario\<close> have resolved the scope, called the client's
  preparation hook and provisioned the scope with success, and let the scenario's steps be
  \<open>xs @ s # ys\<close> where the steps \<open>xs\<close> succeed and the step \<open>s\<close> fails. Then the steps
  executed for the scenario are exactly \<open>xs\<close> and \<open>s\<close>: none of \<open>ys\<close> is executed. If
  \<^verbatim>\<open>skipCleanUp\<close> is set nothing else happens. Otherwise \<^verbatim>\<open>cleanUpScope\<close> runs afterwards
  on the scope and executes the first \<open>j\<close> of the scope's clean-up steps, in order, and no
  other step. Either all clean-up steps succeed, and then \<open>j\<close> is their number: every
  clean-up step has been executed. Or the clean-up steps before the \<open>j\<close>-th succeed and
  the \<open>j\<close>-th fails: the clean-up stops there, with the error of that step, and the
  clean-up steps after it are not executed.
\<close>

theorem failed_step_stops_scenario:
  assumes ps: "prepareScope w d sc r = (Inr (name, sco), r1)"
      and gv: "generateValueFromPrefix w (setBatch (new_VariableEnv (Some (scope_env sco))) (variables sc)) r1
                 = (senv, r2)"
      and hook: "clientCall w (PrepareScenario sc senv) r2 = (Inr u, r3)"
      and prov: "doProvisionScope w sco r3 = (Inr b, sco1, r4)"
      and split: "steps sc = xs @ s # ys"
      and before: "executeSteps w xs senv sco1 (storeScope name sco1 r4) = (Inr u', xs', ra)"
      and fails: "executeStep w s senv sco1 ra = (Inl err, s', rb)"
      and run: "executeScenario w d sc r = (out, sc', r')"
  shows "executedSteps (history rb) = executedSteps (history r4) @ xs @ [s]
       \<and> (skipCleanUp r \<longrightarrow> r' = rb)
       \<and> (\<not> skipCleanUp r \<longrightarrow>
            (\<exists>cres sco2 rc j. cleanUpScope w sco1 rb = (cres, sco2, rc)
               \<and> r' = storeScope name sco2 rc
               \<and> j \<le> length (scope_cleanUpSteps sco)
               \<and> executedSteps (history r') = executedSteps (history rb) @ take j (scope_cleanUpSteps sco)
               \<and> (scope_cleanUpSteps sco \<noteq> [] \<longrightarrow> 0 < j)
               \<and> (case cres of Inl _ \<Rightarrow> True | Inr _ \<Rightarrow> j = length (scope_cleanUpSteps sco))
               \<and> ((j = length (scope_cleanUpSteps sco)
                    \<and> (\<exists>cs' rm. executeSteps w (scope_cleanUpSteps sco) (scope_env sco1) sco1 rb
                                    = (Inr (), cs', rm)))
                  \<or> (0 < j
                      \<and> (\<exists>ys' rm e c'.
                            executeSteps w (take (j - 1) (scope_cleanUpSteps sco)) (scope_env sco1) sco1 rb
                              = (Inr (), ys', rm)
                            \<and> executeStep w (scope_cleanUpSteps sco ! (j - 1)) (scope_env sco1) sco1 rm
                                = (Inl e, c', rc)
                            \<and> cres = Inl e)))))"
proof -
  have loop: "executeSteps w (steps sc) senv sco1 (storeScope name sco1 r4) = (Inl err, xs' @ s' # ys, rb)"
    using executeSteps_fail_at[OF before fails] split by simp
  obtain out6 r6 where fin: "finishScenario w sc name sco1 (Inl err) rb = (out6, r6)"
    by (cases "finishScenario w sc name sco1 (Inl err) rb")
  from executeScenario_stages[OF ps gv hook prov loop fin] run have r': "r' = r6" by simp
  have skip: "skipCleanUp rb = skipCleanUp r"
  proof -
    have "skipCleanUp r1 = skipCleanUp r" using prepareScope_effect[OF ps] by simp
    moreover have "skipCleanUp r2 = skipCleanUp r1"
      using generateValueFromPrefix_frame[OF gv] by (simp add: sameObject_def)
    moreover have "skipCleanUp r3 = skipCleanUp r2"
      using clientCall_effect[OF hook] by (simp add: sameObject_def)
    moreover have "skipCleanUp r4 = skipCleanUp r3"
      using doProvisionScope_effect[OF prov] by (simp add: sameObject_def)
    moreover have "skipCleanUp rb = skipCleanUp (storeScope name sco1 r4)"
      using executeSteps_effect[OF loop] by (simp add: sameObject_def)
    ultimately show ?thesis by (simp add: storeScope_def)
  qed
  have cs: "scope_cleanUpSteps sco1 = scope_cleanUpSteps sco"
    using doProvisionScope_effect[OF prov] by simp
  have a: "executedSteps (history rb) = executedSteps (history r4) @ xs @ [s]"
    using executeSteps_effect[OF before] executeStep_effect[OF fails]
    by (auto simp: storeScope_def)
  have b: "skipCleanUp r \<longrightarrow> r' = rb"
    using finishScenario_effect(1)[OF fin] skip r' by simp
  have c: "(\<exists>cres sco2 rc j. cleanUpScope w sco1 rb = (cres, sco2, rc)
               \<and> r' = storeScope name sco2 rc
               \<and> j \<le> length (scope_cleanUpSteps sco)
               \<and> executedSteps (history r') = executedSteps (history rb) @ take j (scope_cleanUpSteps sco)
               \<and> (scope_cleanUpSteps sco \<noteq> [] \<longrightarrow> 0 < j)
               \<and> (case cres of Inl _ \<Rightarrow> True | Inr _ \<Rightarrow> j = length (scope_cleanUpSteps sco))
               \<and> ((j = length (scope_cleanUpSteps sco)
                    \<and> (\<exists>cs' rm. executeSteps w (scope_cleanUpSteps sco) (scope_env sco1) sco1 rb
                                    = (Inr (), cs', rm)))
                  \<or> (0 < j
                      \<and> (\<exists>ys' rm e c'.
                            executeSteps w (take (j - 1) (scope_cleanUpSteps sco)) (scope_env sco1) sco1 rb
                              = (Inr (), ys', rm)
                            \<and> executeStep w (scope_cleanUpSteps sco ! (j - 1)) (scope_env sco1) sco1 rm
                                = (Inl e, c', rc)
                            \<and> cres = Inl e))))"
    if ns: "\<not> skipCleanUp r"
  proof -
    from ns finishScenario_effect(2)[OF fin] skip obtain cres sco2 rc where
      cu: "cleanUpScope w sco1 rb = (cres, sco2, rc)" and r6: "r6 = storeScope name sco2 rc"
      by auto
    have hist: "executedSteps (history r') = executedSteps (history rc)"
      using r6 r' by (simp add: storeScope_def)
    from cleanUpScope_steps[OF cu, unfolded cs]
    consider
      (all) cs' rm where
        "executeSteps w (scope_cleanUpSteps sco) (scope_env sco1) sco1 rb = (Inr (), cs', rm)"
        "executedSteps (history rc) = executedSteps (history rb) @ scope_cleanUpSteps sco"
    | (stop) k ys' rm e c' where "k < length (scope_cleanUpSteps sco)"
        "executeSteps w (take k (scope_cleanUpSteps sco)) (scope_env sco1) sco1 rb = (Inr (), ys', rm)"
        "executeStep w (scope_cleanUpSteps sco ! k) (scope_env sco1) sco1 rm = (Inl e, c', rc)"
        "cres = Inl e"
        "executedSteps (history rc) = executedSteps (history rb) @ take (Suc k) (scope_cleanUpSteps sco)"
      by blast
    then have "\<exists>j. j \<le> length (scope_cleanUpSteps sco)
               \<and> executedSteps (history r') = executedSteps (history rb) @ take j (scope_cleanUpSteps sco)
               \<and> (scope_cleanUpSteps sco \<noteq> [] \<longrightarrow> 0 < j)
               \<and> (case cres of Inl _ \<Rightarrow> True | Inr _ \<Rightarrow> j = length (scope_cleanUpSteps sco))
               \<and> ((j = length (scope_cleanUpSteps sco)
                    \<and> (\<exists>cs' rm. executeSteps w (scope_cleanUpSteps sco) (scope_env sco1) sco1 rb
                                    = (Inr (), cs', rm)))
                  \<or> (0 < j
                      \<and> (\<exists>ys' rm e c'.
                            executeSteps w (take (j - 1) (scope_cleanUpSteps sco)) (scope_env sco1) sco1 rb
                              = (Inr (), ys', rm)
                            \<and> executeStep w (scope_cleanUpSteps sco ! (j - 1)) (scope_env sco1) sco1 rm
                                = (Inl e, c', rc)
                            \<and> cres = Inl e)))"
    proof cases
      case all
      with hist show ?thesis
        by (intro exI[of _ "length (scope_cleanUpSteps sco)"]) (auto split: sum.splits)
    next
      case stop
      with hist show ?thesis
        by (intro exI[of _ "Suc k"]) auto
    qed
    with cu r6 r' show ?thesis by blast
  qed
  from a b c show ?thesis by blast
qed


text \<open>The theorem at a scenario whose first step the client rejects, with clean-up on:
  after the two prepare steps, the first scenario step and both clean-up steps are
  executed, the second scenario step is not.\<close>

theorem failed_step_stops_scenario_witness:
  "steps (exampleScenario ''example'' True) = [] @ exampleRestCall ''step1'' # [exampleRestCall ''step2'']
   \<and> \<not> skipCleanUp exampleRunner
   \<and> executedSteps (history (snd (snd (executeScenario (exampleExternals [''step1''])
         (exampleDefinition ''Subscription'') (exampleScenario ''example'' True) exampleRunner))))
       = [exampleRestCall ''prepare1'', exampleRestCall ''prepare2'', exampleRestCall ''step1'',
          exampleRestCall ''cleanup1'', exampleRestCall ''cleanup2'']"
proof -
  let ?W = "exampleExternals [''step1'']"
  let ?D = "exampleDefinition ''Subscription''"
  let ?S = "exampleScenario ''example'' True"
  let ?R = "exampleRunner"
  define sco where "sco = snd (projr (fst (prepareScope ?W ?D ?S ?R)))"
  define r1 where "r1 = snd (prepareScope ?W ?D ?S ?R)"
  define senv where "senv = fst (generateValueFromPrefix ?W
     (setBatch (new_VariableEnv (Some (scope_env sco))) (variables ?S)) r1)"
  define r2 where "r2 = snd (generateValueFromPrefix ?W
     (setBatch (new_VariableEnv (Some (scope_env sco))) (variables ?S)) r1)"
  define r3 where "r3 = snd (clientCall ?W (PrepareScenario ?S senv) r2)"
  define sco1 where "sco1 = fst (snd (doProvisionScope ?W sco r3))"
  define r4 where "r4 = snd (snd (doProvisionScope ?W sco r3))"
  define s' where "s' = fst (snd (executeStep ?W (exampleRestCall ''step1'') senv sco1
      (storeScope ''_defaultScope'' sco1 r4)))"
  define rb where "rb = snd (snd (executeStep ?W (exampleRestCall ''step1'') senv sco1
      (storeScope ''_defaultScope'' sco1 r4)))"
  let ?X = "executeScenario ?W ?D ?S ?R"
  have ps: "prepareScope ?W ?D ?S ?R = (Inr (''_defaultScope'', sco), r1)"
    unfolding sco_def r1_def by (simp add: fast_defs Let_def)
  have gv: "generateValueFromPrefix ?W
     (setBatch (new_VariableEnv (Some (scope_env sco))) (variables ?S)) r1 = (senv, r2)"
    unfolding senv_def r2_def by simp
  have hook: "clientCall ?W (PrepareScenario ?S senv) r2 = (Inr (), r3)"
    unfolding r3_def by (simp add: clientCall_def exampleExternals_sel)
  have "fst (doProvisionScope ?W sco r3) = Inr True"
    unfolding sco_def r1_def senv_def r2_def r3_def
    by (simp add: fast_defs Let_def)
  then have prov: "doProvisionScope ?W sco r3 = (Inr True, sco1, r4)"
    unfolding sco1_def r4_def by (metis prod.collapse)
  have split: "steps ?S = [] @ exampleRestCall ''step1'' # [exampleRestCall ''step2'']"
    by (simp add: exampleScenario_def)
  have before: "executeSteps ?W [] senv sco1 (storeScope ''_defaultScope'' sco1 r4)
      = (Inr (), [], storeScope ''_defaultScope'' sco1 r4)"
    by simp
  have "fst (executeStep ?W (exampleRestCall ''step1'') senv sco1
      (storeScope ''_defaultScope'' sco1 r4)) = Inl (new_Error (''Failed to execute step step1: rejected ''
           @ [CHR 0x0A] @ ''client''))"
    unfolding sco_def r1_def senv_def r2_def r3_def sco1_def r4_def
    by (simp add: fast_defs Let_def)
  then have fails: "executeStep ?W (exampleRestCall ''step1'') senv sco1
      (storeScope ''_defaultScope'' sco1 r4) = (Inl (new_Error (''Failed to execute step step1: rejected ''
           @ [CHR 0x0A] @ ''client'')), s', rb)"
    unfolding s'_def rb_def by (metis prod.collapse)
  have run: "?X = (fst ?X, fst (snd ?X), snd (snd ?X))" by simp
  have skip: "\<not> skipCleanUp ?R" by (simp add: exampleRunner_def)
  have all: "executedSteps (history (snd (snd ?X)))
       = [exampleRestCall ''prepare1'', exampleRestCall ''prepare2'', exampleRestCall ''step1'',
          exampleRestCall ''cleanup1'', exampleRestCall ''cleanup2'']"
    by (simp add: fast_defs Let_def)
  from failed_step_stops_scenario[OF ps gv hook prov split before fails run] split skip all
  show ?thesis by simp
qed

text \<open>The claim as first stated fails when a clean-up step fails: with a client that
  rejects the first scenario step and the first clean-up step, the second clean-up step is
  never executed although \<^verbatim>\<open>skipCleanUp\<close> is not set.\<close>

theorem every_cleanup_step_counterexample:
  "\<not> skipCleanUp exampleRunner
   \<and> steps (exampleScenario ''example'' True) = [exampleRestCall ''step1'', exampleRestCall ''step2'']
   \<and> cleanUpSteps (exampleDefinition ''Subscription'')
        = [exampleRestCall ''cleanup1'', exampleRestCall ''cleanup2'']
   \<and> executedSteps (history (snd (snd (executeScenario (exampleExternals [''step1'', ''cleanup1''])
         (exampleDefinition ''Subscription'') (exampleScenario ''example'' True) exampleRunner))))
       = [exampleRestCall ''prepare1'', exampleRestCall ''prepare2'', exampleRestCall ''step1'',
          exampleRestCall ''cleanup1'']"
  by (simp add: fast_defs Let_def)

subsection \<open>C6: which errors carry the scenario's name\<close>

text \<open>
  Claim C6, as amended. Let \<^verbatim>\<open>executeScenario\<close> have resolved the scope. Every failure of
  the preparation hook, of provisioning, of the scenario's steps or of the clean-up reaches
  the caller. A failure of the hook, of provisioning or of the clean-up reaches it as it
  was raised, without the scenario's name. A failure of a scenario step reaches it as
  \<^verbatim>\<open>Failed to execute scenario: <scenario>: <message>\<close>, provided the clean-up is skipped or
  succeeds (a failing clean-up replaces it). Whatever \<^verbatim>\<open>executeStep\<close> raises is
  \<^verbatim>\<open>Failed to execute step <step>: ...\<close>, unless it is the error of resolving the step's
  environment, which is raised before the step is dispatched.
\<close>

theorem scenario_errors_reach_the_caller:
  assumes ps: "prepareScope w d sc r = (Inr (name, sco), r1)"
      and gv: "generateValueFromPrefix w (setBatch (new_VariableEnv (Some (scope_env sco))) (variables sc)) r1
                 = (senv, r2)"
      and hook: "clientCall w (PrepareScenario sc senv) r2 = (hres, r3)"
      and prov: "doProvisionScope w sco r3 = (pres, sco1, r4)"
      and loop: "executeSteps w (steps sc) senv sco1 (storeScope name sco1 r4) = (lres, ss, r5)"
      and cu: "cleanUpScope w sco1 r5 = (cres, sco2, r6)"
  shows "(hres = Inl e \<longrightarrow> fst (executeScenario w d sc r) = Inl e)
       \<and> (hres = Inr u \<and> pres = Inl e \<longrightarrow> fst (executeScenario w d sc r) = Inl e)
       \<and> (hres = Inr u \<and> pres = Inr b \<and> \<not> skipCleanUp r \<and> cres = Inl e \<longrightarrow>
            fst (executeScenario w d sc r) = Inl e)
       \<and> (hres = Inr u \<and> pres = Inr b \<and> lres = Inl e \<and> (skipCleanUp r \<or> cres = Inr u') \<longrightarrow>
            fst (executeScenario w d sc r)
              = Inl (new_Error (''Failed to execute scenario: '' @ scenario sc @ '': '' @ message e)))
       \<and> (\<forall>s env0 sco0 ra err s' rb. executeStep w s env0 sco0 ra = (Inl err, s', rb) \<longrightarrow>
            (\<exists>m. message err = ''Failed to execute step '' @ step_name s @ '': '' @ m)
            \<or> (resolveVariables ra \<and> (\<exists>e0. env_resolve w e0 = Inl err)))"
proof -
  have skip: "hres = Inr u \<Longrightarrow> skipCleanUp r5 = skipCleanUp r"
  proof -
    have "skipCleanUp r1 = skipCleanUp r" using prepareScope_effect[OF ps] by simp
    moreover have "skipCleanUp r2 = skipCleanUp r1"
      using generateValueFromPrefix_frame[OF gv] by (simp add: sameObject_def)
    moreover have "skipCleanUp r3 = skipCleanUp r2"
      using clientCall_effect[OF hook] by (simp add: sameObject_def)
    moreover have "skipCleanUp r4 = skipCleanUp r3"
      using doProvisionScope_effect[OF prov] by (simp add: sameObject_def)
    moreover have "skipCleanUp r5 = skipCleanUp (storeScope name sco1 r4)"
      using executeSteps_effect[OF loop] by (simp add: sameObject_def)
    ultimately show ?thesis by (simp add: storeScope_def)
  qed
  have a: "hres = Inl e \<longrightarrow> fst (executeScenario w d sc r) = Inl e"
    using ps gv hook by (simp add: executeScenario_def)
  have b: "hres = Inr u \<and> pres = Inl e \<longrightarrow> fst (executeScenario w d sc r) = Inl e"
    using ps gv hook prov by (simp add: executeScenario_def)
  have c: "hres = Inr u \<and> pres = Inr b \<and> \<not> skipCleanUp r \<and> cres = Inl e \<longrightarrow>
            fst (executeScenario w d sc r) = Inl e"
    using ps gv hook prov loop cu skip
    by (auto simp: executeScenario_def finishScenario_def Let_def)
  have d: "hres = Inr u \<and> pres = Inr b \<and> lres = Inl e \<and> (skipCleanUp r \<or> cres = Inr u') \<longrightarrow>
            fst (executeScenario w d sc r)
              = Inl (new_Error (''Failed to execute scenario: '' @ scenario sc @ '': '' @ message e))"
    using ps gv hook prov loop cu skip
    by (auto simp: executeScenario_def finishScenario_def Let_def)
  from a b c d executeStep_error show ?thesis by blast
qed

text \<open>The theorem at a resource-group scope with clean-up on, for a client that rejects
  the creation of the resource group, one that rejects the first scenario step and one
  that rejects the first clean-up step: only the scenario step's error comes back with the
  scenario's name.\<close>

theorem scenario_errors_reach_the_caller_witness:
  "fst (executeScenario (exampleExternals [''createResourceGroup'']) (exampleDefinition ''ResourceGroup'')
         (exampleScenario ''example'' True) exampleRunner)
     = Inl \<lparr>message = ''rejected'', stack = ''client''\<rparr>
   \<and> fst (executeScenario (exampleExternals [''step1'']) (exampleDefinition ''ResourceGroup'')
         (exampleScenario ''example'' True) exampleRunner)
     = Inl (new_Error (''Failed to execute scenario: example: Failed to execute step step1: rejected ''
                       @ [CHR 0x0A] @ ''client''))
   \<and> fst (executeScenario (exampleExternals [''cleanup1'']) (exampleDefinition ''ResourceGroup'')
         (exampleScenario ''example'' True) exampleRunner)
     = Inl (new_Error (''Failed to execute step cleanup1: rejected '' @ [CHR 0x0A] @ ''client''))"
proof -
  let ?D = "exampleDefinition ''ResourceGroup''"
  let ?S = "exampleScenario ''example'' True"
  let ?R = "exampleRunner"
  let ?rejected = "\<lparr>message = ''rejected'', stack = ''client''\<rparr>"
  let ?step1 = "new_Error (''Failed to execute step step1: rejected '' @ [CHR 0x0A] @ ''client'')"
  let ?cleanup1 = "new_Error (''Failed to execute step cleanup1: rejected '' @ [CHR 0x0A] @ ''client'')"
  have noskip: "\<not> skipCleanUp ?R" by (simp add: exampleRunner_def)
  have A: "fst (executeScenario (exampleExternals [''createResourceGroup'']) ?D ?S ?R) = Inl ?rejected"
  proof -
    let ?W = "exampleExternals [''createResourceGroup'']"
    have "stageOutcomes ?W ?D ?S ?R = Some (Inr (), Inl ?rejected,
            fst (snd (snd (the (stageOutcomes ?W ?D ?S ?R)))), snd (snd (snd (the (stageOutcomes ?W ?D ?S ?R)))))"
      by (simp add: stageOutcomes_def fast_defs Let_def)
    from stageOutcomes_stages[OF this]
    obtain name sco r1 senv r2 r3 sco1 r4 lres ss r5 cres sco2 r6 where
      ps: "prepareScope ?W ?D ?S ?R = (Inr (name, sco), r1)"
      and gv: "generateValueFromPrefix ?W (setBatch (new_VariableEnv (Some (scope_env sco))) (variables ?S)) r1
           = (senv, r2)"
      and hook: "clientCall ?W (PrepareScenario ?S senv) r2 = (Inr (), r3)"
      and prov: "doProvisionScope ?W sco r3 = (Inl ?rejected, sco1, r4)"
      and loop: "executeSteps ?W (steps ?S) senv sco1 (storeScope name sco1 r4) = (lres, ss, r5)"
      and cu: "cleanUpScope ?W sco1 r5 = (cres, sco2, r6)"
      by blast
    from scenario_errors_reach_the_caller[OF ps gv hook prov loop cu, of ?rejected "()"]
    show ?thesis by simp
  qed
  have B: "fst (executeScenario (exampleExternals [''step1'']) ?D ?S ?R)
     = Inl (new_Error (''Failed to execute scenario: example: Failed to execute step step1: rejected ''
                       @ [CHR 0x0A] @ ''client''))"
  proof -
    let ?W = "exampleExternals [''step1'']"
    have "stageOutcomes ?W ?D ?S ?R = Some (Inr (), Inr True, Inl ?step1, Inr ())"
      by (simp add: stageOutcomes_def fast_defs Let_def)
    from stageOutcomes_stages[OF this]
    obtain name sco r1 senv r2 r3 sco1 r4 ss r5 sco2 r6 where
      ps: "prepareScope ?W ?D ?S ?R = (Inr (name, sco), r1)"
      and gv: "generateValueFromPrefix ?W (setBatch (new_VariableEnv (Some (scope_env sco))) (variables ?S)) r1
           = (senv, r2)"
      and hook: "clientCall ?W (PrepareScenario ?S senv) r2 = (Inr (), r3)"
      and prov: "doProvisionScope ?W sco r3 = (Inr True, sco1, r4)"
      and loop: "executeSteps ?W (steps ?S) senv sco1 (storeScope name sco1 r4) = (Inl ?step1, ss, r5)"
      and cu: "cleanUpScope ?W sco1 r5 = (Inr (), sco2, r6)"
      by blast
    from scenario_errors_reach_the_caller[OF ps gv hook prov loop cu, of ?step1 "()" True "()"]
    show ?thesis by (simp add: exampleScenario_def new_Error_def)
  qed
  have C: "fst (executeScenario (exampleExternals [''cleanup1'']) ?D ?S ?R) = Inl ?cleanup1"
  proof -
    let ?W = "exampleExternals [''cleanup1'']"
    have "stageOutcomes ?W ?D ?S ?R = Some (Inr (), Inr True, Inr (), Inl ?cleanup1)"
      by (simp add: stageOutcomes_def fast_defs Let_def)
    from stageOutcomes_stages[OF this]
    obtain name sco r1 senv r2 r3 sco1 r4 ss r5 sco2 r6 where
      ps: "prepareScope ?W ?D ?S ?R = (Inr (name, sco), r1)"
      and gv: "generateValueFromPrefix ?W (setBatch (new_VariableEnv (Some (scope_env sco))) (variables ?S)) r1
           = (senv, r2)"
      and hook: "clientCall ?W (PrepareScenario ?S senv) r2 = (Inr (), r3)"
      and prov: "doProvisionScope ?W sco r3 = (Inr True, sco1, r4)"
      and loop: "executeSteps ?W (steps ?S) senv sco1 (storeScope name sco1 r4) = (Inr (), ss, r5)"
      and cu: "cleanUpScope ?W sco1 r5 = (Inl ?cleanup1, sco2, r6)"
      by blast
    from scenario_errors_reach_the_caller[OF ps gv hook prov loop cu, of ?cleanup1 "()" True "()"] noskip
    show ?thesis by simp
  qed
  from A B C show ?thesis by blast
qed

text \<open>The claim as first stated fails for provisioning and for clean-up: a rejected creation
  of the resource group reaches the caller as the client raised it, and a rejected clean-up
  step reaches it with the step's name only; neither names the scenario \<open>example\<close>.\<close>

theorem scenario_identity_counterexample:
  "fst (executeScenario (exampleExternals [''createResourceGroup'']) (exampleDefinition ''ResourceGroup'')
         (exampleScenario ''example'' True) exampleRunner)
     = Inl \<lparr>message = ''rejected'', stack = ''client''\<rparr>
   \<and> fst (executeScenario (exampleExternals [''cleanup1'']) (exampleDefinition ''ResourceGroup'')
         (exampleScenario ''example'' True) exampleRunner)
     = Inl \<lparr>message = ''Failed to execute step cleanup1: rejected '' @ [CHR 0x0A] @ ''client'',
            stack = ''Error: Failed to execute step cleanup1: rejected '' @ [CHR 0x0A] @ ''client''\<rparr>"
  by (simp add: fast_defs Let_def)

subsection \<open>C9: failures before the scenario's steps\<close>

text \<open>
  Claim C9. Let \<^verbatim>\<open>executeScenario\<close> have resolved the scope. If the client's
  preparation hook fails, or the hook succeeds and the provisioning routine fails, then
  \<^verbatim>\<open>executeScenario\<close> fails with that very error, whether or not \<^verbatim>\<open>skipCleanUp\<close> is set;
  the only steps it has executed are an initial segment of the scope's prepare steps
  (none when the hook failed), so no clean-up step ran as such, and it has requested no
  deletion of a resource group.
\<close>

theorem no_cleanup_when_setup_fails:
  assumes ps: "prepareScope w d sc r = (Inr (name, sco), r1)"
      and gv: "generateValueFromPrefix w (setBatch (new_VariableEnv (Some (scope_env sco))) (variables sc)) r1
                 = (senv, r2)"
      and hook: "clientCall w (PrepareScenario sc senv) r2 = (hres, r3)"
      and prov: "doProvisionScope w sco r3 = (pres, sco1, r4)"
  shows "(hres = Inl err \<longrightarrow>
            executeScenario w d sc r = (Inl err, sc, r3)
            \<and> executedSteps (history r3) = executedSteps (history r)
            \<and> deleteRequests (history r3) = deleteRequests (history r))
       \<and> (hres = Inr u \<and> pres = Inl err \<longrightarrow>
            executeScenario w d sc r = (Inl err, sc, storeScope name sco1 r4)
            \<and> (\<exists>k \<le> length (scope_prepareSteps sco).
                  executedSteps (history (storeScope name sco1 r4))
                    = executedSteps (history r) @ take k (scope_prepareSteps sco))
            \<and> deleteRequests (history (storeScope name sco1 r4)) = deleteRequests (history r))"
proof -
  have h1: "history r1 = history r" using prepareScope_effect[OF ps] by simp
  have h2: "history r2 = history r1" using generateValueFromPrefix_frame[OF gv] by simp
  have h3: "history r3 = history r2 @ [PrepareScenario sc senv]" using clientCall_effect[OF hook] by simp
  have e3: "executedSteps (history r3) = executedSteps (history r)"
    and d3: "deleteRequests (history r3) = deleteRequests (history r)"
    using h1 h2 h3 by (simp_all add: executedSteps_append deleteRequests_append)
  have a: "hres = Inl err \<longrightarrow>
            executeScenario w d sc r = (Inl err, sc, r3)
            \<and> executedSteps (history r3) = executedSteps (history r)
            \<and> deleteRequests (history r3) = deleteRequests (history r)"
    using ps gv hook e3 d3 by (simp add: executeScenario_def)
  have b: "hres = Inr u \<and> pres = Inl err \<longrightarrow>
            executeScenario w d sc r = (Inl err, sc, storeScope name sco1 r4)
            \<and> (\<exists>k \<le> length (scope_prepareSteps sco).
                  executedSteps (history (storeScope name sco1 r4))
                    = executedSteps (history r) @ take k (scope_prepareSteps sco))
            \<and> deleteRequests (history (storeScope name sco1 r4)) = deleteRequests (history r)"
  proof
    assume f: "hres = Inr u \<and> pres = Inl err"
    have run: "executeScenario w d sc r = (Inl err, sc, storeScope name sco1 r4)"
      using ps gv hook prov f by (simp add: executeScenario_def)
    from doProvisionScope_effect[OF prov] obtain k where
      "k \<le> length (scope_prepareSteps sco)"
      "executedSteps (history r4) = executedSteps (history r3) @ take k (scope_prepareSteps sco)"
      and d4: "deleteRequests (history r4) = deleteRequests (history r3)"
      by blast
    with run e3 d3 show "executeScenario w d sc r = (Inl err, sc, storeScope name sco1 r4)
            \<and> (\<exists>k \<le> length (scope_prepareSteps sco).
                  executedSteps (history (storeScope name sco1 r4))
                    = executedSteps (history r) @ take k (scope_prepareSteps sco))
            \<and> deleteRequests (history (storeScope name sco1 r4)) = deleteRequests (history r)"
      by (auto simp: storeScope_def)
  qed
  from a b show ?thesis by blast
qed


text \<open>The theorem at a resource-group scope with clean-up on. When the client rejects the
  preparation hook, the hook is the only thing that happened. When the client rejects the
  second prepare step, the resource group has been created and both prepare steps
  executed, and neither a clean-up step nor a deletion follows.\<close>

theorem no_cleanup_when_setup_fails_witness:
  "\<not> skipCleanUp exampleRunner
   \<and> fst (executeScenario (exampleExternals [''prepareScenario'']) (exampleDefinition ''ResourceGroup'')
         (exampleScenario ''example'' True) exampleRunner)
       = Inl \<lparr>message = ''rejected'', stack = ''client''\<rparr>
   \<and> history (snd (snd (executeScenario (exampleExternals [''prepareScenario''])
         (exampleDefinition ''ResourceGroup'') (exampleScenario ''example'' True) exampleRunner)))
       = [PrepareScenario (exampleScenario ''example'' True)
            (VariableEnv [] (Some (scope_env (snd (projr (fst (prepareScope
               (exampleExternals [''prepareScenario'']) (exampleDefinition ''ResourceGroup'')
               (exampleScenario ''example'' True) exampleRunner)))))))]
   \<and> fst (executeScenario (exampleExternals [''prepare2'']) (exampleDefinition ''ResourceGroup'')
         (exampleScenario ''example'' True) exampleRunner)
       = Inl (new_Error (''Failed to execute step prepare2: rejected '' @ [CHR 0x0A] @ ''client''))
   \<and> executedSteps (history (snd (snd (executeScenario (exampleExternals [''prepare2''])
         (exampleDefinition ''ResourceGroup'') (exampleScenario ''example'' True) exampleRunner))))
       = [exampleRestCall ''prepare1'', exampleRestCall ''prepare2'']
   \<and> deleteRequests (history (snd (snd (executeScenario (exampleExternals [''prepare2''])
         (exampleDefinition ''ResourceGroup'') (exampleScenario ''example'' True) exampleRunner))))
       = []"
proof -
  let ?D = "exampleDefinition ''ResourceGroup''"
  let ?S = "exampleScenario ''example'' True"
  let ?R = "exampleRunner"
  have skip: "\<not> skipCleanUp ?R" by (simp add: exampleRunner_def)
  have hookFails:
    "fst (executeScenario (exampleExternals [''prepareScenario'']) ?D ?S ?R)
       = Inl \<lparr>message = ''rejected'', stack = ''client''\<rparr>
     \<and> history (snd (snd (executeScenario (exampleExternals [''prepareScenario'']) ?D ?S ?R)))
       = [PrepareScenario ?S
            (VariableEnv [] (Some (scope_env (snd (projr (fst (prepareScope
               (exampleExternals [''prepareScenario'']) ?D ?S ?R)))))))]"
  proof -
    let ?W = "exampleExternals [''prepareScenario'']"
    define sco where "sco = snd (projr (fst (prepareScope ?W ?D ?S ?R)))"
    define r1 where "r1 = snd (prepareScope ?W ?D ?S ?R)"
    define senv where "senv = fst (generateValueFromPrefix ?W
       (setBatch (new_VariableEnv (Some (scope_env sco))) (variables ?S)) r1)"
    define r2 where "r2 = snd (generateValueFromPrefix ?W
       (setBatch (new_VariableEnv (Some (scope_env sco))) (variables ?S)) r1)"
    define r3 where "r3 = snd (clientCall ?W (PrepareScenario ?S senv) r2)"
    define pres where "pres = fst (doProvisionScope ?W sco r3)"
    define sco1 where "sco1 = fst (snd (doProvisionScope ?W sco r3))"
    define r4 where "r4 = snd (snd (doProvisionScope ?W sco r3))"
    have ps: "prepareScope ?W ?D ?S ?R = (Inr (''_defaultScope'', sco), r1)"
      unfolding sco_def r1_def by (simp add: fast_defs Let_def)
    have gv: "generateValueFromPrefix ?W
       (setBatch (new_VariableEnv (Some (scope_env sco))) (variables ?S)) r1 = (senv, r2)"
      unfolding senv_def r2_def by simp
    have hook: "clientCall ?W (PrepareScenario ?S senv) r2
        = (Inl \<lparr>message = ''rejected'', stack = ''client''\<rparr>, r3)"
      unfolding r3_def by (simp add: clientCall_def exampleExternals_sel)
    have prov: "doProvisionScope ?W sco r3 = (pres, sco1, r4)"
      unfolding pres_def sco1_def r4_def by simp
    have senv: "senv = VariableEnv [] (Some (scope_env sco))"
      unfolding senv_def by (simp add: fast_defs)
    have h3: "history r3 = [PrepareScenario ?S senv]"
      unfolding r3_def r2_def r1_def
      by (simp add: fast_defs Let_def)
    from no_cleanup_when_setup_fails[OF ps gv hook prov,
        of "\<lparr>message = ''rejected'', stack = ''client''\<rparr>"] h3 senv
    show ?thesis unfolding sco_def by simp
  qed
  have provisioningFails:
    "fst (executeScenario (exampleExternals [''prepare2'']) ?D ?S ?R)
       = Inl (new_Error (''Failed to execute step prepare2: rejected '' @ [CHR 0x0A] @ ''client''))
     \<and> executedSteps (history (snd (snd (executeScenario (exampleExternals [''prepare2'']) ?D ?S ?R))))
       = [exampleRestCall ''prepare1'', exampleRestCall ''prepare2'']
     \<and> deleteRequests (history (snd (snd (executeScenario (exampleExternals [''prepare2'']) ?D ?S ?R))))
       = []"
  proof -
    let ?W = "exampleExternals [''prepare2'']"
    let ?e = "new_Error (''Failed to execute step prepare2: rejected '' @ [CHR 0x0A] @ ''client'')"
    define sco where "sco = snd (projr (fst (prepareScope ?W ?D ?S ?R)))"
    define r1 where "r1 = snd (prepareScope ?W ?D ?S ?R)"
    define senv where "senv = fst (generateValueFromPrefix ?W
       (setBatch (new_VariableEnv (Some (scope_env sco))) (variables ?S)) r1)"
    define r2 where "r2 = snd (generateValueFromPrefix ?W
       (setBatch (new_VariableEnv (Some (scope_env sco))) (variables ?S)) r1)"
    define r3 where "r3 = snd (clientCall ?W (PrepareScenario ?S senv) r2)"
    define sco1 where "sco1 = fst (snd (doProvisionScope ?W sco r3))"
    define r4 where "r4 = snd (snd (doProvisionScope ?W sco r3))"
    have ps: "prepareScope ?W ?D ?S ?R = (Inr (''_defaultScope'', sco), r1)"
      unfolding sco_def r1_def by (simp add: fast_defs Let_def)
    have gv: "generateValueFromPrefix ?W
       (setBatch (new_VariableEnv (Some (scope_env sco))) (variables ?S)) r1 = (senv, r2)"
      unfolding senv_def r2_def by simp
    have hook: "clientCall ?W (PrepareScenario ?S senv) r2 = (Inr (), r3)"
      unfolding r3_def by (simp add: clientCall_def exampleExternals_sel)
    have "fst (doProvisionScope ?W sco r3) = Inl ?e"
      unfolding sco_def r1_def senv_def r2_def r3_def
      by (simp add: fast_defs Let_def)
    then have prov: "doProvisionScope ?W sco r3 = (Inl ?e, sco1, r4)"
      unfolding sco1_def r4_def by (metis prod.collapse)
    have ev: "executedSteps (history (snd (snd (executeScenario ?W ?D ?S ?R))))
       = [exampleRestCall ''prepare1'', exampleRestCall ''prepare2'']"
      by (simp add: fast_defs Let_def)
    from no_cleanup_when_setup_fails[OF ps gv hook prov, of ?e "()"] ev
    show ?thesis by (simp add: exampleRunner_def)
  qed
  from skip hookFails provisioningFails show ?thesis by blast
qed
subsection \<open>C7: shared and separate scopes\<close>




section \<open>Claims about the compiler\<close>

subsection \<open>C3: a template parameter required by two steps\<close>

text \<open>
  Claim C3 fails on the code. Two template steps of one scenario whose templates both
  declare the string parameter \<open>adminName\<close>, without a default and bound by no variable, are
  compiled without error, and the scenario's \<^verbatim>\<open>requiredVariables\<close> lists \<open>adminName\<close> twice:
  \<^verbatim>\<open>loadStepArmTemplate\<close> pushes the name without looking whether the list has it, unlike
  \<^verbatim>\<open>requireVariable\<close> in \<^verbatim>\<open>loadStepRestCall\<close>.
\<close>

theorem template_parameter_required_twice:
  "map requiredVariables (scenarios (projr (compileExample
       [rawTemplateStep ''deployStorage'' ''storage.json'',
        rawTemplateStep ''deployNetwork'' ''network.json''])))
     = [[''subscriptionId'', ''location'', ''adminName'', ''adminName'']]
   \<and> \<not> isl (compileExample
       [rawTemplateStep ''deployStorage'' ''storage.json'',
        rawTemplateStep ''deployNetwork'' ''network.json''])"
  by (simp add: loader_defs Let_def)


subsection \<open>C4: two steps of one name\<close>

text \<open>
  Claim C4 fails on the code. Two template steps named \<open>deploy\<close> in one scenario are
  compiled without error, and so are an operation step and a template step both named
  \<open>get\<close>; only a second REST call step of a tracked name is refused with
  \<^verbatim>\<open>Duplicated step name\<close>. \<^verbatim>\<open>loadStepArmTemplate\<close> and \<^verbatim>\<open>loadStepArmDeploymentScript\<close> neither
  look a name up in \<^verbatim>\<open>stepTracking\<close> nor enter one.
\<close>

theorem template_steps_share_a_name:
  "map (map step_name \<circ> steps) (scenarios (projr (compileExample
       [rawTemplateStep ''deploy'' ''a.json'', rawTemplateStep ''deploy'' ''b.json''])))
     = [[''deploy'', ''deploy'']]
   \<and> \<not> isl (compileExample [rawTemplateStep ''deploy'' ''a.json'', rawTemplateStep ''deploy'' ''b.json''])
   \<and> map (map step_name \<circ> steps) (scenarios (projr (compileExample
       [rawOperationStep ''get'' ''Things_Get'', rawTemplateStep ''get'' ''a.json''])))
     = [[''get'', ''get'']]
   \<and> compileExample [rawOperationStep ''get'' ''Things_Get'', rawOperationStep ''get'' ''Things_Get'']
     = Inl (new_Error ''Failed to load step get: Duplicated step name: get'')"
  by (simp add: loader_defs Let_def)


subsection \<open>C5: the api-version of a fixture step\<close>

text \<open>
  Claim C5, as amended. Let a fixture step be compiled without a request patch, and let
  the parameter convention of the template generator leave the step's operation id and its
  \<^verbatim>\<open>api-version\<close> entry alone. If the fixture supplies a truthy \<^verbatim>\<open>api-version\<close>, the compiled
  step's \<^verbatim>\<open>api-version\<close> is the version the index pins for the step's operation. If the
  fixture supplies none, or a falsy one, the compiled step's \<^verbatim>\<open>api-version\<close> is what the
  fixture has: absent when the fixture has none.
\<close>

theorem fixture_api_version:
  assumes run: "loadStepRestCall x ld rawStep ctx = Inr (st, ctx')"
      and noOp: "raw_operationId rawStep = None"
      and example: "raw_exampleFile rawStep = Some file"
      and fixture: "loadExampleFile x (pathJoinDirName x (filePath (scenarioDef ctx)) file) = Inr fixture"
      and noPatch: "raw_requestUpdate rawStep = None"
      and conv: "\<And>s g opn. operationId (exampleParameterConvention x s g opn) = operationId s
                  \<and> map_of (parameters (exampleParameterConvention x s g opn)) ''api-version''
                      = map_of (parameters s) ''api-version''"
      and pinned: "map_of (apiVersionsMap ld) (operationId st) = Some v"
  shows "(truthy (map_of (ex_parameters fixture) ''api-version'') \<longrightarrow>
            map_of (parameters st) ''api-version'' = Some (JStr v))
       \<and> (\<not> truthy (map_of (ex_parameters fixture) ''api-version'') \<longrightarrow>
            map_of (parameters st) ''api-version'' = map_of (ex_parameters fixture) ''api-version'')"
proof -
  from run noOp obtain st0 ctx1 where
    br: "loadExampleBranch x ld rawStep st0 ctx1 = Inr (st, ctx')"
    and sd: "scenarioDef ctx1 = scenarioDef ctx"
    by (auto simp: loadStepRestCall_def Let_def split: if_splits sum.splits)
  from br example fixture sd obtain st3 opn st5 where
    ap: "applyPatches x
           (st3\<lparr>parameters := forceApiVersion (apiVersionsMap ld) (operationId st3) (ex_parameters fixture),
                responses := ex_responses fixture\<rparr>) rawStep opn = Inr st5"
    and st: "st = exampleParameterConvention x st5 (getVariable st5 ctx1) opn"
    by (auto simp: loadExampleBranch_def Let_def split: sum.splits)
  from applyPatches_without_requestUpdate[OF ap noPatch]
  have p5: "parameters st5 = forceApiVersion (apiVersionsMap ld) (operationId st3) (ex_parameters fixture)"
    and o5: "operationId st5 = operationId st3" by simp_all
  have "operationId st = operationId st3" using st conv o5 by simp
  with pinned have v: "map_of (apiVersionsMap ld) (operationId st3) = Some v" by simp
  have "map_of (parameters st) ''api-version''
          = map_of (forceApiVersion (apiVersionsMap ld) (operationId st3) (ex_parameters fixture)) ''api-version''"
    using st conv p5 by simp
  then show ?thesis using v by (simp add: forceApiVersion_entry)
qed

text \<open>The theorem at the two fixtures: the fixture's \<open>2019-06-01\<close> is replaced by the pinned
  \<open>2020-01-01\<close>; the fixture without an \<^verbatim>\<open>api-version\<close> gives a step without one.\<close>

theorem fixture_api_version_witness:
  "map_of (parameters (fst (projr (loadStepRestCall (exampleLoaderExternals (exampleRawDefinition []))
       exampleLoaded (rawExampleStep ''get'' ''with-version.json'') exampleContext)))) ''api-version''
     = Some (JStr ''2020-01-01'')
   \<and> map_of (ex_parameters (exampleFixture ''with-version.json'')) ''api-version''
     = Some (JStr ''2019-06-01'')
   \<and> map_of (parameters (fst (projr (loadStepRestCall (exampleLoaderExternals (exampleRawDefinition []))
       exampleLoaded (rawExampleStep ''get'' ''without-version.json'') exampleContext)))) ''api-version''
     = None"
proof -
  let ?X = "exampleLoaderExternals (exampleRawDefinition [])"
  have conv: "operationId (exampleParameterConvention ?X s g opn) = operationId s
                  \<and> map_of (parameters (exampleParameterConvention ?X s g opn)) ''api-version''
                      = map_of (parameters s) ''api-version''" for s g opn
    by (simp add: exampleLoaderExternals_def)
  have A: "map_of (parameters (fst (projr (loadStepRestCall ?X exampleLoaded
             (rawExampleStep ''get'' ''with-version.json'') exampleContext)))) ''api-version''
            = Some (JStr ''2020-01-01'')"
  proof -
    let ?raw = "rawExampleStep ''get'' ''with-version.json''"
    let ?L = "loadStepRestCall ?X exampleLoaded ?raw exampleContext"
    have "\<not> isl ?L \<and> operationId (fst (projr ?L)) = ''Things_Get''"
      by (simp add: loader_defs Let_def)
    then have run: "?L = Inr (fst (projr ?L), snd (projr ?L))"
      and opId: "operationId (fst (projr ?L)) = ''Things_Get''"
      by (simp_all add: sum.expand)
    have noOp: "raw_operationId ?raw = None" and example: "raw_exampleFile ?raw = Some ''with-version.json''"
      and noPatch: "raw_requestUpdate ?raw = None"
      by (simp_all add: rawExampleStep_def emptyRawStep_def)
    have fixture: "loadExampleFile ?X (pathJoinDirName ?X (filePath (scenarioDef exampleContext))
                     ''with-version.json'') = Inr (exampleFixture ''with-version.json'')"
      by (simp add: exampleLoaderExternals_def)
    have pinned: "map_of (apiVersionsMap exampleLoaded) (operationId (fst (projr ?L))) = Some ''2020-01-01''"
      unfolding opId by (simp add: exampleLoaded_def exampleLoader_def)
    have t: "truthy (map_of (ex_parameters (exampleFixture ''with-version.json'')) ''api-version'')"
      by (simp add: exampleFixture_def)
    from fixture_api_version[OF run noOp example fixture noPatch conv pinned] t
    show ?thesis by simp
  qed
  have B: "map_of (parameters (fst (projr (loadStepRestCall ?X exampleLoaded
             (rawExampleStep ''get'' ''without-version.json'') exampleContext)))) ''api-version''
            = None"
  proof -
    let ?raw = "rawExampleStep ''get'' ''without-version.json''"
    let ?L = "loadStepRestCall ?X exampleLoaded ?raw exampleContext"
    have "\<not> isl ?L \<and> operationId (fst (projr ?L)) = ''Things_Get''"
      by (simp add: loader_defs Let_def)
    then have run: "?L = Inr (fst (projr ?L), snd (projr ?L))"
      and opId: "operationId (fst (projr ?L)) = ''Things_Get''"
      by (simp_all add: sum.expand)
    have noOp: "raw_operationId ?raw = None" and example: "raw_exampleFile ?raw = Some ''without-version.json''"
      and noPatch: "raw_requestUpdate ?raw = None"
      by (simp_all add: rawExampleStep_def emptyRawStep_def)
    have fixture: "loadExampleFile ?X (pathJoinDirName ?X (filePath (scenarioDef exampleContext))
                     ''without-version.json'') = Inr (exampleFixture ''without-version.json'')"
      by (simp add: exampleLoaderExternals_def)
    have pinned: "map_of (apiVersionsMap exampleLoaded) (operationId (fst (projr ?L))) = Some ''2020-01-01''"
      unfolding opId by (simp add: exampleLoaded_def exampleLoader_def)
    have t: "map_of (ex_parameters (exampleFixture ''without-version.json'')) ''api-version'' = None"
      by (simp add: exampleFixture_def)
    from fixture_api_version[OF run noOp example fixture noPatch conv pinned] t
    show ?thesis by simp
  qed
  have C: "map_of (ex_parameters (exampleFixture ''with-version.json'')) ''api-version''
     = Some (JStr ''2019-06-01'')"
    by (simp add: exampleFixture_def)
  from A B C show ?thesis by blast
qed

text \<open>The claim as first stated fails for a fixture without an \<^verbatim>\<open>api-version\<close>: the compiled
  step has none either, although the version index pins \<open>Things_Get\<close> at \<open>2020-01-01\<close>.\<close>

theorem fixture_without_api_version_counterexample:
  "map (\<lambda>sc. map (\<lambda>s. case s of RestCall st \<Rightarrow> map_of (parameters st) ''api-version''
                              | ArmTemplateDeployment st \<Rightarrow> None) (steps sc))
       (scenarios (projr (compileExample [rawExampleStep ''get'' ''without-version.json''])))
     = [[None]]
   \<and> \<not> isl (compileExample [rawExampleStep ''get'' ''without-version.json''])
   \<and> map_of (apiVersionsMap (snd (load
         (exampleLoaderExternals (exampleRawDefinition [rawExampleStep ''get'' ''without-version.json'']))
         ''scenario.yaml'' exampleLoader))) ''Things_Get'' = Some ''2020-01-01''"
  by (simp add: loader_defs Let_def)

subsection \<open>C10: a scenario that omits shareScope\<close>



end
